theory Spec2Isabelle
  imports Main "HOL-Library.Word"
begin

unbundle bit_operations_syntax

section \<open>Vulkan base types\<close>

text \<open>
  The structure-type enumeration of the Vulkan headers.  Only the enumerators that
  \<^verbatim>\<open>vulkan_profiles.cpp\<close> names in its control flow are spelled out; every other
  enumerator is \<open>VK_STRUCTURE_TYPE_OTHER n\<close>.  The header aliases
  \<^verbatim>\<open>VK_STRUCTURE_TYPE_PHYSICAL_DEVICE_FEATURES_2\<close> and
  \<^verbatim>\<open>VK_STRUCTURE_TYPE_PHYSICAL_DEVICE_IMAGE_ROBUSTNESS_FEATURES\<close> denote the same
  enumerators as their \<^verbatim>\<open>_KHR\<close> / \<^verbatim>\<open>_EXT\<close> spellings.
\<close>

datatype VkStructureType =
    VK_STRUCTURE_TYPE_PHYSICAL_DEVICE_FEATURES_2_KHR
  | VK_STRUCTURE_TYPE_PHYSICAL_DEVICE_ROBUSTNESS_2_FEATURES_EXT
  | VK_STRUCTURE_TYPE_PHYSICAL_DEVICE_IMAGE_ROBUSTNESS_FEATURES_EXT
  | VK_STRUCTURE_TYPE_PHYSICAL_DEVICE_VULKAN_1_3_FEATURES
  | VK_STRUCTURE_TYPE_PHYSICAL_DEVICE_TIMELINE_SEMAPHORE_FEATURES
  | VK_STRUCTURE_TYPE_PHYSICAL_DEVICE_PROPERTIES_2_KHR
  | VK_STRUCTURE_TYPE_FORMAT_PROPERTIES_2_KHR
  | VK_STRUCTURE_TYPE_OTHER nat

type_synonym VkBool32 = "32 word"

definition VK_TRUE :: VkBool32 where "VK_TRUE = 1"
definition VK_FALSE :: VkBool32 where "VK_FALSE = 0"

text \<open>
  The result codes that \<^verbatim>\<open>vulkan_profiles.cpp\<close> names; \<open>VK_RESULT_OTHER\<close> stands for
  any other code a foreign entry point may return.
\<close>

datatype VkResult =
    VK_SUCCESS
  | VK_INCOMPLETE
  | VK_ERROR_UNKNOWN
  | VK_ERROR_INITIALIZATION_FAILED
  | VK_ERROR_EXTENSION_NOT_PRESENT
  | VK_RESULT_OTHER int

text \<open>
  Positions of the members that \<^verbatim>\<open>vulkan_profiles.cpp\<close> accesses by name, counted in
  \<^verbatim>\<open>VkBool32\<close> slots after the \<^verbatim>\<open>sType\<close>/\<^verbatim>\<open>pNext\<close> header, as the Vulkan headers
  lay the structures out: \<^verbatim>\<open>VkPhysicalDeviceFeatures2::features.robustBufferAccess\<close>,
  \<^verbatim>\<open>VkPhysicalDeviceRobustness2FeaturesEXT::robustBufferAccess2\<close> and
  \<^verbatim>\<open>::robustImageAccess2\<close>, \<^verbatim>\<open>VkPhysicalDeviceImageRobustnessFeaturesEXT::robustImageAccess\<close>,
  \<^verbatim>\<open>VkPhysicalDeviceVulkan13Features::robustImageAccess\<close> and
  \<^verbatim>\<open>VkPhysicalDeviceTimelineSemaphoreFeatures::timelineSemaphore\<close>.
  \<^verbatim>\<open>VkPhysicalDeviceFeatures\<close> has 55 members, all \<^verbatim>\<open>VkBool32\<close>.
\<close>

definition robustBufferAccess :: nat where "robustBufferAccess = 0"
definition robustBufferAccess2 :: nat where "robustBufferAccess2 = 0"
definition robustImageAccess2 :: nat where "robustImageAccess2 = 1"
definition robustImageAccess :: nat where "robustImageAccess = 0"
definition robustImageAccess_13 :: nat where "robustImageAccess_13 = 0"
definition timelineSemaphore :: nat where "timelineSemaphore = 0"
definition VkPhysicalDeviceFeatures_members :: nat where "VkPhysicalDeviceFeatures_members = 55"

section \<open>Profile descriptions and creation parameters\<close>

text \<open>
  The structures of the library's header and of \<^verbatim>\<open>namespace detail\<close>.  A counted array
  (\<^verbatim>\<open>uint32_t count; const T* p\<close>) is a list; a fixed-size character array holding a
  C string is a \<open>string\<close>.  A member name that two structures share carries a short
  prefix in all but one of them.  A filler or comparator receives a pointer to a
  structure and switches on its \<open>sType\<close>; it is a function of the type and the payload
  (a filler returns the new payload).  Every generated chainer declares its structures,
  links them after \<open>p\<close> and calls the callback once; a chainer is the list of the types
  it links, in chain order.
\<close>

record VpProfileProperties =
  profileName :: string
  specVersion :: "32 word"

record VpBlockProperties =
  profiles :: VpProfileProperties
  apiVersion :: "32 word"
  blockName :: string

record VkExtensionProperties =
  extensionName :: string
  ext_specVersion :: "32 word"

type_synonym PFN_vpStructFiller = "VkStructureType \<Rightarrow> (nat \<Rightarrow> 32 word) \<Rightarrow> (nat \<Rightarrow> 32 word)"
type_synonym PFN_vpStructComparator = "VkStructureType \<Rightarrow> (nat \<Rightarrow> 32 word) \<Rightarrow> bool"
type_synonym PFN_vpStructChainer = "VkStructureType list"
type_synonym VkFormat = nat

record VpFeatureDesc =
  pfnFiller :: "PFN_vpStructFiller option"
  pfnComparator :: PFN_vpStructComparator

record VpFormatDesc =
  format :: VkFormat
  fmt_pfnFiller :: "PFN_vpStructFiller option"
  fmt_pfnComparator :: PFN_vpStructComparator

record VpStructChainerDesc =
  pfnFeature :: PFN_vpStructChainer
  pfnProperty :: PFN_vpStructChainer
  pfnQueueFamily :: PFN_vpStructChainer
  pfnFormat :: PFN_vpStructChainer

record VpVariantDesc =
  v_blockName :: string
  pInstanceExtensions :: "VkExtensionProperties list"
  pDeviceExtensions :: "VkExtensionProperties list"
  pFeatureStructTypes :: "VkStructureType list"
  feature :: VpFeatureDesc
  pPropertyStructTypes :: "VkStructureType list"
  property :: VpFeatureDesc
  pFormatStructTypes :: "VkStructureType list"
  pFormats :: "VpFormatDesc list"
  chainers :: VpStructChainerDesc

record VpCapabilitiesDesc =
  pVariants :: "VpVariantDesc list"

record VpProfileDesc =
  props :: VpProfileProperties
  minApiVersion :: "32 word"
  pRequiredProfiles :: "VpProfileProperties list"
  pRequiredCapabilities :: "VpCapabilitiesDesc list"
  pFallbacks :: "VpProfileProperties list"

datatype VpDeviceCreateFlagBits =
    VP_DEVICE_CREATE_DISABLE_ROBUST_BUFFER_ACCESS_BIT
  | VP_DEVICE_CREATE_DISABLE_ROBUST_IMAGE_ACCESS_BIT

text \<open>
  \<^verbatim>\<open>VkDeviceCreateInfo\<close> and \<^verbatim>\<open>VpDeviceCreateInfo\<close>.  The flags word is the set of its
  bits (\<^verbatim>\<open>flags & BIT\<close> is membership); the queue create infos are passed through
  unread and stay opaque.
\<close>

record VkDeviceCreateInfo =
  dci_pNext :: "nat option"
  pQueueCreateInfos :: "nat list"
  ppEnabledExtensionNames :: "string list"
  pEnabledFeatures :: "(nat \<Rightarrow> 32 word) option"

record VpDeviceCreateInfo =
  pCreateInfo :: VkDeviceCreateInfo
  flags :: "VpDeviceCreateFlagBits set"
  pEnabledFullProfiles :: "VpProfileProperties list"
  pEnabledProfileBlocks :: "VpBlockProperties list"

section \<open>Struct chains in memory\<close>

text \<open>
  A chain link is a \<^verbatim>\<open>VkBaseOutStructure\<close> header (\<open>sType\<close>, \<open>pNext\<close>) followed by
  the payload of the concrete structure.  \<^verbatim>\<open>FeaturesChain::ApplyFeatures\<close> views the
  payload as an array of \<^verbatim>\<open>VkBool32\<close> starting at \<^verbatim>\<open>sizeof(VkBaseOutStructure)\<close>;
  \<open>payload s i\<close> is the \<open>i\<close>-th such slot.  Pointers are \<open>addr option\<close> with
  \<open>None\<close> for \<^verbatim>\<open>nullptr\<close>, and the memory maps every address to the link stored there.
\<close>

type_synonym addr = nat

record VkBaseOutStructure =
  sType :: VkStructureType
  pNext :: "addr option"
  payload :: "nat \<Rightarrow> VkBool32"

type_synonym memory = "addr \<Rightarrow> VkBaseOutStructure"

text \<open>
  \<^verbatim>\<open>vpGetStructure\<close>: walk the chain until a link of the given type or the end.
  A result \<open>None\<close> of the outer option means that the walk does not terminate
  (a cyclic chain); \<open>Some None\<close> is the returned \<^verbatim>\<open>nullptr\<close>.
\<close>

partial_function (option) vpGetStructure ::
  "memory \<Rightarrow> addr option \<Rightarrow> VkStructureType \<Rightarrow> addr option option" where
  "vpGetStructure m p type =
     (case p of
        None \<Rightarrow> Some None
      | Some a \<Rightarrow> if sType (m a) = type then Some (Some a)
                  else vpGetStructure m (pNext (m a)) type)"

text \<open>
  The \<^verbatim>\<open>while (current != nullptr)\<close> loop of \<^verbatim>\<open>vpExtractStructure\<close>, with its three
  local variables \<open>current\<close>, \<open>previous\<close> and \<open>found\<close>.
\<close>

partial_function (option) vpExtractStructure_loop ::
  "VkStructureType \<Rightarrow> memory \<Rightarrow> addr option \<Rightarrow> addr option \<Rightarrow> addr option
     \<Rightarrow> (memory \<times> addr option) option" where
  "vpExtractStructure_loop structureType m current previous found =
     (case current of
        None \<Rightarrow> Some (m, found)
      | Some c \<Rightarrow>
          if structureType = sType (m c) then
            vpExtractStructure_loop structureType
              (case previous of
                 None \<Rightarrow> m
               | Some p \<Rightarrow> m(p := (m p)\<lparr>pNext := pNext (m c)\<rparr>))
              None previous (Some c)
          else vpExtractStructure_loop structureType m (pNext (m c)) (Some c) found)"

definition vpExtractStructure ::
  "memory \<Rightarrow> addr \<Rightarrow> VkStructureType \<Rightarrow> (memory \<times> addr option) option" where
  "vpExtractStructure m pFeatures structureType =
     (if structureType = VK_STRUCTURE_TYPE_PHYSICAL_DEVICE_FEATURES_2_KHR then Some (m, None)
      else
        case vpExtractStructure_loop structureType m (Some pFeatures) None None of
          None \<Rightarrow> None
        | Some (m', found) \<Rightarrow>
            (case found of
               Some f \<Rightarrow> Some (m'(f := (m' f)\<lparr>pNext := None\<rparr>), Some f)
             | None \<Rightarrow> Some (m', None)))"

section \<open>The feature aggregator\<close>

text \<open>
  \<^verbatim>\<open>struct FeaturesChain\<close>: the size table, the address of the head of the chain of all
  feature structures (\<open>physicalDeviceFeatures2KHR\<close>) and the address of the head of the
  chain handed to device creation (\<open>requiredFeaturesChain\<close>).  The member structures
  themselves live in the memory.
\<close>

record FeaturesChain =
  structureSize :: "VkStructureType \<rightharpoonup> nat"
  physicalDeviceFeatures2KHR :: addr
  requiredFeaturesChain :: addr

text \<open>
  Writing one \<^verbatim>\<open>VkBool32\<close> member of the structure at an address.
\<close>

definition set_member :: "memory \<Rightarrow> addr \<Rightarrow> nat \<Rightarrow> VkBool32 \<Rightarrow> memory" where
  "set_member m a i v = m(a := (m a)\<lparr>payload := (payload (m a))(i := v)\<rparr>)"

text \<open>
  \<^verbatim>\<open>FeaturesChain::ApplyRobustness\<close>, with the four version and extension macros of its
  \<^verbatim>\<open>#ifdef\<close>s defined.
\<close>

definition ApplyRobustness :: "FeaturesChain \<Rightarrow> memory \<Rightarrow> VpDeviceCreateInfo \<Rightarrow> memory option" where
  "ApplyRobustness fc m info =
     (case vpGetStructure m (Some (requiredFeaturesChain fc))
             VK_STRUCTURE_TYPE_PHYSICAL_DEVICE_FEATURES_2_KHR of
        None \<Rightarrow> None
      | Some pFeatures2 \<Rightarrow>
     let m1 = (case pFeatures2 of
                 Some a \<Rightarrow>
                   if VP_DEVICE_CREATE_DISABLE_ROBUST_BUFFER_ACCESS_BIT \<in> flags info
                   then set_member m a robustBufferAccess VK_FALSE else m
               | None \<Rightarrow> m)
     in
     (case vpGetStructure m1 (Some (requiredFeaturesChain fc))
             VK_STRUCTURE_TYPE_PHYSICAL_DEVICE_ROBUSTNESS_2_FEATURES_EXT of
        None \<Rightarrow> None
      | Some pRobustness2FeaturesEXT \<Rightarrow>
     let m2 = (case pRobustness2FeaturesEXT of
                 Some a \<Rightarrow>
                   let m' = (if VP_DEVICE_CREATE_DISABLE_ROBUST_BUFFER_ACCESS_BIT \<in> flags info
                             then set_member m1 a robustBufferAccess2 VK_FALSE else m1)
                   in if VP_DEVICE_CREATE_DISABLE_ROBUST_IMAGE_ACCESS_BIT \<in> flags info
                      then set_member m' a robustImageAccess2 VK_FALSE else m'
               | None \<Rightarrow> m1)
     in
     (case vpGetStructure m2 (Some (requiredFeaturesChain fc))
             VK_STRUCTURE_TYPE_PHYSICAL_DEVICE_IMAGE_ROBUSTNESS_FEATURES_EXT of
        None \<Rightarrow> None
      | Some pImageRobustnessFeaturesEXT \<Rightarrow>
     let m3 = (case pImageRobustnessFeaturesEXT of
                 Some a \<Rightarrow>
                   if VP_DEVICE_CREATE_DISABLE_ROBUST_IMAGE_ACCESS_BIT \<in> flags info
                   then set_member m2 a robustImageAccess VK_FALSE else m2
               | None \<Rightarrow> m2)
     in
     (case vpGetStructure m3 (Some (requiredFeaturesChain fc))
             VK_STRUCTURE_TYPE_PHYSICAL_DEVICE_VULKAN_1_3_FEATURES of
        None \<Rightarrow> None
      | Some pVulkan13Features \<Rightarrow>
          Some (case pVulkan13Features of
                  Some a \<Rightarrow>
                    if VP_DEVICE_CREATE_DISABLE_ROBUST_IMAGE_ACCESS_BIT \<in> flags info
                    then set_member m3 a robustImageAccess_13 VK_FALSE else m3
                | None \<Rightarrow> m3)))))"

text \<open>
  \<^verbatim>\<open>FeaturesChain::ApplyFeatures\<close>.  The only operation of the function that C++ leaves
  undefined is the write through \<open>pOutputStruct\<close> when \<open>vpGetStructure\<close> has returned
  null; the model stops there with \<open>Inl NullOutputStruct\<close> (\<open>BufferOverflow\<close> is the
  fault of the enumeration queries further down).
  \<open>ApplyFeatures_member\<close> is one iteration of the \<^verbatim>\<open>for\<close> loop over the members,
  \<open>ApplyFeatures_members\<close> the loop over the indices it is given, and
  \<open>ApplyFeatures_loop\<close> the \<^verbatim>\<open>while (q)\<close> loop.  \<^verbatim>\<open>std::map::operator[]\<close> inserts a
  value-initialised entry (the size 0) for a key that the table does not have.
\<close>

datatype fault = NullOutputStruct | BufferOverflow

definition ApplyFeatures_member ::
  "FeaturesChain \<Rightarrow> addr \<Rightarrow> nat \<Rightarrow> memory \<Rightarrow> (fault + memory) option" where
  "ApplyFeatures_member fc q index m =
     (case vpGetStructure m (Some (requiredFeaturesChain fc)) (sType (m q)) of
        None \<Rightarrow> None
      | Some None \<Rightarrow> Some (Inl NullOutputStruct)
      | Some (Some pOutputStruct) \<Rightarrow>
          Some (Inr (set_member m pOutputStruct index
            (if payload (m pOutputStruct) index = VK_TRUE \<or> payload (m q) index = VK_TRUE
             then VK_TRUE else VK_FALSE))))"

fun ApplyFeatures_members ::
  "FeaturesChain \<Rightarrow> addr \<Rightarrow> nat list \<Rightarrow> memory \<Rightarrow> (fault + memory) option" where
  "ApplyFeatures_members fc q [] m = Some (Inr m)"
| "ApplyFeatures_members fc q (index # indices) m =
     (case ApplyFeatures_member fc q index m of
        None \<Rightarrow> None
      | Some (Inl e) \<Rightarrow> Some (Inl e)
      | Some (Inr m') \<Rightarrow> ApplyFeatures_members fc q indices m')"

definition structureSize_at :: "FeaturesChain \<Rightarrow> VkStructureType \<Rightarrow> nat" where
  "structureSize_at fc t = (case structureSize fc t of None \<Rightarrow> 0 | Some n \<Rightarrow> n)"

definition structureSize_insert :: "FeaturesChain \<Rightarrow> VkStructureType \<Rightarrow> FeaturesChain" where
  "structureSize_insert fc t =
     fc\<lparr>structureSize := (structureSize fc)(t \<mapsto> structureSize_at fc t)\<rparr>"

partial_function (option) ApplyFeatures_loop ::
  "FeaturesChain \<Rightarrow> memory \<Rightarrow> addr option \<Rightarrow> (fault + FeaturesChain \<times> memory) option" where
  "ApplyFeatures_loop fc m q =
     (case q of
        None \<Rightarrow> Some (Inr (fc, m))
      | Some a \<Rightarrow>
          (case ApplyFeatures_members (structureSize_insert fc (sType (m a))) a
                  [0 ..< structureSize_at fc (sType (m a))] m of
             None \<Rightarrow> None
           | Some (Inl e) \<Rightarrow> Some (Inl e)
           | Some (Inr m') \<Rightarrow>
               ApplyFeatures_loop (structureSize_insert fc (sType (m a))) m' (pNext (m' a))))"

definition ApplyFeatures ::
  "FeaturesChain \<Rightarrow> memory \<Rightarrow> VpDeviceCreateInfo \<Rightarrow> (fault + FeaturesChain \<times> memory) option" where
  "ApplyFeatures fc m info =
     (case ApplyFeatures_loop fc m (dci_pNext (pCreateInfo info)) of
        None \<Rightarrow> None
      | Some (Inl e) \<Rightarrow> Some (Inl e)
      | Some (Inr (fc', m')) \<Rightarrow>
          (case ApplyRobustness fc' m' info of
             None \<Rightarrow> None
           | Some m'' \<Rightarrow> Some (Inr (fc', m''))))"

partial_function (option) PushBack_last :: "memory \<Rightarrow> addr \<Rightarrow> addr option" where
  "PushBack_last m lastp =
     (case pNext (m lastp) of
        None \<Rightarrow> Some lastp
      | Some n \<Rightarrow> PushBack_last m n)"

definition PushBack :: "FeaturesChain \<Rightarrow> memory \<Rightarrow> addr option \<Rightarrow> memory option" where
  "PushBack fc m found =
     (case PushBack_last m (requiredFeaturesChain fc) of
        None \<Rightarrow> None
      | Some lastp \<Rightarrow> Some (m(lastp := (m lastp)\<lparr>pNext := found\<rparr>)))"

fun Build :: "FeaturesChain \<Rightarrow> memory \<Rightarrow> VkStructureType list \<Rightarrow> memory option" where
  "Build fc m [] = Some m"
| "Build fc m (sTy # requiredList) =
     (if sTy = VK_STRUCTURE_TYPE_PHYSICAL_DEVICE_FEATURES_2_KHR then Build fc m requiredList
      else
        case vpExtractStructure m (physicalDeviceFeatures2KHR fc) sTy of
          None \<Rightarrow> None
        | Some (m', found) \<Rightarrow>
            (case found of
               None \<Rightarrow> Build fc m' requiredList
             | Some f \<Rightarrow>
                 (case PushBack fc m' (Some f) of
                    None \<Rightarrow> None
                  | Some m'' \<Rightarrow> Build fc m'' requiredList)))"

section \<open>Profile lookup, versions and extensions\<close>

text \<open>
  The table \<^verbatim>\<open>detail::profiles\<close> is built from macros of the generated header
  (\<^verbatim>\<open>VP_EXAMPLE_COMPUTE_NAME\<close>, \<^verbatim>\<open>..._SPEC_VERSION\<close>, \<^verbatim>\<open>..._MIN_API_VERSION\<close>) under
  \<^verbatim>\<open>#ifdef\<close>s, so every function that reads it takes the table as its first argument
  \<open>ps\<close>.  \<^verbatim>\<open>strncmp\<close> and \<^verbatim>\<open>strcmp\<close> on C strings that fit their arrays are
  equality of strings.
\<close>

definition vpGetProfileDesc :: "VpProfileDesc list \<Rightarrow> string \<Rightarrow> VpProfileDesc option" where
  "vpGetProfileDesc ps name = find (\<lambda>d. profileName (props d) = name) ps"

definition GatherProfiles ::
  "VpProfileDesc list \<Rightarrow> VpProfileProperties \<Rightarrow> string option \<Rightarrow> VpProfileProperties list" where
  "GatherProfiles ps profile pBlockName =
     (if pBlockName = None then
        (case vpGetProfileDesc ps (profileName profile) of
           Some profileDesc \<Rightarrow> pRequiredProfiles profileDesc
         | None \<Rightarrow> [])
      else []) @ [profile]"

text \<open>The version macros of the Vulkan headers.\<close>

definition VK_API_VERSION_MAJOR :: "32 word \<Rightarrow> 32 word" where
  "VK_API_VERSION_MAJOR version = drop_bit 22 version AND 0x7F"

definition VK_API_VERSION_MINOR :: "32 word \<Rightarrow> 32 word" where
  "VK_API_VERSION_MINOR version = drop_bit 12 version AND 0x3FF"

definition VK_MAKE_API_VERSION :: "32 word \<Rightarrow> 32 word \<Rightarrow> 32 word \<Rightarrow> 32 word \<Rightarrow> 32 word" where
  "VK_MAKE_API_VERSION variant major minor patch =
     push_bit 29 variant OR push_bit 22 major OR push_bit 12 minor OR patch"

definition VK_API_VERSION_1_0 :: "32 word" where
  "VK_API_VERSION_1_0 = VK_MAKE_API_VERSION 0 1 0 0"

definition VK_API_VERSION_1_1 :: "32 word" where
  "VK_API_VERSION_1_1 = VK_MAKE_API_VERSION 0 1 1 0"

definition VK_KHR_GET_PHYSICAL_DEVICE_PROPERTIES_2_EXTENSION_NAME :: string where
  "VK_KHR_GET_PHYSICAL_DEVICE_PROPERTIES_2_EXTENSION_NAME = ''VK_KHR_get_physical_device_properties2''"

definition vpCheckVersion :: "32 word \<Rightarrow> 32 word \<Rightarrow> bool" where
  "vpCheckVersion actual expected =
     (let actualMajor = VK_API_VERSION_MAJOR actual;
          actualMinor = VK_API_VERSION_MINOR actual;
          expectedMajor = VK_API_VERSION_MAJOR expected;
          expectedMinor = VK_API_VERSION_MINOR expected
      in actualMajor > expectedMajor \<or> (actualMajor = expectedMajor \<and> actualMinor \<ge> expectedMinor))"

primrec HasExtension :: "VkExtensionProperties list \<Rightarrow> VkExtensionProperties \<Rightarrow> bool" where
  "HasExtension [] element = False"
| "HasExtension (e # list) element =
     (if extensionName e = extensionName element then True else HasExtension list element)"

text \<open>
  The two overloads of \<^verbatim>\<open>CheckExtension\<close>: over an array of extension properties and
  over a vector of names.
\<close>

primrec CheckExtension :: "VkExtensionProperties list \<Rightarrow> string \<Rightarrow> bool" where
  "CheckExtension [] requestedExtension = False"
| "CheckExtension (e # supportedProperties) requestedExtension =
     (if extensionName e = requestedExtension then True
      else CheckExtension supportedProperties requestedExtension)"

primrec CheckExtension_names :: "string list \<Rightarrow> string \<Rightarrow> bool" where
  "CheckExtension_names [] extension = False"
| "CheckExtension_names (c # extensions) extension =
     (if c = extension then True else CheckExtension_names extensions extension)"

primrec GetExtensions :: "VkExtensionProperties list \<Rightarrow> string list \<Rightarrow> string list" where
  "GetExtensions [] extensions = extensions"
| "GetExtensions (e # pExtensions) extensions =
     GetExtensions pExtensions
       (if CheckExtension_names extensions (extensionName e) then extensions
        else extensions @ [extensionName e])"

definition GatherBlocks ::
  "VpProfileDesc list \<Rightarrow> VpProfileProperties list \<Rightarrow> VpBlockProperties list \<Rightarrow> VpBlockProperties list" where
  "GatherBlocks ps enabledFullProfiles enabledProfileBlocks =
     concat (map (\<lambda>profile.
         map (\<lambda>gathered. \<lparr>profiles = gathered, apiVersion = 0, blockName = ''''\<rparr>)
           (GatherProfiles ps profile None))
       enabledFullProfiles)
     @ enabledProfileBlocks"

section \<open>Instance-level support of one profile\<close>

text \<open>
  \<^verbatim>\<open>vpGetInstanceProfileSupportSingleProfile\<close>.  The in/out parameters \<open>pSupported\<close>,
  \<open>supportedBlocks\<close> and \<open>unsupportedBlocks\<close> are passed in and returned.  The local
  \<open>block\<close> only ever changes its \<open>blockName\<close>, and every \<^verbatim>\<open>push_back\<close> in the loops
  follows the \<^verbatim>\<open>memcpy\<close> of the variant's name, so the pushed value is \<open>block\<close> with
  that name.  \<open>instance_variant_extensions\<close> is the loop over the instance extensions of
  one variant (state: \<open>supported_variant\<close> and \<open>unsupportedBlocks\<close>),
  \<open>instance_variants\<close> the loop over the variants of one capability set (state:
  \<open>supported_capabilities\<close> and the two lists) and \<open>instance_capabilities\<close> the loop
  over the capability sets with its early return.
\<close>

record instance_support =
  pSupported :: VkBool32
  supportedBlocks :: "VpBlockProperties list"
  unsupportedBlocks :: "VpBlockProperties list"

primrec instance_variant_extensions ::
  "VkExtensionProperties list \<Rightarrow> VpBlockProperties \<Rightarrow> VpVariantDesc \<Rightarrow>
   VkExtensionProperties list \<Rightarrow> VkBool32 \<times> VpBlockProperties list \<Rightarrow> VkBool32 \<times> VpBlockProperties list" where
  "instance_variant_extensions supported_extensions block variant_desc [] st = st"
| "instance_variant_extensions supported_extensions block variant_desc (e # exts) st =
     instance_variant_extensions supported_extensions block variant_desc exts
       (if \<not> CheckExtension supported_extensions (extensionName e)
        then (VK_FALSE, snd st @ [block\<lparr>blockName := v_blockName variant_desc\<rparr>])
        else st)"

primrec instance_variants ::
  "VkExtensionProperties list \<Rightarrow> VpBlockProperties \<Rightarrow> VpVariantDesc list \<Rightarrow>
   VkBool32 \<times> VpBlockProperties list \<times> VpBlockProperties list \<Rightarrow>
   VkBool32 \<times> VpBlockProperties list \<times> VpBlockProperties list" where
  "instance_variants supported_extensions block [] st = st"
| "instance_variants supported_extensions block (variant_desc # variants) st =
     (case st of (supported_capabilities, supported, unsupported) \<Rightarrow>
        (case instance_variant_extensions supported_extensions block variant_desc
                (pInstanceExtensions variant_desc) (VK_TRUE, unsupported) of
           (supported_variant, unsupported') \<Rightarrow>
             instance_variants supported_extensions block variants
               (if supported_variant = VK_TRUE
                then (VK_TRUE, supported @ [block\<lparr>blockName := v_blockName variant_desc\<rparr>],
                      unsupported')
                else (supported_capabilities, supported, unsupported'))))"

primrec instance_capabilities ::
  "VkExtensionProperties list \<Rightarrow> VpBlockProperties \<Rightarrow> VpCapabilitiesDesc list \<Rightarrow>
   instance_support \<Rightarrow> instance_support" where
  "instance_capabilities supported_extensions block [] st = st"
| "instance_capabilities supported_extensions block (capabilities_desc # rest) st =
     (case instance_variants supported_extensions block (pVariants capabilities_desc)
             (VK_FALSE, supportedBlocks st, unsupportedBlocks st) of
        (supported_capabilities, supported, unsupported) \<Rightarrow>
          if supported_capabilities = VK_FALSE
          then st\<lparr>pSupported := VK_FALSE, supportedBlocks := supported,
                  unsupportedBlocks := unsupported\<rparr>
          else instance_capabilities supported_extensions block rest
                 (st\<lparr>supportedBlocks := supported, unsupportedBlocks := unsupported\<rparr>))"

definition vpGetInstanceProfileSupportSingleProfile ::
  "VpProfileDesc list \<Rightarrow> 32 word \<Rightarrow> VkExtensionProperties list \<Rightarrow> VpProfileProperties \<Rightarrow>
   instance_support \<Rightarrow> VkResult \<times> instance_support" where
  "vpGetInstanceProfileSupportSingleProfile ps api_version supported_extensions pProfile st =
     (case vpGetProfileDesc ps (profileName pProfile) of
        None \<Rightarrow> (VK_ERROR_UNKNOWN, st\<lparr>pSupported := VK_FALSE\<rparr>)
      | Some pProfileDesc \<Rightarrow>
          let block = \<lparr>profiles = pProfile, apiVersion = api_version, blockName = ''''\<rparr>;
              st1 = (if specVersion (props pProfileDesc) < specVersion pProfile
                     then st\<lparr>pSupported := VK_FALSE,
                             unsupportedBlocks := unsupportedBlocks st @ [block]\<rparr>
                     else st);
              st2 = (if api_version \<noteq> 0 \<and> \<not> vpCheckVersion api_version (minApiVersion pProfileDesc)
                     then st1\<lparr>pSupported := VK_FALSE,
                              unsupportedBlocks := unsupportedBlocks st1 @ [block]\<rparr>
                     else st1)
          in (VK_SUCCESS,
              instance_capabilities supported_extensions block
                (pRequiredCapabilities pProfileDesc) st2))"


section \<open>The table of profiles\<close>

text \<open>
  \<^verbatim>\<open>detail::profiles\<close> (lines 214 to 597) as the source builds it.  What the source
  takes from headers that are not part of it is a parameter \<open>h\<close>: whether the macros
  \<^verbatim>\<open>VP_EXAMPLE_compute\<close> and \<^verbatim>\<open>VP_EXAMPLE_compute_debug\<close> are defined, the macros for the
  names, the spec versions and the minimum API versions of the two profiles, and the
  property filler and comparator of the baseline variant, which write and read
  members of structures that the Vulkan headers lay out.  The extension names are the
  ones of the Vulkan headers; the four property enumerators are four distinct ones
  among the other enumerators (the source only compares enumerators).  The merged variants
  (\<^verbatim>\<open>pMergedCapabilities\<close>) are read by no function of the source.  The table is named
  \<open>detail_profiles\<close> because \<open>profiles\<close> is the member of \<^verbatim>\<open>VpBlockProperties\<close>.
\<close>

record profile_header =
  VP_EXAMPLE_compute :: bool
  VP_EXAMPLE_compute_debug :: bool
  VP_EXAMPLE_COMPUTE_NAME :: string
  VP_EXAMPLE_COMPUTE_SPEC_VERSION :: "32 word"
  VP_EXAMPLE_COMPUTE_MIN_API_VERSION :: "32 word"
  VP_EXAMPLE_COMPUTE_DEBUG_NAME :: string
  VP_EXAMPLE_COMPUTE_DEBUG_SPEC_VERSION :: "32 word"
  VP_EXAMPLE_COMPUTE_DEBUG_MIN_API_VERSION :: "32 word"
  baseline_propertyDesc :: VpFeatureDesc

definition VK_KHR_PUSH_DESCRIPTOR_EXTENSION_NAME :: string where
  "VK_KHR_PUSH_DESCRIPTOR_EXTENSION_NAME = ''VK_KHR_push_descriptor''"

definition VK_KHR_SHADER_NON_SEMANTIC_INFO_EXTENSION_NAME :: string where
  "VK_KHR_SHADER_NON_SEMANTIC_INFO_EXTENSION_NAME = ''VK_KHR_shader_non_semantic_info''"

definition VK_EXT_DEBUG_UTILS_EXTENSION_NAME :: string where
  "VK_EXT_DEBUG_UTILS_EXTENSION_NAME = ''VK_EXT_debug_utils''"

definition VK_STRUCTURE_TYPE_PHYSICAL_DEVICE_MAINTENANCE_3_PROPERTIES :: VkStructureType where
  "VK_STRUCTURE_TYPE_PHYSICAL_DEVICE_MAINTENANCE_3_PROPERTIES = VK_STRUCTURE_TYPE_OTHER 1"

definition VK_STRUCTURE_TYPE_PHYSICAL_DEVICE_TIMELINE_SEMAPHORE_PROPERTIES :: VkStructureType where
  "VK_STRUCTURE_TYPE_PHYSICAL_DEVICE_TIMELINE_SEMAPHORE_PROPERTIES = VK_STRUCTURE_TYPE_OTHER 2"

definition VK_STRUCTURE_TYPE_PHYSICAL_DEVICE_SUBGROUP_PROPERTIES :: VkStructureType where
  "VK_STRUCTURE_TYPE_PHYSICAL_DEVICE_SUBGROUP_PROPERTIES = VK_STRUCTURE_TYPE_OTHER 3"

definition VK_STRUCTURE_TYPE_PHYSICAL_DEVICE_PUSH_DESCRIPTOR_PROPERTIES_KHR :: VkStructureType where
  "VK_STRUCTURE_TYPE_PHYSICAL_DEVICE_PUSH_DESCRIPTOR_PROPERTIES_KHR = VK_STRUCTURE_TYPE_OTHER 4"

text \<open>\<^verbatim>\<open>namespace VP_EXAMPLE_COMPUTE\<close> and its \<^verbatim>\<open>namespace baseline\<close>.\<close>

definition COMPUTE_featureStructTypes :: "VkStructureType list" where
  "COMPUTE_featureStructTypes = [VK_STRUCTURE_TYPE_PHYSICAL_DEVICE_TIMELINE_SEMAPHORE_FEATURES]"

definition COMPUTE_propertyStructTypes :: "VkStructureType list" where
  "COMPUTE_propertyStructTypes =
     [VK_STRUCTURE_TYPE_PHYSICAL_DEVICE_PROPERTIES_2_KHR,
      VK_STRUCTURE_TYPE_PHYSICAL_DEVICE_MAINTENANCE_3_PROPERTIES,
      VK_STRUCTURE_TYPE_PHYSICAL_DEVICE_TIMELINE_SEMAPHORE_PROPERTIES,
      VK_STRUCTURE_TYPE_PHYSICAL_DEVICE_SUBGROUP_PROPERTIES,
      VK_STRUCTURE_TYPE_PHYSICAL_DEVICE_PUSH_DESCRIPTOR_PROPERTIES_KHR]"

definition baseline_deviceExtensions :: "VkExtensionProperties list" where
  "baseline_deviceExtensions =
     [\<lparr>extensionName = VK_KHR_PUSH_DESCRIPTOR_EXTENSION_NAME, ext_specVersion = 1\<rparr>,
      \<lparr>extensionName = VK_KHR_SHADER_NON_SEMANTIC_INFO_EXTENSION_NAME, ext_specVersion = 1\<rparr>]"

definition baseline_featureDesc :: VpFeatureDesc where
  "baseline_featureDesc =
     \<lparr>pfnFiller = Some (\<lambda>t p.
        if t = VK_STRUCTURE_TYPE_PHYSICAL_DEVICE_TIMELINE_SEMAPHORE_FEATURES
        then p(timelineSemaphore := VK_TRUE) else p),
      pfnComparator = (\<lambda>t p.
        if t = VK_STRUCTURE_TYPE_PHYSICAL_DEVICE_TIMELINE_SEMAPHORE_FEATURES
        then True \<and> p timelineSemaphore = VK_TRUE else True)\<rparr>"

definition baseline_chainerDesc :: VpStructChainerDesc where
  "baseline_chainerDesc =
     \<lparr>pfnFeature = [VK_STRUCTURE_TYPE_PHYSICAL_DEVICE_TIMELINE_SEMAPHORE_FEATURES],
      pfnProperty =
        [VK_STRUCTURE_TYPE_PHYSICAL_DEVICE_PUSH_DESCRIPTOR_PROPERTIES_KHR,
         VK_STRUCTURE_TYPE_PHYSICAL_DEVICE_SUBGROUP_PROPERTIES,
         VK_STRUCTURE_TYPE_PHYSICAL_DEVICE_TIMELINE_SEMAPHORE_PROPERTIES,
         VK_STRUCTURE_TYPE_PHYSICAL_DEVICE_MAINTENANCE_3_PROPERTIES],
      pfnQueueFamily = [], pfnFormat = []\<rparr>"

definition baseline_variants :: "profile_header \<Rightarrow> VpVariantDesc list" where
  "baseline_variants h =
     [\<lparr>v_blockName = ''baseline'',
       pInstanceExtensions = [],
       pDeviceExtensions = baseline_deviceExtensions,
       pFeatureStructTypes = COMPUTE_featureStructTypes,
       feature = baseline_featureDesc,
       pPropertyStructTypes = COMPUTE_propertyStructTypes,
       property = baseline_propertyDesc h,
       pFormatStructTypes = [], pFormats = [],
       chainers = baseline_chainerDesc\<rparr>]"

definition COMPUTE_capabilities :: "profile_header \<Rightarrow> VpCapabilitiesDesc list" where
  "COMPUTE_capabilities h = [\<lparr>pVariants = baseline_variants h\<rparr>]"

text \<open>\<^verbatim>\<open>namespace VP_EXAMPLE_COMPUTE_DEBUG\<close> and its \<^verbatim>\<open>namespace debug\<close>.\<close>

definition debug_instanceExtensions :: "VkExtensionProperties list" where
  "debug_instanceExtensions =
     [\<lparr>extensionName = VK_EXT_DEBUG_UTILS_EXTENSION_NAME, ext_specVersion = 1\<rparr>]"

definition debug_featureDesc :: VpFeatureDesc where
  "debug_featureDesc = \<lparr>pfnFiller = Some (\<lambda>t p. p), pfnComparator = (\<lambda>t p. True)\<rparr>"

definition debug_propertyDesc :: VpFeatureDesc where
  "debug_propertyDesc = \<lparr>pfnFiller = Some (\<lambda>t p. p), pfnComparator = (\<lambda>t p. True)\<rparr>"

definition debug_chainerDesc :: VpStructChainerDesc where
  "debug_chainerDesc = \<lparr>pfnFeature = [], pfnProperty = [], pfnQueueFamily = [], pfnFormat = []\<rparr>"

definition debug_variants :: "VpVariantDesc list" where
  "debug_variants =
     [\<lparr>v_blockName = ''debug'',
       pInstanceExtensions = debug_instanceExtensions,
       pDeviceExtensions = [],
       pFeatureStructTypes = [],
       feature = debug_featureDesc,
       pPropertyStructTypes = [],
       property = debug_propertyDesc,
       pFormatStructTypes = [], pFormats = [],
       chainers = debug_chainerDesc\<rparr>]"

definition COMPUTE_DEBUG_capabilities :: "VpCapabilitiesDesc list" where
  "COMPUTE_DEBUG_capabilities = [\<lparr>pVariants = debug_variants\<rparr>]"

text \<open>The table itself, lines 576 to 597.\<close>

definition detail_profiles :: "profile_header \<Rightarrow> VpProfileDesc list" where
  "detail_profiles h =
     (if VP_EXAMPLE_compute h
      then [\<lparr>props = \<lparr>profileName = VP_EXAMPLE_COMPUTE_NAME h,
                       specVersion = VP_EXAMPLE_COMPUTE_SPEC_VERSION h\<rparr>,
             minApiVersion = VP_EXAMPLE_COMPUTE_MIN_API_VERSION h,
             pRequiredProfiles = [],
             pRequiredCapabilities = COMPUTE_capabilities h,
             pFallbacks = []\<rparr>]
      else []) @
     (if VP_EXAMPLE_compute_debug h
      then [\<lparr>props = \<lparr>profileName = VP_EXAMPLE_COMPUTE_DEBUG_NAME h,
                       specVersion = VP_EXAMPLE_COMPUTE_DEBUG_SPEC_VERSION h\<rparr>,
             minApiVersion = VP_EXAMPLE_COMPUTE_DEBUG_MIN_API_VERSION h,
             pRequiredProfiles = [],
             pRequiredCapabilities = COMPUTE_DEBUG_capabilities,
             pFallbacks = []\<rparr>]
      else [])"
section \<open>Enumeration queries\<close>

text \<open>
  A query that fills a caller's array takes the value of \<^verbatim>\<open>*pPropertyCount\<close> at entry
  and the array (\<open>None\<close> for a null pointer, otherwise the caller's elements, whose number
  is the capacity of the array), and returns the result code with the new count and the
  new array.  \<open>write_entries array n source\<close> copies the first \<open>n\<close> elements of
  \<open>source\<close> over the first \<open>n\<close> elements of the array, as the copy loops and the
  \<^verbatim>\<open>memcpy\<close> calls do; beyond the capacity of the array or the end of the source the copy
  is a \<open>BufferOverflow\<close>.
\<close>

definition write_entries :: "'a list \<Rightarrow> nat \<Rightarrow> 'a list \<Rightarrow> fault + 'a list" where
  "write_entries array n source =
     (if n \<le> length array \<and> n \<le> length source then Inr (take n source @ drop n array)
      else Inl BufferOverflow)"

definition vpGetProfiles ::
  "VpProfileDesc list \<Rightarrow> nat \<Rightarrow> VpProfileProperties list option \<Rightarrow>
   fault + (VkResult \<times> nat \<times> VpProfileProperties list option)" where
  "vpGetProfiles ps pPropertyCount pProperties =
     (case pProperties of
        None \<Rightarrow> Inr (VK_SUCCESS, length ps, None)
      | Some array \<Rightarrow>
          let result = (if pPropertyCount < length ps then VK_INCOMPLETE else VK_SUCCESS);
              count = (if pPropertyCount < length ps then pPropertyCount else length ps)
          in case write_entries array count (map props ps) of
               Inl e \<Rightarrow> Inl e
             | Inr array' \<Rightarrow> Inr (result, count, Some array'))"

definition vpGetProfileRequiredProfiles ::
  "VpProfileDesc list \<Rightarrow> VpProfileProperties \<Rightarrow> nat \<Rightarrow> VpProfileProperties list option \<Rightarrow>
   fault + (VkResult \<times> nat \<times> VpProfileProperties list option)" where
  "vpGetProfileRequiredProfiles ps pProfile pPropertyCount pProperties =
     (case vpGetProfileDesc ps (profileName pProfile) of
        None \<Rightarrow> Inr (VK_ERROR_UNKNOWN, pPropertyCount, pProperties)
      | Some desc \<Rightarrow>
          (case pProperties of
             None \<Rightarrow> Inr (VK_SUCCESS, length (pRequiredProfiles desc), None)
           | Some array \<Rightarrow>
               let result = (if pPropertyCount < length (pRequiredProfiles desc)
                             then VK_INCOMPLETE else VK_SUCCESS);
                   count = (if pPropertyCount < length (pRequiredProfiles desc)
                            then pPropertyCount else length (pRequiredProfiles desc))
               in case write_entries array count (pRequiredProfiles desc) of
                    Inl e \<Rightarrow> Inl e
                  | Inr array' \<Rightarrow> Inr (result, count, Some array')))"

definition vpGetProfileFallbacks ::
  "VpProfileDesc list \<Rightarrow> VpProfileProperties \<Rightarrow> nat \<Rightarrow> VpProfileProperties list option \<Rightarrow>
   fault + (VkResult \<times> nat \<times> VpProfileProperties list option)" where
  "vpGetProfileFallbacks ps pProfile pPropertyCount pProperties =
     (case vpGetProfileDesc ps (profileName pProfile) of
        None \<Rightarrow> Inr (VK_ERROR_UNKNOWN, pPropertyCount, pProperties)
      | Some desc \<Rightarrow>
          (case pProperties of
             None \<Rightarrow> Inr (VK_SUCCESS, length (pFallbacks desc), None)
           | Some array \<Rightarrow>
               let result = (if pPropertyCount < length (pFallbacks desc)
                             then VK_INCOMPLETE else VK_SUCCESS);
                   count = (if pPropertyCount < length (pFallbacks desc)
                            then pPropertyCount else length (pFallbacks desc))
               in case write_entries array count (pFallbacks desc) of
                    Inl e \<Rightarrow> Inl e
                  | Inr array' \<Rightarrow> Inr (result, count, Some array')))"

text \<open>
  \<^verbatim>\<open>detail::vpGetProfileExtensionProperties\<close>.  \<open>add_extensions\<close> is the loop over the
  extensions of one variant, \<open>extension_variants\<close> the loop over the variants of one
  capability set (state: \<open>result\<close> and \<open>results\<close>), \<open>extension_capabilities\<close> the loop
  over the capability sets and \<open>extension_profiles\<close> the loop over the gathered
  profiles, which returns \<^verbatim>\<open>VK_ERROR_UNKNOWN\<close> (\<open>None\<close>) at an unknown profile.
\<close>

datatype ExtensionType = EXTENSION_INSTANCE | EXTENSION_DEVICE

primrec add_extensions ::
  "VkExtensionProperties list \<Rightarrow> VkExtensionProperties list \<Rightarrow> VkExtensionProperties list" where
  "add_extensions [] results = results"
| "add_extensions (e # exts) results =
     add_extensions exts (if HasExtension results e then results else results @ [e])"

primrec extension_variants ::
  "string option \<Rightarrow> ExtensionType \<Rightarrow> VpVariantDesc list \<Rightarrow>
   VkResult \<times> VkExtensionProperties list \<Rightarrow> VkResult \<times> VkExtensionProperties list" where
  "extension_variants pBlockName type [] st = st"
| "extension_variants pBlockName type (variant # variants) st =
     extension_variants pBlockName type variants
       (if pBlockName \<noteq> None \<and> pBlockName \<noteq> Some (v_blockName variant) then st
        else ((if pBlockName \<noteq> None then VK_SUCCESS else fst st),
              add_extensions
                (case type of
                   EXTENSION_INSTANCE \<Rightarrow> pInstanceExtensions variant
                 | EXTENSION_DEVICE \<Rightarrow> pDeviceExtensions variant)
                (snd st)))"

primrec extension_capabilities ::
  "string option \<Rightarrow> ExtensionType \<Rightarrow> VpCapabilitiesDesc list \<Rightarrow>
   VkResult \<times> VkExtensionProperties list \<Rightarrow> VkResult \<times> VkExtensionProperties list" where
  "extension_capabilities pBlockName type [] st = st"
| "extension_capabilities pBlockName type (cap_desc # caps) st =
     extension_capabilities pBlockName type caps
       (extension_variants pBlockName type (pVariants cap_desc) st)"

primrec extension_profiles ::
  "VpProfileDesc list \<Rightarrow> string option \<Rightarrow> ExtensionType \<Rightarrow> VpProfileProperties list \<Rightarrow>
   VkResult \<times> VkExtensionProperties list \<Rightarrow> (VkResult \<times> VkExtensionProperties list) option" where
  "extension_profiles ps pBlockName type [] st = Some st"
| "extension_profiles ps pBlockName type (gathered # rest) st =
     (case vpGetProfileDesc ps (profileName gathered) of
        None \<Rightarrow> None
      | Some profile_desc \<Rightarrow>
          extension_profiles ps pBlockName type rest
            (extension_capabilities pBlockName type (pRequiredCapabilities profile_desc) st))"

definition vpGetProfileExtensionProperties ::
  "VpProfileDesc list \<Rightarrow> VpProfileProperties \<Rightarrow> string option \<Rightarrow> ExtensionType \<Rightarrow> nat \<Rightarrow>
   VkExtensionProperties list option \<Rightarrow>
   fault + (VkResult \<times> nat \<times> VkExtensionProperties list option)" where
  "vpGetProfileExtensionProperties ps pProfile pBlockName type pPropertyCount pProperties =
     (case extension_profiles ps pBlockName type (GatherProfiles ps pProfile pBlockName)
             ((if pBlockName = None then VK_SUCCESS else VK_INCOMPLETE), []) of
        None \<Rightarrow> Inr (VK_ERROR_UNKNOWN, pPropertyCount, pProperties)
      | Some (result, results) \<Rightarrow>
          (case pProperties of
             None \<Rightarrow> Inr (result, length results, None)
           | Some array \<Rightarrow>
               let result' = (if pPropertyCount < length results then VK_INCOMPLETE else result);
                   count = (if pPropertyCount < length results then pPropertyCount
                            else length results)
               in case write_entries array count results of
                    Inl e \<Rightarrow> Inl e
                  | Inr array' \<Rightarrow> Inr (result', count, Some array')))"

section \<open>The capabilities object\<close>

text \<open>
  \<^verbatim>\<open>VpVulkanFunctions\<close> holds eleven entry points; a function pointer is the address of
  the function or \<open>None\<close> for null.  \<^verbatim>\<open>VpCapabilities_T\<close> derives from it.  The argument
  \<open>vk\<close> of the static import stands for the entry points of the Vulkan loader the
  library is linked with.
\<close>

type_synonym PFN = nat

record VpVulkanFunctions =
  GetInstanceProcAddr :: "PFN option"
  GetDeviceProcAddr :: "PFN option"
  EnumerateInstanceVersion :: "PFN option"
  EnumerateInstanceExtensionProperties :: "PFN option"
  EnumerateDeviceExtensionProperties :: "PFN option"
  GetPhysicalDeviceFeatures2 :: "PFN option"
  GetPhysicalDeviceProperties2 :: "PFN option"
  GetPhysicalDeviceFormatProperties2 :: "PFN option"
  GetPhysicalDeviceQueueFamilyProperties2 :: "PFN option"
  CreateInstance :: "PFN option"
  CreateDevice :: "PFN option"

record VpCapabilities_T = VpVulkanFunctions +
  singleton :: bool
  cap_apiVersion :: "32 word"

datatype VpCapabilitiesCreateFlagBits = VP_PROFILE_CREATE_STATIC_BIT

record VpCapabilitiesCreateInfo =
  cci_flags :: "VpCapabilitiesCreateFlagBits set"
  pVulkanFunctions :: "VpVulkanFunctions option"

definition VpCapabilities_T_new :: VpCapabilities_T where
  "VpCapabilities_T_new =
     \<lparr>GetInstanceProcAddr = None, GetDeviceProcAddr = None, EnumerateInstanceVersion = None,
      EnumerateInstanceExtensionProperties = None, EnumerateDeviceExtensionProperties = None,
      GetPhysicalDeviceFeatures2 = None, GetPhysicalDeviceProperties2 = None,
      GetPhysicalDeviceFormatProperties2 = None, GetPhysicalDeviceQueueFamilyProperties2 = None,
      CreateInstance = None, CreateDevice = None,
      singleton = False, cap_apiVersion = VK_API_VERSION_1_0\<rparr>"

definition ImportVulkanFunctions_Static :: "VpVulkanFunctions \<Rightarrow> VpCapabilities_T \<Rightarrow> VpCapabilities_T" where
  "ImportVulkanFunctions_Static vk this =
     this\<lparr>GetInstanceProcAddr := GetInstanceProcAddr vk,
          GetDeviceProcAddr := GetDeviceProcAddr vk,
          EnumerateInstanceVersion := EnumerateInstanceVersion vk,
          EnumerateInstanceExtensionProperties := EnumerateInstanceExtensionProperties vk,
          EnumerateDeviceExtensionProperties := EnumerateDeviceExtensionProperties vk,
          GetPhysicalDeviceFeatures2 := GetPhysicalDeviceFeatures2 vk,
          GetPhysicalDeviceProperties2 := GetPhysicalDeviceProperties2 vk,
          GetPhysicalDeviceFormatProperties2 := GetPhysicalDeviceFormatProperties2 vk,
          GetPhysicalDeviceQueueFamilyProperties2 := GetPhysicalDeviceQueueFamilyProperties2 vk,
          CreateInstance := CreateInstance vk,
          CreateDevice := CreateDevice vk\<rparr>"

definition VP_COPY_IF_NOT_NULL :: "PFN option \<Rightarrow> PFN option \<Rightarrow> PFN option" where
  "VP_COPY_IF_NOT_NULL theirs ours = (if theirs \<noteq> None then theirs else ours)"

definition ImportVulkanFunctions_Custom :: "VpCapabilities_T \<Rightarrow> VpVulkanFunctions \<Rightarrow> VpCapabilities_T" where
  "ImportVulkanFunctions_Custom this pFunctions =
     this\<lparr>GetInstanceProcAddr :=
            VP_COPY_IF_NOT_NULL (GetInstanceProcAddr pFunctions) (GetInstanceProcAddr this),
          GetDeviceProcAddr :=
            VP_COPY_IF_NOT_NULL (GetDeviceProcAddr pFunctions) (GetDeviceProcAddr this),
          EnumerateInstanceVersion :=
            VP_COPY_IF_NOT_NULL (EnumerateInstanceVersion pFunctions) (EnumerateInstanceVersion this),
          EnumerateInstanceExtensionProperties :=
            VP_COPY_IF_NOT_NULL (EnumerateInstanceExtensionProperties pFunctions)
              (EnumerateInstanceExtensionProperties this),
          EnumerateDeviceExtensionProperties :=
            VP_COPY_IF_NOT_NULL (EnumerateDeviceExtensionProperties pFunctions)
              (EnumerateDeviceExtensionProperties this),
          GetPhysicalDeviceFeatures2 :=
            VP_COPY_IF_NOT_NULL (GetPhysicalDeviceFeatures2 pFunctions) (GetPhysicalDeviceFeatures2 this),
          GetPhysicalDeviceProperties2 :=
            VP_COPY_IF_NOT_NULL (GetPhysicalDeviceProperties2 pFunctions)
              (GetPhysicalDeviceProperties2 this),
          GetPhysicalDeviceFormatProperties2 :=
            VP_COPY_IF_NOT_NULL (GetPhysicalDeviceFormatProperties2 pFunctions)
              (GetPhysicalDeviceFormatProperties2 this),
          GetPhysicalDeviceQueueFamilyProperties2 :=
            VP_COPY_IF_NOT_NULL (GetPhysicalDeviceQueueFamilyProperties2 pFunctions)
              (GetPhysicalDeviceQueueFamilyProperties2 this),
          CreateInstance := VP_COPY_IF_NOT_NULL (CreateInstance pFunctions) (CreateInstance this),
          CreateDevice := VP_COPY_IF_NOT_NULL (CreateDevice pFunctions) (CreateDevice this)\<rparr>"

definition ValidateVulkanFunctions :: "VpCapabilities_T \<Rightarrow> VkResult" where
  "ValidateVulkanFunctions this =
     (if GetInstanceProcAddr this = None then VK_ERROR_INITIALIZATION_FAILED
      else if GetDeviceProcAddr this = None then VK_ERROR_INITIALIZATION_FAILED
      else if EnumerateInstanceVersion this = None \<and> cap_apiVersion this \<ge> VK_API_VERSION_1_1
        then VK_ERROR_INITIALIZATION_FAILED
      else if EnumerateInstanceExtensionProperties this = None then VK_ERROR_INITIALIZATION_FAILED
      else if EnumerateDeviceExtensionProperties this = None then VK_ERROR_INITIALIZATION_FAILED
      else if GetPhysicalDeviceFeatures2 this = None
        then (if cap_apiVersion this \<ge> VK_API_VERSION_1_1 then VK_ERROR_INITIALIZATION_FAILED
              else VK_ERROR_EXTENSION_NOT_PRESENT)
      else if GetPhysicalDeviceProperties2 this = None
        then (if cap_apiVersion this \<ge> VK_API_VERSION_1_1 then VK_ERROR_INITIALIZATION_FAILED
              else VK_ERROR_EXTENSION_NOT_PRESENT)
      else if GetPhysicalDeviceFormatProperties2 this = None
        then (if cap_apiVersion this \<ge> VK_API_VERSION_1_1 then VK_ERROR_INITIALIZATION_FAILED
              else VK_ERROR_EXTENSION_NOT_PRESENT)
      else if GetPhysicalDeviceQueueFamilyProperties2 this = None
        then (if cap_apiVersion this \<ge> VK_API_VERSION_1_1 then VK_ERROR_INITIALIZATION_FAILED
              else VK_ERROR_EXTENSION_NOT_PRESENT)
      else if CreateInstance this = None then VK_ERROR_INITIALIZATION_FAILED
      else if CreateDevice this = None then VK_ERROR_INITIALIZATION_FAILED
      else VK_SUCCESS)"

text \<open>
  \<open>ImportVulkanFunctions\<close> and \<open>init\<close> change the object and return a result code.
\<close>

definition ImportVulkanFunctions ::
  "VpVulkanFunctions \<Rightarrow> VpCapabilities_T \<Rightarrow> VpCapabilitiesCreateInfo \<Rightarrow> VkResult \<times> VpCapabilities_T" where
  "ImportVulkanFunctions vk this info =
     (let this1 = (if VP_PROFILE_CREATE_STATIC_BIT \<in> cci_flags info
                   then ImportVulkanFunctions_Static vk this else this);
          this2 = (case pVulkanFunctions info of
                     Some pFunctions \<Rightarrow> ImportVulkanFunctions_Custom this1 pFunctions
                   | None \<Rightarrow> this1)
      in (ValidateVulkanFunctions this2, this2))"

definition init ::
  "VpVulkanFunctions \<Rightarrow> VpCapabilities_T \<Rightarrow> VpCapabilitiesCreateInfo \<Rightarrow> VkResult \<times> VpCapabilities_T" where
  "init vk this info = ImportVulkanFunctions vk this info"

text \<open>
  The free store of capabilities objects: \<^verbatim>\<open>new\<close> takes the next unused address.
  \<open>vpCreateCapabilities\<close> gets the value that \<^verbatim>\<open>*pCapabilities\<close> has at entry and returns
  the result code, the value of \<^verbatim>\<open>*pCapabilities\<close> at exit and the new store.
\<close>

record capabilities_store =
  objects :: "nat \<rightharpoonup> VpCapabilities_T"
  next_object :: nat

definition vpCreateCapabilities ::
  "VpVulkanFunctions \<Rightarrow> VpCapabilitiesCreateInfo \<Rightarrow> capabilities_store \<Rightarrow> nat option \<Rightarrow>
   VkResult \<times> nat option \<times> capabilities_store" where
  "vpCreateCapabilities vk info store pCapabilities =
     (let capabilities = next_object store;
          store1 = store\<lparr>objects := (objects store)(capabilities \<mapsto> VpCapabilities_T_new),
                        next_object := Suc capabilities\<rparr>;
          (result, this) = init vk VpCapabilities_T_new info;
          store2 = store1\<lparr>objects := (objects store1)(capabilities \<mapsto> this)\<rparr>
      in (result, Some capabilities, store2))"

section \<open>Instance-level support query\<close>

text \<open>
  The foreign entry points that the support queries call are parameters.  An
  enumeration entry point gets the capacity of the array it is given (\<open>None\<close> for a
  null array) and returns its result code, the count it stores and the elements it
  writes.  \<open>pfnEnumerateInstanceVersion\<close> is the entry point as lines 2218 and 2219
  resolve it: \<open>None\<close> if the pointer is null, otherwise the result code and the version
  it stores.  A vector that was resized to \<open>n\<close> elements and then written by the entry
  point holds the written elements followed by value-initialised ones.
\<close>

record instance_entry_points =
  pfnEnumerateInstanceVersion :: "(VkResult \<times> 32 word) option"
  vkEnumerateInstanceExtensionProperties ::
    "nat option \<Rightarrow> VkResult \<times> nat \<times> VkExtensionProperties list"

definition resized :: "nat \<Rightarrow> VkExtensionProperties list \<Rightarrow> VkExtensionProperties list" where
  "resized n written =
     take n (written @ replicate n \<lparr>extensionName = '''', ext_specVersion = 0\<rparr>)"

primrec instance_required_profiles ::
  "VpProfileDesc list \<Rightarrow> VkExtensionProperties list \<Rightarrow> VpProfileProperties list \<Rightarrow>
   instance_support \<Rightarrow> VkResult \<times> instance_support" where
  "instance_required_profiles ps supported_instance_extensions [] st = (VK_SUCCESS, st)"
| "instance_required_profiles ps supported_instance_extensions (required # rest) st =
     (case vpGetInstanceProfileSupportSingleProfile ps 0 supported_instance_extensions required st of
        (result, st') \<Rightarrow>
          if result \<noteq> VK_SUCCESS then (result, st')
          else instance_required_profiles ps supported_instance_extensions rest st')"

text \<open>
  The result is the returned code and the values of \<^verbatim>\<open>*pSupported\<close>,
  \<^verbatim>\<open>*pPropertyCount\<close> and the array \<open>pProperties\<close> at exit.  The search for
  \<^verbatim>\<open>VK_KHR_get_physical_device_properties2\<close> is the loop of \<open>CheckExtension\<close>.
\<close>

definition vpGetInstanceProfileVariantsSupport ::
  "VpProfileDesc list \<Rightarrow> instance_entry_points \<Rightarrow> VpProfileProperties \<Rightarrow> VkBool32 \<Rightarrow> nat \<Rightarrow>
   VpBlockProperties list option \<Rightarrow>
   fault + (VkResult \<times> VkBool32 \<times> nat \<times> VpBlockProperties list option)" where
  "vpGetInstanceProfileVariantsSupport ps vp pProfile supported_in pPropertyCount pProperties =
     (case (case pfnEnumerateInstanceVersion vp of
              None \<Rightarrow> (VK_SUCCESS, VK_API_VERSION_1_0)
            | Some rv \<Rightarrow> rv) of
        (result0, api_version) \<Rightarrow>
     if result0 \<noteq> VK_SUCCESS then Inr (result0, VK_FALSE, pPropertyCount, pProperties)
     else
     (case vkEnumerateInstanceExtensionProperties vp None of
        (result1, count1, _) \<Rightarrow>
     if result1 \<noteq> VK_SUCCESS then Inr (result1, VK_FALSE, pPropertyCount, pProperties)
     else
     (case vkEnumerateInstanceExtensionProperties vp (if count1 > 0 then Some count1 else None) of
        (result2, count2, written) \<Rightarrow>
     if result2 \<noteq> VK_SUCCESS then Inr (result2, VK_FALSE, pPropertyCount, pProperties)
     else
     let supported_instance_extensions = resized count1 written;
         supported =
           (if api_version < VK_API_VERSION_1_1 \<and>
               \<not> CheckExtension supported_instance_extensions
                    VK_KHR_GET_PHYSICAL_DEVICE_PROPERTIES_2_EXTENSION_NAME
            then VK_FALSE else VK_TRUE)
     in
     (case vpGetProfileDesc ps (profileName pProfile) of
        None \<Rightarrow> Inr (VK_ERROR_UNKNOWN, supported_in, pPropertyCount, pProperties)
      | Some pProfileDesc \<Rightarrow>
     (case vpGetInstanceProfileSupportSingleProfile ps api_version supported_instance_extensions
             pProfile \<lparr>pSupported = supported, supportedBlocks = [], unsupportedBlocks = []\<rparr> of
        (result3, st) \<Rightarrow>
     if result3 \<noteq> VK_SUCCESS then Inr (result3, pSupported st, pPropertyCount, pProperties)
     else
     (case instance_required_profiles ps supported_instance_extensions
             (pRequiredProfiles pProfileDesc) st of
        (result4, st') \<Rightarrow>
     if result4 \<noteq> VK_SUCCESS then Inr (result4, pSupported st', pPropertyCount, pProperties)
     else
     let blocks = (if pSupported st' \<noteq> 0 then supportedBlocks st' else unsupportedBlocks st')
     in
     (case pProperties of
        None \<Rightarrow> Inr (VK_SUCCESS, pSupported st', length blocks, None)
      | Some array \<Rightarrow>
          let result = (if pPropertyCount < length blocks then VK_INCOMPLETE else VK_SUCCESS);
              count = (if pPropertyCount < length blocks then pPropertyCount else length blocks)
          in case write_entries array (length blocks) blocks of
               Inl e \<Rightarrow> Inl e
             | Inr array' \<Rightarrow> Inr (result, pSupported st', count, Some array'))))))))"

section \<open>Device-level support query\<close>

text \<open>
  The entry points of the physical device as line 2514 has them.  A query entry point
  (\<^verbatim>\<open>vkGetPhysicalDeviceFeatures2\<close> and its siblings) fills every structure of the chain
  it is given according to the structure's type, so it is a function of the type and the
  payload, like a filler.  A chainer links value-initialised structures after the head
  that the caller declares, and the callback runs the comparator on every link of the
  filled chain, the head included; the chain lives on the stack for the time of the
  call, and the model holds it as the list of its structures.
  \<^verbatim>\<open>VkPhysicalDeviceProperties2::properties.apiVersion\<close> is the first member.
\<close>

record device_entry_points =
  vkEnumerateDeviceExtensionProperties ::
    "nat option \<Rightarrow> VkResult \<times> nat \<times> VkExtensionProperties list"
  pfnGetPhysicalDeviceFeatures2 :: "PFN_vpStructFiller option"
  pfnGetPhysicalDeviceProperties2 :: "PFN_vpStructFiller option"
  pfnGetPhysicalDeviceFormatProperties2 :: "(VkFormat \<Rightarrow> PFN_vpStructFiller) option"
  pfnGetPhysicalDeviceQueueFamilyProperties2 :: "unit option"

definition properties_apiVersion :: nat where "properties_apiVersion = 0"

definition query_chain ::
  "VkStructureType \<Rightarrow> PFN_vpStructChainer \<Rightarrow> (VkStructureType \<times> (nat \<Rightarrow> 32 word)) list" where
  "query_chain head chainer = map (\<lambda>t. (t, \<lambda>_. 0)) (head # chainer)"

primrec compare_links ::
  "PFN_vpStructFiller \<Rightarrow> PFN_vpStructComparator \<Rightarrow>
   (VkStructureType \<times> (nat \<Rightarrow> 32 word)) list \<Rightarrow> bool \<Rightarrow> bool" where
  "compare_links query comparator [] supported = supported"
| "compare_links query comparator (p # chain) supported =
     compare_links query comparator chain
       (if \<not> comparator (fst p) (query (fst p) (snd p)) then False else supported)"

definition compare_chain ::
  "PFN_vpStructFiller \<Rightarrow> PFN_vpStructComparator \<Rightarrow> VkStructureType \<Rightarrow> PFN_vpStructChainer \<Rightarrow> bool" where
  "compare_chain query comparator head chainer =
     compare_links query comparator (query_chain head chainer) True"

primrec device_variant_extensions ::
  "VkExtensionProperties list \<Rightarrow> VkExtensionProperties list \<Rightarrow> bool \<Rightarrow> bool" where
  "device_variant_extensions supported_device_extensions [] supported_variant = supported_variant"
| "device_variant_extensions supported_device_extensions (e # exts) supported_variant =
     device_variant_extensions supported_device_extensions exts
       (if \<not> CheckExtension supported_device_extensions (extensionName e) then False
        else supported_variant)"

primrec device_variant_formats ::
  "(VkFormat \<Rightarrow> PFN_vpStructFiller) \<Rightarrow> VpVariantDesc \<Rightarrow> VpFormatDesc list \<Rightarrow> bool \<Rightarrow> bool" where
  "device_variant_formats query variant_desc [] supported_variant = supported_variant"
| "device_variant_formats query variant_desc (f # formats) supported_variant =
     (if supported_variant then
        device_variant_formats query variant_desc formats
          (if \<not> compare_chain (query (format f)) (fmt_pfnComparator f)
                  VK_STRUCTURE_TYPE_FORMAT_PROPERTIES_2_KHR (pfnFormat (chainers variant_desc))
           then False else supported_variant)
      else supported_variant)"

definition device_variant ::
  "PFN_vpStructFiller \<Rightarrow> PFN_vpStructFiller \<Rightarrow> (VkFormat \<Rightarrow> PFN_vpStructFiller) \<Rightarrow>
   VkExtensionProperties list \<Rightarrow> VpVariantDesc \<Rightarrow> bool" where
  "device_variant features2 properties2 formatProperties2 supported_device_extensions variant_desc =
     (let supported_variant0 =
            device_variant_extensions supported_device_extensions
              (pDeviceExtensions variant_desc) True;
          supported_variant1 =
            (if \<not> compare_chain features2 (pfnComparator (feature variant_desc))
                    VK_STRUCTURE_TYPE_PHYSICAL_DEVICE_FEATURES_2_KHR
                    (pfnFeature (chainers variant_desc))
             then False else supported_variant0);
          supported_variant2 =
            (if \<not> compare_chain properties2 (pfnComparator (property variant_desc))
                    VK_STRUCTURE_TYPE_PHYSICAL_DEVICE_PROPERTIES_2_KHR
                    (pfnProperty (chainers variant_desc))
             then False else supported_variant1)
      in device_variant_formats formatProperties2 variant_desc (pFormats variant_desc)
           supported_variant2)"

text \<open>
  The loop over the variants of one capability set stops at the first supported variant
  (\<^verbatim>\<open>break\<close>).  Its state is \<open>supported_block\<close> and the two block lists.
\<close>

primrec device_variants ::
  "PFN_vpStructFiller \<Rightarrow> PFN_vpStructFiller \<Rightarrow> (VkFormat \<Rightarrow> PFN_vpStructFiller) \<Rightarrow>
   VkExtensionProperties list \<Rightarrow> VpBlockProperties \<Rightarrow> VpVariantDesc list \<Rightarrow>
   bool \<times> VpBlockProperties list \<times> VpBlockProperties list \<Rightarrow>
   bool \<times> VpBlockProperties list \<times> VpBlockProperties list" where
  "device_variants features2 properties2 formatProperties2 exts block [] st = st"
| "device_variants features2 properties2 formatProperties2 exts block (variant_desc # variants) st =
     (case st of (supported_block, supported_blocks, unsupported_blocks) \<Rightarrow>
        if device_variant features2 properties2 formatProperties2 exts variant_desc
        then (True, supported_blocks @ [block\<lparr>blockName := v_blockName variant_desc\<rparr>],
              unsupported_blocks)
        else device_variants features2 properties2 formatProperties2 exts block variants
               (supported_block, supported_blocks,
                unsupported_blocks @ [block\<lparr>blockName := v_blockName variant_desc\<rparr>]))"

primrec device_capabilities ::
  "PFN_vpStructFiller \<Rightarrow> PFN_vpStructFiller \<Rightarrow> (VkFormat \<Rightarrow> PFN_vpStructFiller) \<Rightarrow>
   VkExtensionProperties list \<Rightarrow> VpBlockProperties \<Rightarrow> VpCapabilitiesDesc list \<Rightarrow>
   bool \<times> VpBlockProperties list \<times> VpBlockProperties list \<Rightarrow>
   bool \<times> VpBlockProperties list \<times> VpBlockProperties list" where
  "device_capabilities features2 properties2 formatProperties2 exts block [] st = st"
| "device_capabilities features2 properties2 formatProperties2 exts block (required_capabilities # rest) st =
     (case st of (supported_profile, supported_blocks, unsupported_blocks) \<Rightarrow>
        (case device_variants features2 properties2 formatProperties2 exts block
                (pVariants required_capabilities) (False, supported_blocks, unsupported_blocks) of
           (supported_block, supported_blocks', unsupported_blocks') \<Rightarrow>
             device_capabilities features2 properties2 formatProperties2 exts block rest
               ((if \<not> supported_block then False else supported_profile),
                supported_blocks', unsupported_blocks')))"

primrec device_profiles ::
  "VpProfileDesc list \<Rightarrow> PFN_vpStructFiller \<Rightarrow> PFN_vpStructFiller \<Rightarrow>
   (VkFormat \<Rightarrow> PFN_vpStructFiller) \<Rightarrow> VkExtensionProperties list \<Rightarrow> VpProfileProperties list \<Rightarrow>
   bool \<times> VpBlockProperties list \<times> VpBlockProperties list \<Rightarrow>
   (bool \<times> VpBlockProperties list \<times> VpBlockProperties list) option" where
  "device_profiles ps features2 properties2 formatProperties2 exts [] st = Some st"
| "device_profiles ps features2 properties2 formatProperties2 exts (gathered # rest) st =
     (case vpGetProfileDesc ps (profileName gathered) of
        None \<Rightarrow> None
      | Some profile_desc \<Rightarrow>
          (case st of (supported, supported_blocks, unsupported_blocks) \<Rightarrow>
             let supported_profile0 = \<not> specVersion (props profile_desc) < specVersion gathered;
                 block = \<lparr>profiles = gathered, apiVersion = minApiVersion profile_desc,
                          blockName = ''''\<rparr>;
                 supported_profile1 =
                   (if \<not> vpCheckVersion
                          (properties2 VK_STRUCTURE_TYPE_PHYSICAL_DEVICE_PROPERTIES_2_KHR (\<lambda>_. 0)
                             properties_apiVersion)
                          (minApiVersion profile_desc)
                    then False else supported_profile0)
             in (case device_capabilities features2 properties2 formatProperties2 exts block
                        (pRequiredCapabilities profile_desc)
                        (supported_profile1, supported_blocks, unsupported_blocks) of
                   (supported_profile, supported_blocks', unsupported_blocks') \<Rightarrow>
                     device_profiles ps features2 properties2 formatProperties2 exts rest
                       ((if \<not> supported_profile then False else supported),
                        supported_blocks', unsupported_blocks'))))"

definition vpGetPhysicalDeviceProfileVariantsSupport ::
  "VpProfileDesc list \<Rightarrow> device_entry_points \<Rightarrow> VpProfileProperties \<Rightarrow> VkBool32 \<Rightarrow> nat \<Rightarrow>
   VpBlockProperties list option \<Rightarrow>
   fault + (VkResult \<times> VkBool32 \<times> nat \<times> VpBlockProperties list option)" where
  "vpGetPhysicalDeviceProfileVariantsSupport ps vp pProfile supported_in pPropertyCount pProperties =
     (case vkEnumerateDeviceExtensionProperties vp None of
        (result1, count1, _) \<Rightarrow>
     if result1 \<noteq> VK_SUCCESS then Inr (result1, supported_in, pPropertyCount, pProperties)
     else
     (case vkEnumerateDeviceExtensionProperties vp (if count1 > 0 then Some count1 else None) of
        (result2, count2, written) \<Rightarrow>
     if result2 \<noteq> VK_SUCCESS then Inr (result2, supported_in, pPropertyCount, pProperties)
     else
     let supported_device_extensions =
           (if count2 > 0 then resized count2 (resized count1 written)
            else resized count1 written)
     in
     (case vpGetProfileDesc ps (profileName pProfile) of
        None \<Rightarrow> Inr (VK_ERROR_UNKNOWN, supported_in, pPropertyCount, pProperties)
      | Some pProfileDesc \<Rightarrow>
     (case (pfnGetPhysicalDeviceFeatures2 vp, pfnGetPhysicalDeviceProperties2 vp,
            pfnGetPhysicalDeviceFormatProperties2 vp,
            pfnGetPhysicalDeviceQueueFamilyProperties2 vp) of
        (Some features2, Some properties2, Some formatProperties2, Some queueFamilyProperties2) \<Rightarrow>
          (case device_profiles ps features2 properties2 formatProperties2
                  supported_device_extensions (GatherProfiles ps pProfile None) (True, [], []) of
             None \<Rightarrow> Inr (VK_ERROR_UNKNOWN, supported_in, pPropertyCount, pProperties)
           | Some (supported, supported_blocks, unsupported_blocks) \<Rightarrow>
               let blocks = (if supported then supported_blocks else unsupported_blocks)
               in
               (case pProperties of
                  None \<Rightarrow>
                    Inr (VK_SUCCESS, (if supported then VK_TRUE else VK_FALSE), length blocks, None)
                | Some array \<Rightarrow>
                    let count = (if pPropertyCount < length blocks then pPropertyCount
                                 else length blocks)
                    in case write_entries array (length blocks) blocks of
                         Inl e \<Rightarrow> Inl e
                       | Inr array' \<Rightarrow>
                           Inr (VK_SUCCESS, (if supported then VK_TRUE else VK_FALSE), count,
                                Some array')))
      | _ \<Rightarrow> Inr (VK_ERROR_EXTENSION_NOT_PRESENT, supported_in, pPropertyCount, pProperties)))))"

section \<open>Device creation\<close>

text \<open>
  \<^verbatim>\<open>GatherStructureTypes\<close> and the loop that runs a filler over a chain walk chains in
  the memory.
\<close>

partial_function (option) GatherStructureTypes ::
  "memory \<Rightarrow> VkStructureType list \<Rightarrow> addr option \<Rightarrow> VkStructureType list option" where
  "GatherStructureTypes m structureTypes p =
     (case p of
        None \<Rightarrow> Some structureTypes
      | Some a \<Rightarrow>
          GatherStructureTypes m
            (if sType (m a) \<in> set structureTypes then structureTypes
             else structureTypes @ [sType (m a)])
            (pNext (m a)))"

partial_function (option) fill_chain ::
  "PFN_vpStructFiller \<Rightarrow> memory \<Rightarrow> addr option \<Rightarrow> memory option" where
  "fill_chain filler m base_ptr =
     (case base_ptr of
        None \<Rightarrow> Some m
      | Some a \<Rightarrow>
          fill_chain filler (m(a := (m a)\<lparr>payload := filler (sType (m a)) (payload (m a))\<rparr>))
            (pNext (m a)))"

text \<open>
  The first loop of \<open>vpCreateDevice\<close> over the blocks collects the feature structure
  types and the device extensions; \<open>None\<close> is the return of \<^verbatim>\<open>VK_ERROR_UNKNOWN\<close>.
\<close>

primrec add_structure_types :: "VkStructureType list \<Rightarrow> VkStructureType list \<Rightarrow> VkStructureType list" where
  "add_structure_types [] structureTypes = structureTypes"
| "add_structure_types (t # types) structureTypes =
     add_structure_types types
       (if t \<in> set structureTypes then structureTypes else structureTypes @ [t])"

primrec create_variants ::
  "VpBlockProperties \<Rightarrow> VpVariantDesc list \<Rightarrow> VkStructureType list \<times> string list \<Rightarrow>
   VkStructureType list \<times> string list" where
  "create_variants block [] st = st"
| "create_variants block (variant # variants) st =
     create_variants block variants
       (if blockName block \<noteq> '''' \<and> v_blockName variant \<noteq> blockName block then st
        else (add_structure_types (pFeatureStructTypes variant) (fst st),
              GetExtensions (pDeviceExtensions variant) (snd st)))"

primrec create_capabilities ::
  "VpBlockProperties \<Rightarrow> VpCapabilitiesDesc list \<Rightarrow> VkStructureType list \<times> string list \<Rightarrow>
   VkStructureType list \<times> string list" where
  "create_capabilities block [] st = st"
| "create_capabilities block (pCapsDesc # caps) st =
     create_capabilities block caps (create_variants block (pVariants pCapsDesc) st)"

primrec create_blocks ::
  "VpProfileDesc list \<Rightarrow> VpBlockProperties list \<Rightarrow> VkStructureType list \<times> string list \<Rightarrow>
   (VkStructureType list \<times> string list) option" where
  "create_blocks ps [] st = Some st"
| "create_blocks ps (block # blocks) st =
     (case vpGetProfileDesc ps (profileName (profiles block)) of
        None \<Rightarrow> None
      | Some pProfileDesc \<Rightarrow>
          create_blocks ps blocks (create_capabilities block (pRequiredCapabilities pProfileDesc) st))"

text \<open>
  The second loop over the blocks runs the feature filler of every variant of every
  capability set over the chain of required features.  The outer option is
  non-termination of a walk, the inner one the return of \<^verbatim>\<open>VK_ERROR_UNKNOWN\<close>.
\<close>

fun fill_variants :: "addr \<Rightarrow> VpVariantDesc list \<Rightarrow> memory \<Rightarrow> memory option" where
  "fill_variants pFeatures [] m = Some m"
| "fill_variants pFeatures (variant # variants) m =
     (case pfnFiller (feature variant) of
        None \<Rightarrow> fill_variants pFeatures variants m
      | Some filler \<Rightarrow>
          (case fill_chain filler m (Some pFeatures) of
             None \<Rightarrow> None
           | Some m' \<Rightarrow> fill_variants pFeatures variants m'))"

fun fill_capabilities :: "addr \<Rightarrow> VpCapabilitiesDesc list \<Rightarrow> memory \<Rightarrow> memory option" where
  "fill_capabilities pFeatures [] m = Some m"
| "fill_capabilities pFeatures (pCapsDesc # caps) m =
     (case fill_variants pFeatures (pVariants pCapsDesc) m of
        None \<Rightarrow> None
      | Some m' \<Rightarrow> fill_capabilities pFeatures caps m')"

fun fill_blocks ::
  "VpProfileDesc list \<Rightarrow> addr \<Rightarrow> VpBlockProperties list \<Rightarrow> memory \<Rightarrow> memory option option" where
  "fill_blocks ps pFeatures [] m = Some (Some m)"
| "fill_blocks ps pFeatures (block # blocks) m =
     (case vpGetProfileDesc ps (profileName (profiles block)) of
        None \<Rightarrow> Some None
      | Some pProfileDesc \<Rightarrow>
          (case fill_capabilities pFeatures (pRequiredCapabilities pProfileDesc) m of
             None \<Rightarrow> None
           | Some m' \<Rightarrow> fill_blocks ps pFeatures blocks m'))"

text \<open>
  Lines 2784 to 2788: the merge of the requested features, which ends with the
  opt-outs of \<open>ApplyRobustness\<close>, and the opt-out on the base features.
\<close>

definition merge_pass ::
  "FeaturesChain \<Rightarrow> memory \<Rightarrow> VpDeviceCreateInfo \<Rightarrow> (fault + FeaturesChain \<times> memory) option" where
  "merge_pass chain m info =
     (case ApplyFeatures chain m info of
        None \<Rightarrow> None
      | Some (Inl e) \<Rightarrow> Some (Inl e)
      | Some (Inr (chain', m')) \<Rightarrow>
          Some (Inr (chain',
            if VP_DEVICE_CREATE_DISABLE_ROBUST_BUFFER_ACCESS_BIT \<in> flags info
            then set_member m' (requiredFeaturesChain chain') robustBufferAccess VK_FALSE
            else m')))"

text \<open>
  \<open>vpCreateDevice\<close> up to its call of the foreign \<^verbatim>\<open>vkCreateDevice\<close>.  The arguments
  \<open>chain\<close> and \<open>m\<close> are the \<^verbatim>\<open>FeaturesChain\<close> that \<^verbatim>\<open>std::make_unique\<close> constructs
  and the memory that holds it.  The result is \<open>None\<close> if a walk does not terminate,
  a fault, a returned code (\<open>Inr (Inl result)\<close>), or the \<^verbatim>\<open>VkDeviceCreateInfo\<close> that is
  passed to \<^verbatim>\<open>vkCreateDevice\<close> (null when \<open>pCreateInfo\<close> is null) with the aggregator
  and the memory at that point.
\<close>

definition vpCreateDevice ::
  "VpProfileDesc list \<Rightarrow> FeaturesChain \<Rightarrow> memory \<Rightarrow> nat option \<Rightarrow> VpDeviceCreateInfo option \<Rightarrow>
   nat option \<Rightarrow>
   (fault + (VkResult + VkDeviceCreateInfo option \<times> FeaturesChain \<times> memory)) option" where
  "vpCreateDevice ps chain m physicalDevice pInfo pDevice =
     (case pInfo of
        None \<Rightarrow> Some (Inr (Inr (None, chain, m)))
      | Some info \<Rightarrow>
     if physicalDevice = None \<or> pDevice = None
     then Some (Inr (Inr (Some (pCreateInfo info), chain, m)))
     else
     let blocks = GatherBlocks ps (pEnabledFullProfiles info) (pEnabledProfileBlocks info)
     in
     (case create_blocks ps blocks ([], ppEnabledExtensionNames (pCreateInfo info)) of
        None \<Rightarrow> Some (Inr (Inl VK_ERROR_UNKNOWN))
      | Some (structureTypes0, extensions) \<Rightarrow>
     (case GatherStructureTypes m structureTypes0 (dci_pNext (pCreateInfo info)) of
        None \<Rightarrow> None
      | Some structureTypes \<Rightarrow>
     (case Build chain m structureTypes of
        None \<Rightarrow> None
      | Some m1 \<Rightarrow>
     let pFeatures = requiredFeaturesChain chain;
         m2 = (case pEnabledFeatures (pCreateInfo info) of
                 Some enabled \<Rightarrow>
                   m1(pFeatures := (m1 pFeatures)
                     \<lparr>payload := (\<lambda>i. if i < VkPhysicalDeviceFeatures_members then enabled i
                                      else payload (m1 pFeatures) i)\<rparr>)
               | None \<Rightarrow> m1)
     in
     (case fill_blocks ps pFeatures blocks m2 of
        None \<Rightarrow> None
      | Some None \<Rightarrow> Some (Inr (Inl VK_ERROR_UNKNOWN))
      | Some (Some m3) \<Rightarrow>
     (case merge_pass chain m3 info of
        None \<Rightarrow> None
      | Some (Inl e) \<Rightarrow> Some (Inl e)
      | Some (Inr (chain', m4)) \<Rightarrow>
          Some (Inr (Inr
            (Some \<lparr>dci_pNext = Some (requiredFeaturesChain chain'),
                   pQueueCreateInfos = pQueueCreateInfos (pCreateInfo info),
                   ppEnabledExtensionNames = extensions,
                   pEnabledFeatures = None\<rparr>,
             chain', m4)))))))))"

section \<open>Well-formed chains\<close>

text \<open>
  \<open>chain m p as\<close>: starting at pointer \<open>p\<close>, the links at the addresses \<open>as\<close>
  follow one another and the last one has a null \<open>pNext\<close>.  A chain with such a list
  is acyclic and null-terminated.
\<close>

primrec chain :: "memory \<Rightarrow> addr option \<Rightarrow> addr list \<Rightarrow> bool" where
  "chain m p [] = (p = None)"
| "chain m p (a # as) = (p = Some a \<and> chain m (pNext (m a)) as)"

definition tags :: "memory \<Rightarrow> addr list \<Rightarrow> VkStructureType list" where
  "tags m as = map (\<lambda>a. sType (m a)) as"

definition relink :: "memory \<Rightarrow> addr option \<Rightarrow> addr \<Rightarrow> memory" where
  "relink m previous c =
     (case previous of
        None \<Rightarrow> m
      | Some p \<Rightarrow> m(p := (m p)\<lparr>pNext := pNext (m c)\<rparr>))"

text \<open>
  A small memory used to exercise the theorems: the chain of all feature structures
  \<open>1 \<rightarrow> 2 \<rightarrow> 3 \<rightarrow> 4\<close> (base features, robustness 2, image robustness,
  timeline semaphore) and, at address \<open>10\<close>, the head of a still empty chain of required
  features.  In the base features \<open>robustBufferAccess\<close> (slot 0) is set.
\<close>

definition example_memory :: memory where
  "example_memory =
     (\<lambda>_. \<lparr>sType = VK_STRUCTURE_TYPE_OTHER 0, pNext = None, payload = (\<lambda>_. VK_FALSE)\<rparr>)
     (1 := \<lparr>sType = VK_STRUCTURE_TYPE_PHYSICAL_DEVICE_FEATURES_2_KHR, pNext = Some 2,
             payload = (\<lambda>_. VK_FALSE)\<rparr>,
      2 := \<lparr>sType = VK_STRUCTURE_TYPE_PHYSICAL_DEVICE_ROBUSTNESS_2_FEATURES_EXT, pNext = Some 3,
             payload = (\<lambda>_. VK_FALSE)\<rparr>,
      3 := \<lparr>sType = VK_STRUCTURE_TYPE_PHYSICAL_DEVICE_IMAGE_ROBUSTNESS_FEATURES_EXT,
             pNext = Some 4, payload = (\<lambda>_. VK_FALSE)\<rparr>,
      4 := \<lparr>sType = VK_STRUCTURE_TYPE_PHYSICAL_DEVICE_TIMELINE_SEMAPHORE_FEATURES,
             pNext = None, payload = (\<lambda>_. VK_FALSE)\<rparr>,
      10 := \<lparr>sType = VK_STRUCTURE_TYPE_PHYSICAL_DEVICE_FEATURES_2_KHR, pNext = None,
              payload = (\<lambda>_. VK_FALSE)\<rparr>)"

text \<open>
  The state in which \<^verbatim>\<open>FeaturesChain::Build\<close> runs: the chain of all feature
  structures with links \<open>ms\<close> after its head, the chain of required features with
  links \<open>rs\<close> after its head, the two chains sharing no link, the first head being
  the \<^verbatim>\<open>VkPhysicalDeviceFeatures2KHR\<close> member, and every structure type occurring at
  most once among all feature structures (the constructor links each member once).
\<close>

definition aggregator_wf :: "FeaturesChain \<Rightarrow> memory \<Rightarrow> addr list \<Rightarrow> addr list \<Rightarrow> bool" where
  "aggregator_wf fc m ms rs =
     (chain m (Some (physicalDeviceFeatures2KHR fc)) (physicalDeviceFeatures2KHR fc # ms) \<and>
      chain m (Some (requiredFeaturesChain fc)) (requiredFeaturesChain fc # rs) \<and>
      set (physicalDeviceFeatures2KHR fc # ms) \<inter> set (requiredFeaturesChain fc # rs) = {} \<and>
      sType (m (physicalDeviceFeatures2KHR fc)) = VK_STRUCTURE_TYPE_PHYSICAL_DEVICE_FEATURES_2_KHR \<and>
      distinct (tags m (physicalDeviceFeatures2KHR fc # ms)))"

text \<open>
  The list of types in the order of their first occurrence, and the links that a list of
  requested types selects from the links \<open>ms\<close>: for each requested type other than the
  head's, in the order of first occurrence, the links of that type.
\<close>

primrec first_occurrences :: "'a list \<Rightarrow> 'a list" where
  "first_occurrences [] = []"
| "first_occurrences (t # ts) = t # filter (\<lambda>u. u \<noteq> t) (first_occurrences ts)"

definition selected_links ::
  "(addr \<Rightarrow> VkStructureType) \<Rightarrow> addr list \<Rightarrow> VkStructureType list \<Rightarrow> addr list" where
  "selected_links tag ms ts =
     concat (map (\<lambda>t. filter (\<lambda>a. tag a = t) ms)
       (filter (\<lambda>t. t \<noteq> VK_STRUCTURE_TYPE_PHYSICAL_DEVICE_FEATURES_2_KHR)
          (first_occurrences ts)))"

text \<open>The links that the loop of \<open>Build\<close> moves, one requested type after the other.\<close>

fun Build_links :: "(addr \<Rightarrow> VkStructureType) \<Rightarrow> addr list \<Rightarrow> VkStructureType list \<Rightarrow> addr list" where
  "Build_links tag ms [] = []"
| "Build_links tag ms (t # ts) =
     (if t = VK_STRUCTURE_TYPE_PHYSICAL_DEVICE_FEATURES_2_KHR then Build_links tag ms ts
      else
        case find (\<lambda>a. tag a = t) ms of
          None \<Rightarrow> Build_links tag ms ts
        | Some a \<Rightarrow> a # Build_links tag (remove1 a ms) ts)"

text \<open>
  A feature aggregator over \<open>example_memory\<close>.  The sizes are what
  \<^verbatim>\<open>FeaturesChain::size\<close> computes on an LP64 platform for the five structures of the
  example (the number of \<^verbatim>\<open>VkBool32\<close> slots after the header, padding included).
\<close>

definition example_fc :: FeaturesChain where
  "example_fc =
     \<lparr>structureSize =
        [VK_STRUCTURE_TYPE_PHYSICAL_DEVICE_FEATURES_2_KHR \<mapsto> 56,
         VK_STRUCTURE_TYPE_PHYSICAL_DEVICE_ROBUSTNESS_2_FEATURES_EXT \<mapsto> 4,
         VK_STRUCTURE_TYPE_PHYSICAL_DEVICE_IMAGE_ROBUSTNESS_FEATURES_EXT \<mapsto> 2,
         VK_STRUCTURE_TYPE_PHYSICAL_DEVICE_VULKAN_1_3_FEATURES \<mapsto> 16,
         VK_STRUCTURE_TYPE_PHYSICAL_DEVICE_TIMELINE_SEMAPHORE_FEATURES \<mapsto> 2],
      physicalDeviceFeatures2KHR = 1,
      requiredFeaturesChain = 10\<rparr>"

text \<open>
  Vocabulary for the merge of a requested chain with links \<open>qs\<close> into the chain of
  required features with links \<open>rs\<close>: whether some requested structure of a type has a
  member set, which members the merge visits, and the value a member has after it.
\<close>

definition requested_true :: "memory \<Rightarrow> addr list \<Rightarrow> VkStructureType \<Rightarrow> nat \<Rightarrow> bool" where
  "requested_true m qs t i = (\<exists>q\<in>set qs. sType (m q) = t \<and> payload (m q) i = VK_TRUE)"

definition merge_target ::
  "FeaturesChain \<Rightarrow> memory \<Rightarrow> addr list \<Rightarrow> addr list \<Rightarrow> addr \<Rightarrow> nat \<Rightarrow> bool" where
  "merge_target fc m rs qs a i =
     (a \<in> set rs \<and> sType (m a) \<in> set (tags m qs) \<and> i < structureSize_at fc (sType (m a)))"

definition merged_payload ::
  "FeaturesChain \<Rightarrow> memory \<Rightarrow> addr list \<Rightarrow> addr list \<Rightarrow> addr \<Rightarrow> nat \<Rightarrow> VkBool32" where
  "merged_payload fc m rs qs a i =
     (if merge_target fc m rs qs a i
      then (if payload (m a) i = VK_TRUE \<or> requested_true m qs (sType (m a)) i
            then VK_TRUE else VK_FALSE)
      else payload (m a) i)"

text \<open>
  The members that \<open>ApplyRobustness\<close> forces to \<^verbatim>\<open>VK_FALSE\<close> in a chain with links
  \<open>rs\<close>: \<open>first_of_type m rs t\<close> is the structure that \<open>vpGetStructure\<close> finds for
  a type.
\<close>

definition first_of_type :: "memory \<Rightarrow> addr list \<Rightarrow> VkStructureType \<Rightarrow> addr option" where
  "first_of_type m rs t = find (\<lambda>x. sType (m x) = t) rs"

definition robustness_override ::
  "VpDeviceCreateInfo \<Rightarrow> memory \<Rightarrow> addr list \<Rightarrow> addr \<Rightarrow> nat \<Rightarrow> bool" where
  "robustness_override info m rs a i =
     (VP_DEVICE_CREATE_DISABLE_ROBUST_BUFFER_ACCESS_BIT \<in> flags info \<and>
        (first_of_type m rs VK_STRUCTURE_TYPE_PHYSICAL_DEVICE_FEATURES_2_KHR = Some a \<and>
           i = robustBufferAccess \<or>
         first_of_type m rs VK_STRUCTURE_TYPE_PHYSICAL_DEVICE_ROBUSTNESS_2_FEATURES_EXT = Some a \<and>
           i = robustBufferAccess2) \<or>
      VP_DEVICE_CREATE_DISABLE_ROBUST_IMAGE_ACCESS_BIT \<in> flags info \<and>
        (first_of_type m rs VK_STRUCTURE_TYPE_PHYSICAL_DEVICE_ROBUSTNESS_2_FEATURES_EXT = Some a \<and>
           i = robustImageAccess2 \<or>
         first_of_type m rs VK_STRUCTURE_TYPE_PHYSICAL_DEVICE_IMAGE_ROBUSTNESS_FEATURES_EXT = Some a \<and>
           i = robustImageAccess \<or>
         first_of_type m rs VK_STRUCTURE_TYPE_PHYSICAL_DEVICE_VULKAN_1_3_FEATURES = Some a \<and>
           i = robustImageAccess_13))"

text \<open>
  A memory for the merge: the chain of required features \<open>10 \<rightarrow> 2\<close> (base features and
  robustness 2, nothing set), a requested chain \<open>20 \<rightarrow> 21\<close> (robustness 2 with
  \<open>robustBufferAccess2\<close> and \<open>nullDescriptor\<close> set, base features with
  \<open>robustBufferAccess\<close> and member 5 set) and a requested chain \<open>30 \<rightarrow> 31\<close> whose
  first structure has a type without a registered size.
\<close>

definition example_request :: memory where
  "example_request =
     (\<lambda>_. \<lparr>sType = VK_STRUCTURE_TYPE_OTHER 0, pNext = None, payload = (\<lambda>_. VK_FALSE)\<rparr>)
     (10 := \<lparr>sType = VK_STRUCTURE_TYPE_PHYSICAL_DEVICE_FEATURES_2_KHR, pNext = Some 2,
              payload = (\<lambda>_. VK_FALSE)\<rparr>,
      2 := \<lparr>sType = VK_STRUCTURE_TYPE_PHYSICAL_DEVICE_ROBUSTNESS_2_FEATURES_EXT, pNext = None,
             payload = (\<lambda>_. VK_FALSE)\<rparr>,
      20 := \<lparr>sType = VK_STRUCTURE_TYPE_PHYSICAL_DEVICE_ROBUSTNESS_2_FEATURES_EXT, pNext = Some 21,
              payload = (\<lambda>_. VK_FALSE)(0 := VK_TRUE, 2 := VK_TRUE)\<rparr>,
      21 := \<lparr>sType = VK_STRUCTURE_TYPE_PHYSICAL_DEVICE_FEATURES_2_KHR, pNext = None,
              payload = (\<lambda>_. VK_FALSE)(0 := VK_TRUE, 5 := VK_TRUE)\<rparr>,
      30 := \<lparr>sType = VK_STRUCTURE_TYPE_OTHER 7, pNext = Some 31,
              payload = (\<lambda>_. VK_FALSE)(0 := VK_TRUE)\<rparr>,
      31 := \<lparr>sType = VK_STRUCTURE_TYPE_PHYSICAL_DEVICE_ROBUSTNESS_2_FEATURES_EXT, pNext = None,
              payload = (\<lambda>_. VK_FALSE)(1 := VK_TRUE)\<rparr>)"

definition example_info :: VpDeviceCreateInfo where
  "example_info =
     \<lparr>pCreateInfo = \<lparr>dci_pNext = Some 20, pQueueCreateInfos = [], ppEnabledExtensionNames = [],
                      pEnabledFeatures = None\<rparr>,
      flags = {VP_DEVICE_CREATE_DISABLE_ROBUST_BUFFER_ACCESS_BIT},
      pEnabledFullProfiles = [], pEnabledProfileBlocks = []\<rparr>"

definition example_info_unregistered :: VpDeviceCreateInfo where
  "example_info_unregistered =
     \<lparr>pCreateInfo = \<lparr>dci_pNext = Some 30, pQueueCreateInfos = [], ppEnabledExtensionNames = [],
                      pEnabledFeatures = None\<rparr>,
      flags = {},
      pEnabledFullProfiles = [], pEnabledProfileBlocks = []\<rparr>"


text \<open>
  The structure types that the enabled profiles contribute to the list that
  \<open>vpCreateDevice\<close> passes to \<open>Build\<close>.
\<close>

definition profile_structure_types ::
  "VpProfileDesc list \<Rightarrow> VpDeviceCreateInfo \<Rightarrow> VkStructureType set" where
  "profile_structure_types ps info =
     (case create_blocks ps
             (GatherBlocks ps (pEnabledFullProfiles info) (pEnabledProfileBlocks info))
             ([], ppEnabledExtensionNames (pCreateInfo info)) of
        Some (structureTypes, extensions) \<Rightarrow> set structureTypes
      | None \<Rightarrow> {})"

text \<open>
  A device creation over \<open>example_memory\<close>: one profile whose filler sets the
  robustness members of the base features, of robustness 2 and of image robustness, the
  caller's own base features with every member set, a requested chain \<open>20 \<rightarrow> 21\<close>
  that sets \<open>robustBufferAccess2\<close> and \<open>robustBufferAccess\<close>, and both opt-outs in
  the flags.
\<close>

definition robust_featureDesc :: VpFeatureDesc where
  "robust_featureDesc =
     \<lparr>pfnFiller = Some (\<lambda>t p.
        if t = VK_STRUCTURE_TYPE_PHYSICAL_DEVICE_FEATURES_2_KHR
        then p(robustBufferAccess := VK_TRUE)
        else if t = VK_STRUCTURE_TYPE_PHYSICAL_DEVICE_ROBUSTNESS_2_FEATURES_EXT
        then p(robustBufferAccess2 := VK_TRUE, robustImageAccess2 := VK_TRUE)
        else if t = VK_STRUCTURE_TYPE_PHYSICAL_DEVICE_IMAGE_ROBUSTNESS_FEATURES_EXT
        then p(robustImageAccess := VK_TRUE)
        else p),
      pfnComparator = (\<lambda>t p. True)\<rparr>"

definition example_create_profiles :: "VpProfileDesc list" where
  "example_create_profiles =
     [\<lparr>props = \<lparr>profileName = ''VP_EXAMPLE_robust'', specVersion = 1\<rparr>,
       minApiVersion = VK_API_VERSION_1_1,
       pRequiredProfiles = [],
       pRequiredCapabilities =
         [\<lparr>pVariants =
            [\<lparr>v_blockName = ''robust'', pInstanceExtensions = [], pDeviceExtensions = [],
              pFeatureStructTypes =
                [VK_STRUCTURE_TYPE_PHYSICAL_DEVICE_ROBUSTNESS_2_FEATURES_EXT,
                 VK_STRUCTURE_TYPE_PHYSICAL_DEVICE_IMAGE_ROBUSTNESS_FEATURES_EXT],
              feature = robust_featureDesc,
              pPropertyStructTypes = [],
              property = \<lparr>pfnFiller = None, pfnComparator = (\<lambda>t p. True)\<rparr>,
              pFormatStructTypes = [], pFormats = [],
              chainers = \<lparr>pfnFeature =
                            [VK_STRUCTURE_TYPE_PHYSICAL_DEVICE_ROBUSTNESS_2_FEATURES_EXT,
                             VK_STRUCTURE_TYPE_PHYSICAL_DEVICE_IMAGE_ROBUSTNESS_FEATURES_EXT],
                          pfnProperty = [], pfnQueueFamily = [], pfnFormat = []\<rparr>\<rparr>]\<rparr>],
       pFallbacks = []\<rparr>]"

definition example_create_memory :: memory where
  "example_create_memory =
     example_memory
     (20 := \<lparr>sType = VK_STRUCTURE_TYPE_PHYSICAL_DEVICE_ROBUSTNESS_2_FEATURES_EXT, pNext = Some 21,
              payload = (\<lambda>_. VK_FALSE)(0 := VK_TRUE, 2 := VK_TRUE)\<rparr>,
      21 := \<lparr>sType = VK_STRUCTURE_TYPE_PHYSICAL_DEVICE_FEATURES_2_KHR, pNext = None,
              payload = (\<lambda>_. VK_FALSE)(0 := VK_TRUE, 5 := VK_TRUE)\<rparr>)"

definition example_create_info :: VpDeviceCreateInfo where
  "example_create_info =
     \<lparr>pCreateInfo = \<lparr>dci_pNext = Some 20, pQueueCreateInfos = [], ppEnabledExtensionNames = [],
                      pEnabledFeatures = Some (\<lambda>_. VK_TRUE)\<rparr>,
      flags = {VP_DEVICE_CREATE_DISABLE_ROBUST_BUFFER_ACCESS_BIT,
               VP_DEVICE_CREATE_DISABLE_ROBUST_IMAGE_ACCESS_BIT},
      pEnabledFullProfiles = [\<lparr>profileName = ''VP_EXAMPLE_robust'', specVersion = 1\<rparr>],
      pEnabledProfileBlocks = []\<rparr>"

text \<open>
  A creation of a capabilities object with no flag and no functions of the caller, on
  an empty store, the handle of the caller holding the address 7.
\<close>

definition example_loader :: VpVulkanFunctions where
  "example_loader =
     \<lparr>GetInstanceProcAddr = Some 1, GetDeviceProcAddr = Some 2, EnumerateInstanceVersion = Some 3,
      EnumerateInstanceExtensionProperties = Some 4, EnumerateDeviceExtensionProperties = Some 5,
      GetPhysicalDeviceFeatures2 = Some 6, GetPhysicalDeviceProperties2 = Some 7,
      GetPhysicalDeviceFormatProperties2 = Some 8, GetPhysicalDeviceQueueFamilyProperties2 = Some 9,
      CreateInstance = Some 10, CreateDevice = Some 11\<rparr>"

definition example_capabilities_info :: VpCapabilitiesCreateInfo where
  "example_capabilities_info = \<lparr>cci_flags = {}, pVulkanFunctions = None\<rparr>"

definition example_store :: capabilities_store where
  "example_store = \<lparr>objects = Map.empty, next_object = 0\<rparr>"

section \<open>Support of variants, capability sets and profiles\<close>

text \<open>
  What the support queries decide, stated on the tables.  A variant is supported by a
  device when each of its device extensions is among the enumerated ones and each
  comparator accepts each structure of the chain that its chainer builds and the
  device fills; by an instance when each of its instance extensions is enumerated.  A
  capability set is supported when one of its variants is.
\<close>

definition enumerated :: "VkExtensionProperties list \<Rightarrow> string \<Rightarrow> bool" where
  "enumerated exts name = (name \<in> extensionName ` set exts)"

definition device_variant_supported ::
  "PFN_vpStructFiller \<Rightarrow> PFN_vpStructFiller \<Rightarrow> (VkFormat \<Rightarrow> PFN_vpStructFiller) \<Rightarrow>
   VkExtensionProperties list \<Rightarrow> VpVariantDesc \<Rightarrow> bool" where
  "device_variant_supported features2 properties2 formatProperties2 exts v =
     ((\<forall>e\<in>set (pDeviceExtensions v). enumerated exts (extensionName e)) \<and>
      (\<forall>t\<in>set (VK_STRUCTURE_TYPE_PHYSICAL_DEVICE_FEATURES_2_KHR # pfnFeature (chainers v)).
         pfnComparator (feature v) t (features2 t (\<lambda>_. 0))) \<and>
      (\<forall>t\<in>set (VK_STRUCTURE_TYPE_PHYSICAL_DEVICE_PROPERTIES_2_KHR # pfnProperty (chainers v)).
         pfnComparator (property v) t (properties2 t (\<lambda>_. 0))) \<and>
      (\<forall>f\<in>set (pFormats v).
         \<forall>t\<in>set (VK_STRUCTURE_TYPE_FORMAT_PROPERTIES_2_KHR # pfnFormat (chainers v)).
           fmt_pfnComparator f t (formatProperties2 (format f) t (\<lambda>_. 0))))"

definition instance_variant_supported :: "VkExtensionProperties list \<Rightarrow> VpVariantDesc \<Rightarrow> bool" where
  "instance_variant_supported exts v =
     (\<forall>e\<in>set (pInstanceExtensions v). enumerated exts (extensionName e))"

text \<open>
  The required capability sets of a profile description are supported when each of them
  has a supported variant.
\<close>

definition device_capabilities_supported ::
  "PFN_vpStructFiller \<Rightarrow> PFN_vpStructFiller \<Rightarrow> (VkFormat \<Rightarrow> PFN_vpStructFiller) \<Rightarrow>
   VkExtensionProperties list \<Rightarrow> VpProfileDesc \<Rightarrow> bool" where
  "device_capabilities_supported features2 properties2 formatProperties2 exts d =
     (\<forall>c\<in>set (pRequiredCapabilities d). \<exists>v\<in>set (pVariants c).
        device_variant_supported features2 properties2 formatProperties2 exts v)"

definition instance_capabilities_supported :: "VkExtensionProperties list \<Rightarrow> VpProfileDesc \<Rightarrow> bool" where
  "instance_capabilities_supported exts d =
     (\<forall>c\<in>set (pRequiredCapabilities d). \<exists>v\<in>set (pVariants c).
        instance_variant_supported exts v)"

text \<open>
  The version gates of one gathered profile \<open>g\<close> with description \<open>d\<close>: the spec
  version of the table is not below the one the caller names, and the API version
  meets the minimum of the profile.  The device query takes the API version from the
  properties of the device; the instance query skips the second gate when the version
  it is given is 0.
\<close>

definition device_gates :: "PFN_vpStructFiller \<Rightarrow> VpProfileDesc \<Rightarrow> VpProfileProperties \<Rightarrow> bool" where
  "device_gates properties2 d g =
     (specVersion g \<le> specVersion (props d) \<and>
      vpCheckVersion
        (properties2 VK_STRUCTURE_TYPE_PHYSICAL_DEVICE_PROPERTIES_2_KHR (\<lambda>_. 0) properties_apiVersion)
        (minApiVersion d))"

definition instance_gates :: "32 word \<Rightarrow> VpProfileDesc \<Rightarrow> VpProfileProperties \<Rightarrow> bool" where
  "instance_gates api_version d g =
     (specVersion g \<le> specVersion (props d) \<and>
      (api_version = 0 \<or> vpCheckVersion api_version (minApiVersion d)))"

text \<open>
  The foreign calls of a support query answer: the two enumerations succeed and leave
  the extensions \<open>exts\<close> in the vector, and the instance version is read as
  \<open>api_version\<close>, or the four entry points of the device are resolved.
\<close>

definition device_query_answers ::
  "device_entry_points \<Rightarrow> VkExtensionProperties list \<Rightarrow> PFN_vpStructFiller \<Rightarrow>
   PFN_vpStructFiller \<Rightarrow> (VkFormat \<Rightarrow> PFN_vpStructFiller) \<Rightarrow> bool" where
  "device_query_answers vp exts features2 properties2 formatProperties2 =
     (\<exists>count1 w1 count2 written.
        vkEnumerateDeviceExtensionProperties vp None = (VK_SUCCESS, count1, w1) \<and>
        vkEnumerateDeviceExtensionProperties vp (if count1 > 0 then Some count1 else None) =
          (VK_SUCCESS, count2, written) \<and>
        exts = (if count2 > 0 then resized count2 (resized count1 written)
                else resized count1 written) \<and>
        pfnGetPhysicalDeviceFeatures2 vp = Some features2 \<and>
        pfnGetPhysicalDeviceProperties2 vp = Some properties2 \<and>
        pfnGetPhysicalDeviceFormatProperties2 vp = Some formatProperties2 \<and>
        pfnGetPhysicalDeviceQueueFamilyProperties2 vp \<noteq> None)"

definition instance_query_answers ::
  "instance_entry_points \<Rightarrow> 32 word \<Rightarrow> VkExtensionProperties list \<Rightarrow> bool" where
  "instance_query_answers vp api_version exts =
     (\<exists>count1 w1 count2 written.
        (case pfnEnumerateInstanceVersion vp of
           None \<Rightarrow> (VK_SUCCESS, VK_API_VERSION_1_0)
         | Some rv \<Rightarrow> rv) = (VK_SUCCESS, api_version) \<and>
        vkEnumerateInstanceExtensionProperties vp None = (VK_SUCCESS, count1, w1) \<and>
        vkEnumerateInstanceExtensionProperties vp (if count1 > 0 then Some count1 else None) =
          (VK_SUCCESS, count2, written) \<and>
        exts = resized count1 written)"

text \<open>
  A table that exercises the loops beyond what the generated table holds: one profile
  with a capability set of two variants (the first needs a device extension, the second
  nothing) and a second capability set of one variant that needs an instance
  extension.  The generated table \<open>detail_profiles\<close> has two profiles with one
  capability set of one variant each.  The feature comparator asks for
  \<open>timelineSemaphore\<close>.
\<close>

definition timeline_featureDesc :: VpFeatureDesc where
  "timeline_featureDesc =
     \<lparr>pfnFiller = Some (\<lambda>t p.
        if t = VK_STRUCTURE_TYPE_PHYSICAL_DEVICE_TIMELINE_SEMAPHORE_FEATURES
        then p(timelineSemaphore := VK_TRUE) else p),
      pfnComparator = (\<lambda>t p.
        if t = VK_STRUCTURE_TYPE_PHYSICAL_DEVICE_TIMELINE_SEMAPHORE_FEATURES
        then p timelineSemaphore = VK_TRUE else True)\<rparr>"

definition example_variant ::
  "string \<Rightarrow> VkExtensionProperties list \<Rightarrow> VkExtensionProperties list \<Rightarrow> VpVariantDesc" where
  "example_variant name instanceExtensions deviceExtensions =
     \<lparr>v_blockName = name, pInstanceExtensions = instanceExtensions,
      pDeviceExtensions = deviceExtensions,
      pFeatureStructTypes = [VK_STRUCTURE_TYPE_PHYSICAL_DEVICE_TIMELINE_SEMAPHORE_FEATURES],
      feature = timeline_featureDesc,
      pPropertyStructTypes = [],
      property = \<lparr>pfnFiller = Some (\<lambda>t p. p), pfnComparator = (\<lambda>t p. True)\<rparr>,
      pFormatStructTypes = [], pFormats = [],
      chainers = \<lparr>pfnFeature = [VK_STRUCTURE_TYPE_PHYSICAL_DEVICE_TIMELINE_SEMAPHORE_FEATURES],
                  pfnProperty = [], pfnQueueFamily = [], pfnFormat = []\<rparr>\<rparr>"

definition example_profile :: VpProfileProperties where
  "example_profile = \<lparr>profileName = ''VP_EXAMPLE_compute'', specVersion = 2\<rparr>"

definition example_profiles :: "VpProfileDesc list" where
  "example_profiles =
     [\<lparr>props = example_profile,
       minApiVersion = VK_API_VERSION_1_0,
       pRequiredProfiles = [],
       pRequiredCapabilities =
         [\<lparr>pVariants =
            [example_variant ''baseline'' []
               [\<lparr>extensionName = ''VK_KHR_push_descriptor'', ext_specVersion = 1\<rparr>],
             example_variant ''fallback'' [] []]\<rparr>,
          \<lparr>pVariants =
            [example_variant ''debug''
               [\<lparr>extensionName = ''VK_EXT_debug_utils'', ext_specVersion = 1\<rparr>] []]\<rparr>],
       pFallbacks = []\<rparr>]"

text \<open>
  An instance of Vulkan 1.0 (no \<^verbatim>\<open>vkEnumerateInstanceVersion\<close>) that enumerates the
  given extensions, and a device of Vulkan 1.1 with \<open>timelineSemaphore\<close> that
  enumerates \<^verbatim>\<open>VK_KHR_push_descriptor\<close>.  An enumeration entry point writes as many
  elements as the array it is given holds.
\<close>

definition enumerate_extensions ::
  "VkExtensionProperties list \<Rightarrow> nat option \<Rightarrow> VkResult \<times> nat \<times> VkExtensionProperties list" where
  "enumerate_extensions exts capacity =
     (case capacity of
        None \<Rightarrow> (VK_SUCCESS, length exts, [])
      | Some n \<Rightarrow> (if n < length exts then VK_INCOMPLETE else VK_SUCCESS,
                   min n (length exts), take n exts))"

definition example_instance :: "string list \<Rightarrow> instance_entry_points" where
  "example_instance names =
     \<lparr>pfnEnumerateInstanceVersion = None,
      vkEnumerateInstanceExtensionProperties =
        enumerate_extensions (map (\<lambda>name. \<lparr>extensionName = name, ext_specVersion = 1\<rparr>) names)\<rparr>"

definition example_device :: device_entry_points where
  "example_device =
     \<lparr>vkEnumerateDeviceExtensionProperties =
        enumerate_extensions [\<lparr>extensionName = ''VK_KHR_push_descriptor'', ext_specVersion = 2\<rparr>],
      pfnGetPhysicalDeviceFeatures2 = Some (\<lambda>t p.
        if t = VK_STRUCTURE_TYPE_PHYSICAL_DEVICE_TIMELINE_SEMAPHORE_FEATURES
        then p(timelineSemaphore := VK_TRUE) else p),
      pfnGetPhysicalDeviceProperties2 = Some (\<lambda>t p.
        if t = VK_STRUCTURE_TYPE_PHYSICAL_DEVICE_PROPERTIES_2_KHR
        then p(properties_apiVersion := VK_API_VERSION_1_1) else p),
      pfnGetPhysicalDeviceFormatProperties2 = Some (\<lambda>f t p. p),
      pfnGetPhysicalDeviceQueueFamilyProperties2 = Some ()\<rparr>"

definition example_block :: "string \<Rightarrow> VpBlockProperties" where
  "example_block name =
     \<lparr>profiles = example_profile, apiVersion = VK_API_VERSION_1_0, blockName = name\<rparr>"

text \<open>
  Values for the parameters of the generated table: both profiles defined, with spec
  version 1, minimum API version 1.2 for the compute profile and 1.0 for the debug
  profile, and a property comparator that accepts every structure.  The profile
  properties are what a caller passes to name the two profiles at these versions.
\<close>

definition example_header :: profile_header where
  "example_header =
     \<lparr>VP_EXAMPLE_compute = True, VP_EXAMPLE_compute_debug = True,
      VP_EXAMPLE_COMPUTE_NAME = ''VP_EXAMPLE_compute'',
      VP_EXAMPLE_COMPUTE_SPEC_VERSION = 1,
      VP_EXAMPLE_COMPUTE_MIN_API_VERSION = VK_MAKE_API_VERSION 0 1 2 0,
      VP_EXAMPLE_COMPUTE_DEBUG_NAME = ''VP_EXAMPLE_compute_debug'',
      VP_EXAMPLE_COMPUTE_DEBUG_SPEC_VERSION = 1,
      VP_EXAMPLE_COMPUTE_DEBUG_MIN_API_VERSION = VK_API_VERSION_1_0,
      baseline_propertyDesc = \<lparr>pfnFiller = Some (\<lambda>t p. p), pfnComparator = (\<lambda>t p. True)\<rparr>\<rparr>"

definition compute_profile :: VpProfileProperties where
  "compute_profile = \<lparr>profileName = ''VP_EXAMPLE_compute'', specVersion = 1\<rparr>"

definition compute_debug_profile :: VpProfileProperties where
  "compute_debug_profile = \<lparr>profileName = ''VP_EXAMPLE_compute_debug'', specVersion = 1\<rparr>"
section \<open>Properties of well-formed chains\<close>

lemma chain_update_outside:
  "a \<notin> set as \<Longrightarrow> chain (m(a := s)) p as = chain m p as"
  by (induction as arbitrary: p) auto

lemma chain_update_payload:
  "pNext s = pNext (m a) \<Longrightarrow> chain (m(a := s)) p as = chain m p as"
  by (induction as arbitrary: p) auto

lemma chain_append:
  "chain m p (as @ bs) \<Longrightarrow> \<exists>q. chain m q bs"
  by (induction as arbitrary: p) auto

lemma chain_functional:
  "chain m p as \<Longrightarrow> chain m p bs \<Longrightarrow> as = bs"
proof (induction as arbitrary: p bs)
  case Nil
  then show ?case by (cases bs) auto
next
  case (Cons a as)
  then show ?case by (cases bs) auto
qed

lemma chain_suffix_at:
  "chain m p (as @ b # bs) \<Longrightarrow> chain m (Some b) (b # bs)"
  by (induction as arbitrary: p) auto

lemma chain_head_not_in_tail:
  assumes "chain m (Some a) (a # as)"
  shows "a \<notin> set as"
proof
  assume "a \<in> set as"
  then obtain xs ys where split: "as = xs @ a # ys"
    by (auto simp: in_set_conv_decomp)
  with assms have "chain m (Some a) ((a # xs) @ a # ys)" by simp
  then have "chain m (Some a) (a # ys)" by (rule chain_suffix_at)
  with assms have "a # as = a # ys" by (rule chain_functional)
  with split show False by simp
qed

lemma chain_distinct:
  "chain m p as \<Longrightarrow> distinct as"
proof (induction as arbitrary: p)
  case Nil
  then show ?case by simp
next
  case (Cons a as)
  then have "chain m (Some a) (a # as)" by simp
  then have "a \<notin> set as" by (rule chain_head_not_in_tail)
  with Cons show ?case by auto
qed


section \<open>Finding and extracting a link\<close>

lemma vpGetStructure_chain:
  "chain m p as \<Longrightarrow> vpGetStructure m p t = Some (find (\<lambda>a. sType (m a) = t) as)"
proof (induction as arbitrary: p)
  case Nil
  then show ?case by (simp add: vpGetStructure.simps)
next
  case (Cons a as)
  then have p: "p = Some a" and rest: "chain m (pNext (m a)) as" by simp_all
  show ?case
  proof (cases "sType (m a) = t")
    case True
    with p show ?thesis by (subst vpGetStructure.simps) simp
  next
    case False
    with p Cons.IH [OF rest] show ?thesis by (subst vpGetStructure.simps) simp
  qed
qed

lemma find_absent:
  "t \<notin> set (tags m as) \<Longrightarrow> find (\<lambda>a. sType (m a) = t) as = None"
  by (induction as) (auto simp: tags_def)

lemma find_first:
  "t \<notin> set (tags m xs) \<Longrightarrow> sType (m a) = t \<Longrightarrow>
   find (\<lambda>a. sType (m a) = t) (xs @ a # ys) = Some a"
  by (induction xs) (auto simp: tags_def)

lemma loop_found:
  "vpExtractStructure_loop t m None previous found = Some (m, found)"
  by (subst vpExtractStructure_loop.simps) simp

lemma loop_absent:
  "chain m current cs \<Longrightarrow> t \<notin> set (tags m cs) \<Longrightarrow>
   vpExtractStructure_loop t m current previous found = Some (m, found)"
proof (induction cs arbitrary: current previous)
  case Nil
  then show ?case by (simp add: loop_found)
next
  case (Cons c cs)
  then have cur: "current = Some c" and rest: "chain m (pNext (m c)) cs"
    and here: "t \<noteq> sType (m c)" and later: "t \<notin> set (tags m cs)"
    by (auto simp: tags_def)
  from Cons.IH [OF rest later] cur here show ?case
    by (subst vpExtractStructure_loop.simps) simp
qed

lemma loop_present_here:
  "chain m current (a # ys) \<Longrightarrow> sType (m a) = t \<Longrightarrow>
   vpExtractStructure_loop t m current previous None = Some (relink m previous a, Some a)"
  by (subst vpExtractStructure_loop.simps) (auto simp: loop_found relink_def)

lemma loop_present_later:
  "chain m current (xs @ b # a # ys) \<Longrightarrow> t \<notin> set (tags m (xs @ [b])) \<Longrightarrow>
   sType (m a) = t \<Longrightarrow>
   vpExtractStructure_loop t m current previous None = Some (relink m (Some b) a, Some a)"
proof (induction xs arbitrary: current previous)
  case Nil
  then have cur: "current = Some b" and rest: "chain m (pNext (m b)) (a # ys)"
    and here: "t \<noteq> sType (m b)"
    by (auto simp: tags_def)
  from loop_present_here [OF rest Nil.prems(3), of "Some b"] cur here show ?case
    by (subst vpExtractStructure_loop.simps) simp
next
  case (Cons x xs)
  then have cur: "current = Some x" and rest: "chain m (pNext (m x)) (xs @ b # a # ys)"
    and here: "t \<noteq> sType (m x)" and later: "t \<notin> set (tags m (xs @ [b]))"
    by (auto simp: tags_def)
  from Cons.IH [OF rest later Cons.prems(3), of "Some x"] cur here show ?case
    by (subst vpExtractStructure_loop.simps) simp
qed

lemma chain_cong:
  "(\<And>x. x \<in> set as \<Longrightarrow> pNext (m' x) = pNext (m x)) \<Longrightarrow> chain m p as \<Longrightarrow> chain m' p as"
  by (induction as arbitrary: p) auto

lemma chain_update_fresh:
  "a \<notin> set as \<Longrightarrow> chain m p as \<Longrightarrow> chain (m(a := s)) p as"
  by (rule chain_cong [where m = m]) auto

lemma chain_unlink_aux:
  assumes at_b: "pNext (m' b) = pNext (m a)"
    and other: "\<And>x. x \<noteq> b \<Longrightarrow> pNext (m' x) = pNext (m x)"
  shows "chain m p (xs @ b # a # ys) \<Longrightarrow> distinct (xs @ b # a # ys) \<Longrightarrow>
         chain m' p (xs @ b # ys)"
proof (induction xs arbitrary: p)
  case Nil
  then have p: "p = Some b" and ys: "chain m (pNext (m a)) ys" and out: "b \<notin> set ys"
    by auto
  have "pNext (m' x) = pNext (m x)" if "x \<in> set ys" for x
    by (metis that out other)
  then have "chain m' (pNext (m a)) ys" using ys by (rule chain_cong)
  with p at_b show ?case by simp
next
  case (Cons x xs)
  then have p: "p = Some x" and rest: "chain m (pNext (m x)) (xs @ b # a # ys)"
    and d: "distinct (xs @ b # a # ys)" and neq: "x \<noteq> b"
    by auto
  from Cons.IH [OF rest d] p neq other show ?case by simp
qed

lemma chain_unlink:
  "chain m p (xs @ b # a # ys) \<Longrightarrow> distinct (xs @ b # a # ys) \<Longrightarrow>
   chain (m(b := (m b)\<lparr>pNext := pNext (m a)\<rparr>)) p (xs @ b # ys)"
  by (rule chain_unlink_aux [where m = m and a = a]) auto

lemma find_other_tags:
  "t \<notin> set (tags m as) \<Longrightarrow> (\<And>x. sType (m' x) = sType (m x)) \<Longrightarrow>
   find (\<lambda>a. sType (m' a) = t) as = None"
  by (induction as) (auto simp: tags_def)

lemma vpExtractStructure_absent:
  assumes wf: "chain m (Some pFeatures) (pFeatures # as)"
    and head: "sType (m pFeatures) = VK_STRUCTURE_TYPE_PHYSICAL_DEVICE_FEATURES_2_KHR"
    and t: "t \<noteq> VK_STRUCTURE_TYPE_PHYSICAL_DEVICE_FEATURES_2_KHR"
    and absent: "t \<notin> set (tags m as)"
  shows "vpExtractStructure m pFeatures t = Some (m, None)"
proof -
  from head t absent have "t \<notin> set (tags m (pFeatures # as))" by (auto simp: tags_def)
  with wf have "vpExtractStructure_loop t m (Some pFeatures) None None = Some (m, None)"
    by (rule loop_absent)
  with t show ?thesis by (simp add: vpExtractStructure_def)
qed

lemma vpExtractStructure_present:
  assumes wf: "chain m (Some pFeatures) (pFeatures # xs @ a # ys)"
    and head: "sType (m pFeatures) = VK_STRUCTURE_TYPE_PHYSICAL_DEVICE_FEATURES_2_KHR"
    and t: "t \<noteq> VK_STRUCTURE_TYPE_PHYSICAL_DEVICE_FEATURES_2_KHR"
    and before: "t \<notin> set (tags m xs)"
    and here: "sType (m a) = t"
  shows "\<exists>m'. vpExtractStructure m pFeatures t = Some (m', Some a) \<and>
           chain m' (Some pFeatures) (pFeatures # xs @ ys) \<and> pNext (m' a) = None \<and>
           (\<forall>b. sType (m' b) = sType (m b) \<and> payload (m' b) = payload (m b)) \<and>
           (\<forall>b. b \<notin> set (pFeatures # xs @ a # ys) \<longrightarrow> m' b = m b) \<and>
           (\<forall>b. b \<in> set ys \<longrightarrow> m' b = m b)"
proof -
  obtain pre b where pre: "pFeatures # xs = pre @ [b]"
    by (metis append_butlast_last_id list.distinct(1))
  from wf have d: "distinct (pFeatures # xs @ a # ys)" by (rule chain_distinct)
  from pre wf have wf': "chain m (Some pFeatures) (pre @ b # a # ys)"
    by (metis append_Cons append_Nil append_assoc)
  from pre d have d': "distinct (pre @ b # a # ys)"
    by (metis append_Cons append_Nil append_assoc)
  from pre head t before have "t \<notin> set (tags m (pre @ [b]))"
    by (metis list.simps(9) set_ConsD tags_def)
  with wf' have loop: "vpExtractStructure_loop t m (Some pFeatures) None None =
      Some (relink m (Some b) a, Some a)"
    using here by (rule loop_present_later)
  define m1 where "m1 = m(b := (m b)\<lparr>pNext := pNext (m a)\<rparr>)"
  define m2 where "m2 = m1(a := (m1 a)\<lparr>pNext := None\<rparr>)"
  from loop t have res: "vpExtractStructure m pFeatures t = Some (m2, Some a)"
    by (simp add: vpExtractStructure_def relink_def m1_def m2_def)
  from wf' d' have "chain m1 (Some pFeatures) (pre @ b # ys)"
    unfolding m1_def by (rule chain_unlink)
  moreover from d' have "a \<notin> set (pre @ b # ys)" by auto
  ultimately have "chain m2 (Some pFeatures) (pre @ b # ys)"
    unfolding m2_def by (rule chain_update_fresh [rotated])
  with pre have c: "chain m2 (Some pFeatures) (pFeatures # xs @ ys)"
    by (metis append_Cons append_Nil append_assoc)
  have n: "pNext (m2 a) = None" by (simp add: m2_def)
  have same: "\<forall>x. sType (m2 x) = sType (m x) \<and> payload (m2 x) = payload (m x)"
    by (simp add: m1_def m2_def)
  from pre have "b \<in> set (pFeatures # xs)" by (metis in_set_conv_decomp)
  then have out: "\<forall>x. x \<notin> set (pFeatures # xs @ a # ys) \<longrightarrow> m2 x = m x"
    by (auto simp: m1_def m2_def)
  from d' have "b \<notin> set ys" "a \<notin> set ys"
    by auto
  then have tail: "\<forall>x. x \<in> set ys \<longrightarrow> m2 x = m x"
    by (auto simp: m1_def m2_def)
  from res c n same out tail show ?thesis by blast
qed


lemma remove1_middle:
  "a \<notin> set xs \<Longrightarrow> remove1 a (xs @ a # ys) = xs @ ys"
  by (simp add: remove1_append)

text \<open>
  Claim C7.  On a well-formed (acyclic, null-terminated) chain whose head is the
  \<^verbatim>\<open>VkPhysicalDeviceFeatures2KHR\<close> structure and in which every type occurs at most
  once, \<open>vpExtractStructure\<close> terminates; it returns null exactly when the type is the
  head's or is absent, and then leaves the memory unchanged.  Otherwise it returns the
  first (and only) link \<open>f\<close> of that type; the chain is re-linked around \<open>f\<close>, the
  \<open>pNext\<close> of \<open>f\<close> is null, no type or payload has changed, nothing outside the chain
  has changed, and \<open>vpGetStructure\<close> no longer finds the type in the chain.
\<close>

theorem vpExtractStructure_removes_link:
  assumes wf: "chain m (Some pFeatures) (pFeatures # as)"
    and head: "sType (m pFeatures) = VK_STRUCTURE_TYPE_PHYSICAL_DEVICE_FEATURES_2_KHR"
    and once: "distinct (tags m (pFeatures # as))"
  shows "\<exists>m' r. vpExtractStructure m pFeatures t = Some (m', r) \<and>
           r = (if t = VK_STRUCTURE_TYPE_PHYSICAL_DEVICE_FEATURES_2_KHR then None
                else find (\<lambda>a. sType (m a) = t) as) \<and>
           (r = None \<longleftrightarrow>
              t = VK_STRUCTURE_TYPE_PHYSICAL_DEVICE_FEATURES_2_KHR \<or> t \<notin> set (tags m as)) \<and>
           (case r of
              None \<Rightarrow> m' = m
            | Some f \<Rightarrow>
                f \<in> set as \<and> sType (m f) = t \<and>
                chain m' (Some pFeatures) (pFeatures # remove1 f as) \<and>
                pNext (m' f) = None \<and>
                (\<forall>b. sType (m' b) = sType (m b) \<and> payload (m' b) = payload (m b)) \<and>
                (\<forall>b. b \<notin> set (pFeatures # as) \<longrightarrow> m' b = m b) \<and>
                vpGetStructure m' (Some pFeatures) t = Some None)"
proof (cases "t = VK_STRUCTURE_TYPE_PHYSICAL_DEVICE_FEATURES_2_KHR")
  case True
  then show ?thesis by (simp add: vpExtractStructure_def)
next
  case t: False
  show ?thesis
  proof (cases "t \<in> set (tags m as)")
    case False
    with wf head t have "vpExtractStructure m pFeatures t = Some (m, None)"
      by (simp add: vpExtractStructure_absent)
    moreover from False have "find (\<lambda>a. sType (m a) = t) as = None"
      by (rule find_absent)
    ultimately show ?thesis using t False by simp
  next
    case True
    then have "\<exists>x\<in>set as. sType (m x) = t" by (auto simp: tags_def)
    then have "\<exists>xs a ys. as = xs @ a # ys \<and> sType (m a) = t \<and>
        (\<forall>x\<in>set xs. \<not> sType (m x) = t)"
      by (rule split_list_first_prop)
    then obtain xs a ys where as: "as = xs @ a # ys" and here: "sType (m a) = t"
      and before: "\<forall>x\<in>set xs. sType (m x) \<noteq> t"
      by blast
    then have before': "t \<notin> set (tags m xs)" by (auto simp: tags_def)
    from wf as have wf': "chain m (Some pFeatures) (pFeatures # xs @ a # ys)" by simp
    from vpExtractStructure_present [OF wf' head t before' here]
    obtain m' where res: "vpExtractStructure m pFeatures t = Some (m', Some a)"
      and c: "chain m' (Some pFeatures) (pFeatures # xs @ ys)"
      and n: "pNext (m' a) = None"
      and same: "\<forall>b. sType (m' b) = sType (m b) \<and> payload (m' b) = payload (m b)"
      and out: "\<forall>b. b \<notin> set (pFeatures # xs @ a # ys) \<longrightarrow> m' b = m b"
      by blast
    from wf' have "distinct (pFeatures # xs @ a # ys)" by (rule chain_distinct)
    then have "a \<notin> set xs" by auto
    then have rm: "remove1 a as = xs @ ys" unfolding as by (rule remove1_middle)
    from before' here have f: "find (\<lambda>a. sType (m a) = t) as = Some a"
      unfolding as by (rule find_first)
    from once as here head t have "t \<notin> set (tags m (pFeatures # xs @ ys))"
      by (auto simp: tags_def)
    then have "find (\<lambda>a. sType (m' a) = t) (pFeatures # xs @ ys) = None"
      using same by (intro find_other_tags) auto
    with vpGetStructure_chain [OF c, of t]
    have again: "vpGetStructure m' (Some pFeatures) t = Some None"
      by (simp only:)
    from res f t True as here c rm n same out again show ?thesis by simp
  qed
qed

theorem vpExtractStructure_removes_link_witness:
  "chain example_memory (Some 1) [1, 2, 3, 4] \<and>
   sType (example_memory 1) = VK_STRUCTURE_TYPE_PHYSICAL_DEVICE_FEATURES_2_KHR \<and>
   distinct (tags example_memory [1, 2, 3, 4]) \<and>
   (\<exists>m'. vpExtractStructure example_memory 1
            VK_STRUCTURE_TYPE_PHYSICAL_DEVICE_IMAGE_ROBUSTNESS_FEATURES_EXT = Some (m', Some 3) \<and>
         chain m' (Some 1) [1, 2, 4] \<and> pNext (m' 3) = None \<and>
         vpGetStructure m' (Some 1)
            VK_STRUCTURE_TYPE_PHYSICAL_DEVICE_IMAGE_ROBUSTNESS_FEATURES_EXT = Some None)"
proof -
  have wf: "chain example_memory (Some 1) [1, 2, 3, 4]"
    by (simp add: example_memory_def)
  have head: "sType (example_memory 1) = VK_STRUCTURE_TYPE_PHYSICAL_DEVICE_FEATURES_2_KHR"
    by (simp add: example_memory_def)
  have once: "distinct (tags example_memory [1, 2, 3, 4])"
    by (simp add: example_memory_def tags_def)
  have f: "find (\<lambda>a. sType (example_memory a) =
                 VK_STRUCTURE_TYPE_PHYSICAL_DEVICE_IMAGE_ROBUSTNESS_FEATURES_EXT) [2, 3, 4] = Some 3"
    by (simp add: example_memory_def)
  from vpExtractStructure_removes_link [OF wf head once,
      of VK_STRUCTURE_TYPE_PHYSICAL_DEVICE_IMAGE_ROBUSTNESS_FEATURES_EXT] f
  have "\<exists>m'. vpExtractStructure example_memory 1
            VK_STRUCTURE_TYPE_PHYSICAL_DEVICE_IMAGE_ROBUSTNESS_FEATURES_EXT = Some (m', Some 3) \<and>
         chain m' (Some 1) [1, 2, 4] \<and> pNext (m' 3) = None \<and>
         vpGetStructure m' (Some 1)
            VK_STRUCTURE_TYPE_PHYSICAL_DEVICE_IMAGE_ROBUSTNESS_FEATURES_EXT = Some None"
    by auto
  with wf head once show ?thesis by blast
qed

section \<open>Building the chain of required features\<close>

lemma find_Some_split:
  "find P xs = Some a \<Longrightarrow> \<exists>ys zs. xs = ys @ a # zs \<and> P a \<and> (\<forall>y\<in>set ys. \<not> P y)"
proof (induction xs)
  case Nil
  then show ?case by simp
next
  case (Cons x xs)
  show ?case
  proof (cases "P x")
    case True
    with Cons.prems have "x = a" by simp
    with True have "x # xs = [] @ a # xs \<and> P a \<and> (\<forall>y\<in>set []. \<not> P y)" by simp
    then show ?thesis by blast
  next
    case False
    with Cons obtain ys zs where "xs = ys @ a # zs" "P a" "\<forall>y\<in>set ys. \<not> P y" by auto
    with False have "x # xs = (x # ys) @ a # zs \<and> P a \<and> (\<forall>y\<in>set (x # ys). \<not> P y)"
      by simp
    then show ?thesis by blast
  qed
qed

lemma find_None_tags:
  "find (\<lambda>a. sType (m a) = t) as = None \<Longrightarrow> t \<notin> set (tags m as)"
  by (induction as) (auto simp: tags_def split: if_splits)

lemma distinct_map_remove1:
  "distinct (map f xs) \<Longrightarrow> distinct (map f (remove1 a xs))"
proof (induction xs)
  case Nil
  then show ?case by simp
next
  case (Cons x xs)
  have "set (remove1 a xs) \<subseteq> set xs" by (rule set_remove1_subset)
  with Cons show ?case by auto
qed

lemma PushBack_last_chain:
  "chain m (Some r) (r # rs) \<Longrightarrow> PushBack_last m r = Some (last (r # rs))"
proof (induction rs arbitrary: r)
  case Nil
  then show ?case by (subst PushBack_last.simps) simp
next
  case (Cons x rs)
  then have nx: "pNext (m r) = Some x" and rest: "chain m (Some x) (x # rs)" by auto
  from Cons.IH [OF rest] nx show ?case by (subst PushBack_last.simps) simp
qed

lemma chain_snoc_aux:
  assumes at_l: "pNext (m' l) = Some f" and at_f: "pNext (m' f) = None"
    and other: "\<And>x. x \<noteq> l \<Longrightarrow> pNext (m' x) = pNext (m x)"
  shows "chain m p (xs @ [l]) \<Longrightarrow> l \<notin> set xs \<Longrightarrow> chain m' p (xs @ [l, f])"
proof (induction xs arbitrary: p)
  case Nil
  with at_l at_f show ?case by simp
next
  case (Cons x xs)
  then have p: "p = Some x" and rest: "chain m (pNext (m x)) (xs @ [l])"
    and neq: "x \<noteq> l" and out: "l \<notin> set xs"
    by auto
  from Cons.IH [OF rest out] p neq other show ?case by simp
qed

lemma PushBack_chain:
  assumes req: "chain m (Some (requiredFeaturesChain fc)) (requiredFeaturesChain fc # rs)"
    and f_end: "pNext (m f) = None"
    and f_new: "f \<notin> set (requiredFeaturesChain fc # rs)"
  shows "\<exists>l. l \<in> set (requiredFeaturesChain fc # rs) \<and>
           PushBack fc m (Some f) = Some (m(l := (m l)\<lparr>pNext := Some f\<rparr>)) \<and>
           chain (m(l := (m l)\<lparr>pNext := Some f\<rparr>)) (Some (requiredFeaturesChain fc))
             (requiredFeaturesChain fc # rs @ [f])"
proof -
  define r where "r = requiredFeaturesChain fc"
  define l where "l = last (r # rs)"
  define m' where "m' = m(l := (m l)\<lparr>pNext := Some f\<rparr>)"
  from req have lastp: "PushBack_last m r = Some l"
    unfolding r_def l_def by (rule PushBack_last_chain)
  have l_in: "l \<in> set (r # rs)" unfolding l_def by (rule last_in_set) simp
  obtain xs where xs: "r # rs = xs @ [l]"
    unfolding l_def by (metis append_butlast_last_id list.distinct(1))
  from req have "distinct (r # rs)" unfolding r_def by (rule chain_distinct)
  with xs have out: "l \<notin> set xs" by (metis distinct_append distinct.simps(2) disjoint_iff list.set_intros(1))
  from f_new l_in have "f \<noteq> l" unfolding r_def by auto
  then have "pNext (m' l) = Some f" "pNext (m' f) = None"
    "\<And>x. x \<noteq> l \<Longrightarrow> pNext (m' x) = pNext (m x)"
    using f_end by (simp_all add: m'_def)
  moreover from req xs have "chain m (Some r) (xs @ [l])" unfolding r_def by simp
  ultimately have "chain m' (Some r) (xs @ [l, f])" using out by (rule chain_snoc_aux)
  with xs have "chain m' (Some r) (r # rs @ [f])"
    by (metis append_Cons append_Nil append_assoc)
  moreover from lastp have "PushBack fc m (Some f) = Some m'"
    by (simp add: PushBack_def r_def m'_def)
  ultimately show ?thesis using l_in unfolding r_def m'_def by blast
qed

lemma aggregator_wf_tags_eq:
  "(\<And>b. sType (m' b) = sType (m b)) \<Longrightarrow> tags m' as = tags m as"
  by (simp add: tags_def)

lemma aggregator_wf_all:
  "aggregator_wf fc m ms rs \<Longrightarrow>
   chain m (Some (physicalDeviceFeatures2KHR fc)) (physicalDeviceFeatures2KHR fc # ms)"
  by (simp add: aggregator_wf_def)

lemma aggregator_wf_required:
  "aggregator_wf fc m ms rs \<Longrightarrow>
   chain m (Some (requiredFeaturesChain fc)) (requiredFeaturesChain fc # rs)"
  by (simp add: aggregator_wf_def)

lemma aggregator_wf_head:
  "aggregator_wf fc m ms rs \<Longrightarrow>
   sType (m (physicalDeviceFeatures2KHR fc)) = VK_STRUCTURE_TYPE_PHYSICAL_DEVICE_FEATURES_2_KHR"
  by (simp add: aggregator_wf_def)

lemma Build_step_move:
  assumes wf: "aggregator_wf fc m ms rs"
    and t: "t \<noteq> VK_STRUCTURE_TYPE_PHYSICAL_DEVICE_FEATURES_2_KHR"
    and f: "find (\<lambda>a. sType (m a) = t) ms = Some a"
  shows "\<exists>m1 m'. vpExtractStructure m (physicalDeviceFeatures2KHR fc) t = Some (m1, Some a) \<and>
           PushBack fc m1 (Some a) = Some m' \<and>
           aggregator_wf fc m' (remove1 a ms) (rs @ [a]) \<and>
           (\<forall>b. sType (m' b) = sType (m b) \<and> payload (m' b) = payload (m b)) \<and>
           (\<forall>b. b \<notin> set (physicalDeviceFeatures2KHR fc # ms) \<union> set (requiredFeaturesChain fc # rs)
                \<longrightarrow> m' b = m b)"
proof -
  define M where "M = physicalDeviceFeatures2KHR fc"
  define R where "R = requiredFeaturesChain fc"
  from wf have all: "chain m (Some M) (M # ms)" and req: "chain m (Some R) (R # rs)"
    and disj: "set (M # ms) \<inter> set (R # rs) = {}"
    and head: "sType (m M) = VK_STRUCTURE_TYPE_PHYSICAL_DEVICE_FEATURES_2_KHR"
    and once: "distinct (tags m (M # ms))"
    by (simp_all add: aggregator_wf_def M_def R_def)
  from find_Some_split [OF f] obtain xs ys where ms: "ms = xs @ a # ys"
    and here: "sType (m a) = t" and before: "\<forall>x\<in>set xs. sType (m x) \<noteq> t"
    by blast
  from before have before': "t \<notin> set (tags m xs)" by (auto simp: tags_def)
  from all ms have all': "chain m (Some M) (M # xs @ a # ys)" by simp
  from vpExtractStructure_present [OF all' head t before' here]
  obtain m1 where ex: "vpExtractStructure m M t = Some (m1, Some a)"
    and c1: "chain m1 (Some M) (M # xs @ ys)"
    and n1: "pNext (m1 a) = None"
    and same1: "\<forall>b. sType (m1 b) = sType (m b) \<and> payload (m1 b) = payload (m b)"
    and out1: "\<forall>b. b \<notin> set (M # xs @ a # ys) \<longrightarrow> m1 b = m b"
    by blast
  from all' have d: "distinct (M # xs @ a # ys)" by (rule chain_distinct)
  then have "a \<notin> set xs" by auto
  then have rm: "remove1 a ms = xs @ ys" unfolding ms by (rule remove1_middle)
  from disj ms out1 have "\<And>x. x \<in> set (R # rs) \<Longrightarrow> pNext (m1 x) = pNext (m x)"
    by (metis disjoint_iff)
  then have req1: "chain m1 (Some R) (R # rs)" using req by (rule chain_cong)
  from disj ms have a_new: "a \<notin> set (R # rs)" by auto
  from PushBack_chain [OF req1 [unfolded R_def] n1 a_new [unfolded R_def]]
  obtain l where l_in: "l \<in> set (R # rs)"
    and pb: "PushBack fc m1 (Some a) = Some (m1(l := (m1 l)\<lparr>pNext := Some a\<rparr>))"
    and req2: "chain (m1(l := (m1 l)\<lparr>pNext := Some a\<rparr>)) (Some R) (R # rs @ [a])"
    unfolding R_def by blast
  define m2 where "m2 = m1(l := (m1 l)\<lparr>pNext := Some a\<rparr>)"
  from l_in disj ms have l_out: "l \<notin> set (M # xs @ ys)" by auto
  with c1 have all2: "chain m2 (Some M) (M # xs @ ys)"
    unfolding m2_def by (rule chain_update_fresh [rotated])
  from same1 have same2: "\<forall>b. sType (m2 b) = sType (m b) \<and> payload (m2 b) = payload (m b)"
    by (simp add: m2_def)
  then have tg: "tags m2 (M # xs @ ys) = tags m (M # xs @ ys)"
    by (simp add: tags_def)
  from once ms have "distinct (tags m (M # xs @ ys))" by (auto simp: tags_def)
  with tg have once2: "distinct (tags m2 (M # xs @ ys))" by simp
  from disj ms d have disj2: "set (M # xs @ ys) \<inter> set (R # rs @ [a]) = {}" by auto
  from same2 head have head2: "sType (m2 M) = VK_STRUCTURE_TYPE_PHYSICAL_DEVICE_FEATURES_2_KHR"
    by simp
  from all2 req2 disj2 head2 once2 rm
  have wf2: "aggregator_wf fc m2 (remove1 a ms) (rs @ [a])"
    by (simp add: aggregator_wf_def M_def R_def m2_def)
  from out1 l_in ms have out2: "\<forall>b. b \<notin> set (M # ms) \<union> set (R # rs) \<longrightarrow> m2 b = m b"
    by (auto simp: m2_def)
  from ex pb wf2 same2 out2 show ?thesis
    unfolding M_def R_def m2_def by blast
qed

lemma Build_step_skip:
  assumes wf: "aggregator_wf fc m ms rs"
    and t: "t \<noteq> VK_STRUCTURE_TYPE_PHYSICAL_DEVICE_FEATURES_2_KHR"
    and f: "find (\<lambda>a. sType (m a) = t) ms = None"
  shows "vpExtractStructure m (physicalDeviceFeatures2KHR fc) t = Some (m, None)"
proof -
  from f have "t \<notin> set (tags m ms)" by (rule find_None_tags)
  with aggregator_wf_all [OF wf] aggregator_wf_head [OF wf] t show ?thesis
    by (rule vpExtractStructure_absent)
qed

lemma Build_refines:
  "aggregator_wf fc m ms rs \<Longrightarrow>
   \<exists>m'. Build fc m ts = Some m' \<and>
     aggregator_wf fc m'
       (filter (\<lambda>a. a \<notin> set (Build_links (\<lambda>a. sType (m a)) ms ts)) ms)
       (rs @ Build_links (\<lambda>a. sType (m a)) ms ts) \<and>
     (\<forall>b. sType (m' b) = sType (m b) \<and> payload (m' b) = payload (m b)) \<and>
     (\<forall>b. b \<notin> set (physicalDeviceFeatures2KHR fc # ms) \<union> set (requiredFeaturesChain fc # rs)
          \<longrightarrow> m' b = m b)"
proof (induction ts arbitrary: m ms rs)
  case Nil
  then show ?case by simp
next
  case (Cons t ts)
  show ?case
  proof (cases "t = VK_STRUCTURE_TYPE_PHYSICAL_DEVICE_FEATURES_2_KHR")
    case True
    with Cons.IH [OF Cons.prems] show ?thesis by simp
  next
    case t: False
    show ?thesis
    proof (cases "find (\<lambda>a. sType (m a) = t) ms")
      case None
      with Build_step_skip [OF Cons.prems t None] Cons.IH [OF Cons.prems] t
      show ?thesis by simp
    next
      case (Some a)
      from Build_step_move [OF Cons.prems t Some]
      obtain m1 m2 where ex: "vpExtractStructure m (physicalDeviceFeatures2KHR fc) t = Some (m1, Some a)"
        and pb: "PushBack fc m1 (Some a) = Some m2"
        and wf2: "aggregator_wf fc m2 (remove1 a ms) (rs @ [a])"
        and same2: "\<forall>b. sType (m2 b) = sType (m b) \<and> payload (m2 b) = payload (m b)"
        and out2: "\<forall>b. b \<notin> set (physicalDeviceFeatures2KHR fc # ms) \<union>
                         set (requiredFeaturesChain fc # rs) \<longrightarrow> m2 b = m b"
        by blast
      from same2 have tag_eq: "(\<lambda>a. sType (m2 a)) = (\<lambda>a. sType (m a))" by auto
      define L where "L = Build_links (\<lambda>a. sType (m a)) (remove1 a ms) ts"
      from Cons.IH [OF wf2] tag_eq
      obtain m' where b: "Build fc m2 ts = Some m'"
        and wf': "aggregator_wf fc m' (filter (\<lambda>x. x \<notin> set L) (remove1 a ms)) ((rs @ [a]) @ L)"
        and same': "\<forall>b. sType (m' b) = sType (m2 b) \<and> payload (m' b) = payload (m2 b)"
        and out': "\<forall>b. b \<notin> set (physicalDeviceFeatures2KHR fc # remove1 a ms) \<union>
                         set (requiredFeaturesChain fc # rs @ [a]) \<longrightarrow> m' b = m2 b"
        unfolding L_def by auto
      from aggregator_wf_all [OF Cons.prems] have "distinct (physicalDeviceFeatures2KHR fc # ms)"
        by (rule chain_distinct)
      then have dms: "distinct ms" by simp
      then have "remove1 a ms = filter (\<lambda>x. x \<noteq> a) ms"
        by (simp add: distinct_remove1_removeAll removeAll_filter_not_eq) metis
      then have flt: "filter (\<lambda>x. x \<notin> set L) (remove1 a ms) = filter (\<lambda>x. x \<notin> set (a # L)) ms"
        by (auto intro: filter_cong)
      from t Some have links: "Build_links (\<lambda>a. sType (m a)) ms (t # ts) = a # L"
        by (simp add: L_def)
      from t ex pb b have res: "Build fc m (t # ts) = Some m'" by simp
      from Some have "a \<in> set ms" by (auto dest: find_Some_split)
      with out2 out' have out: "\<forall>b. b \<notin> set (physicalDeviceFeatures2KHR fc # ms) \<union>
                         set (requiredFeaturesChain fc # rs) \<longrightarrow> m' b = m b"
        by (auto dest: notin_set_remove1)
      from res wf' flt links same2 same' out show ?thesis by simp
    qed
  qed
qed

lemma concat_skip_empty:
  "f t = [] \<Longrightarrow>
   concat (map f (filter P (filter (\<lambda>u. u \<noteq> t) xs))) = concat (map f (filter P xs))"
  by (induction xs) auto

lemma filter_tag_find_None:
  "find (\<lambda>a. tag a = t) ms = None \<Longrightarrow> filter (\<lambda>a. tag a = t) ms = []"
  by (induction ms) (auto split: if_splits)

lemma filter_tag_absent:
  "t \<notin> tag ` set ms \<Longrightarrow> filter (\<lambda>a. tag a = t) ms = []"
  by (induction ms) auto

lemma filter_tag_find_Some:
  "distinct (map tag ms) \<Longrightarrow> find (\<lambda>a. tag a = t) ms = Some a \<Longrightarrow>
   filter (\<lambda>a. tag a = t) ms = [a]"
proof (induction ms)
  case Nil
  then show ?case by simp
next
  case (Cons x ms)
  show ?case
  proof (cases "tag x = t")
    case True
    with Cons.prems have "x = a" and "t \<notin> tag ` set ms" by auto
    with True show ?thesis by (simp add: filter_tag_absent)
  next
    case False
    with Cons show ?thesis by simp
  qed
qed

lemma filter_tag_remove1_same:
  "distinct (map tag ms) \<Longrightarrow> a \<in> set ms \<Longrightarrow>
   filter (\<lambda>x. tag x = tag a) (remove1 a ms) = []"
proof (induction ms)
  case Nil
  then show ?case by simp
next
  case (Cons x ms)
  show ?case
  proof (cases "x = a")
    case True
    with Cons.prems have "tag a \<notin> tag ` set ms" by auto
    with True show ?thesis by (simp add: filter_tag_absent)
  next
    case False
    with Cons.prems have "tag x \<noteq> tag a" by auto
    with Cons False show ?thesis by auto
  qed
qed

lemma filter_tag_remove1_other:
  "u \<noteq> tag a \<Longrightarrow> filter (\<lambda>x. tag x = u) (remove1 a ms) = filter (\<lambda>x. tag x = u) ms"
  by (induction ms) auto

lemma Build_links_selected:
  "distinct (map tag ms) \<Longrightarrow> Build_links tag ms ts = selected_links tag ms ts"
proof (induction ts arbitrary: ms)
  case Nil
  then show ?case by (simp add: selected_links_def)
next
  case (Cons t ts)
  let ?F = "VK_STRUCTURE_TYPE_PHYSICAL_DEVICE_FEATURES_2_KHR"
  let ?f = "\<lambda>ms t. filter (\<lambda>a. tag a = t) ms"
  let ?X = "first_occurrences ts"
  show ?case
  proof (cases "t = ?F")
    case True
    have "filter (\<lambda>u. u \<noteq> ?F) (filter (\<lambda>u. u \<noteq> ?F) ?X) = filter (\<lambda>u. u \<noteq> ?F) ?X"
      by simp
    with True Cons.IH [OF Cons.prems] show ?thesis
      by (simp add: selected_links_def)
  next
    case t: False
    show ?thesis
    proof (cases "find (\<lambda>a. tag a = t) ms")
      case None
      then have e: "?f ms t = []" by (rule filter_tag_find_None)
      then have "concat (map (?f ms) (filter (\<lambda>u. u \<noteq> ?F) (filter (\<lambda>u. u \<noteq> t) ?X))) =
                 concat (map (?f ms) (filter (\<lambda>u. u \<noteq> ?F) ?X))"
        by (rule concat_skip_empty)
      with t None e Cons.IH [OF Cons.prems] show ?thesis
        by (simp add: selected_links_def)
    next
      case (Some a)
      with Cons.prems have one: "?f ms t = [a]" by (simp add: filter_tag_find_Some)
      from Some have a: "a \<in> set ms" and ta: "tag a = t" by (auto dest: find_Some_split)
      let ?ms' = "remove1 a ms"
      let ?Y = "filter (\<lambda>u. u \<noteq> ?F) (filter (\<lambda>u. u \<noteq> t) ?X)"
      from Cons.prems have d': "distinct (map tag ?ms')" by (rule distinct_map_remove1)
      from Cons.prems a ta have "?f ?ms' t = []" by (auto simp: filter_tag_remove1_same)
      then have e1: "concat (map (?f ?ms') ?Y) =
                 concat (map (?f ?ms') (filter (\<lambda>u. u \<noteq> ?F) ?X))"
        by (rule concat_skip_empty)
      have e2: "map (?f ?ms') ?Y = map (?f ms) ?Y"
        using ta by (intro map_cong refl) (auto simp: filter_tag_remove1_other)
      have "selected_links tag ?ms' ts = concat (map (?f ?ms') (filter (\<lambda>u. u \<noteq> ?F) ?X))"
        by (simp only: selected_links_def)
      also have "\<dots> = concat (map (?f ?ms') ?Y)" by (rule e1 [symmetric])
      also have "\<dots> = concat (map (?f ms) ?Y)" by (simp only: e2)
      finally have sel: "selected_links tag ?ms' ts = concat (map (?f ms) ?Y)" .
      from t Some Cons.IH [OF d']
      have lhs: "Build_links tag ms (t # ts) = a # selected_links tag ?ms' ts" by simp
      from t have "filter (\<lambda>u. u \<noteq> ?F) (first_occurrences (t # ts)) = t # ?Y"
        by simp
      then have rhs: "selected_links tag ms (t # ts) = ?f ms t @ concat (map (?f ms) ?Y)"
        by (simp only: selected_links_def list.map concat.simps)
      show ?thesis by (simp only: lhs rhs sel one append.simps)
    qed
  qed
qed

lemma set_first_occurrences: "set (first_occurrences ts) = set ts"
  by (induction ts) auto

lemma first_occurrences_distinct: "distinct ts \<Longrightarrow> first_occurrences ts = ts"
proof (induction ts)
  case Nil
  then show ?case by simp
next
  case (Cons t ts)
  then have "filter (\<lambda>u. u \<noteq> t) ts = ts" by (auto intro: filter_True)
  with Cons show ?case by simp
qed

lemma set_selected_links:
  "set (selected_links tag ms ts) =
   {a \<in> set ms. tag a \<in> set ts \<and> tag a \<noteq> VK_STRUCTURE_TYPE_PHYSICAL_DEVICE_FEATURES_2_KHR}"
  by (auto simp: selected_links_def set_first_occurrences)

lemma map_tag_filter:
  "distinct (map tag ms) \<Longrightarrow>
   map tag (filter (\<lambda>a. tag a = t) ms) = (if t \<in> tag ` set ms then [t] else [])"
proof (induction ms)
  case Nil
  then show ?case by simp
next
  case (Cons x ms)
  then show ?case by (auto simp: filter_tag_absent)
qed

lemma concat_singletons:
  "concat (map (\<lambda>t. if P t then [t] else []) xs) = filter P xs"
  by (induction xs) auto

lemma map_tag_selected_links:
  assumes "distinct (map tag ms)"
  shows "map tag (selected_links tag ms ts) =
    filter (\<lambda>t. t \<in> tag ` set ms)
      (filter (\<lambda>t. t \<noteq> VK_STRUCTURE_TYPE_PHYSICAL_DEVICE_FEATURES_2_KHR) (first_occurrences ts))"
proof -
  have "map tag (selected_links tag ms ts) =
    concat (map (\<lambda>t. map tag (filter (\<lambda>a. tag a = t) ms))
      (filter (\<lambda>t. t \<noteq> VK_STRUCTURE_TYPE_PHYSICAL_DEVICE_FEATURES_2_KHR) (first_occurrences ts)))"
    by (simp add: selected_links_def map_concat comp_def)
  also have "\<dots> = concat (map (\<lambda>t. if t \<in> tag ` set ms then [t] else [])
      (filter (\<lambda>t. t \<noteq> VK_STRUCTURE_TYPE_PHYSICAL_DEVICE_FEATURES_2_KHR) (first_occurrences ts)))"
    using assms by (simp add: map_tag_filter)
  also have "\<dots> = filter (\<lambda>t. t \<in> tag ` set ms)
      (filter (\<lambda>t. t \<noteq> VK_STRUCTURE_TYPE_PHYSICAL_DEVICE_FEATURES_2_KHR) (first_occurrences ts))"
    by (rule concat_singletons)
  finally show ?thesis .
qed

lemma selected_links_sentinel_only:
  "set ts \<subseteq> {VK_STRUCTURE_TYPE_PHYSICAL_DEVICE_FEATURES_2_KHR} \<Longrightarrow> selected_links tag ms ts = []"
proof -
  assume "set ts \<subseteq> {VK_STRUCTURE_TYPE_PHYSICAL_DEVICE_FEATURES_2_KHR}"
  then have "set (selected_links tag ms ts) = {}"
    unfolding set_selected_links by auto
  then show ?thesis by simp
qed

text \<open>
  Claim C6.  From a well-formed aggregator state, \<open>Build\<close> terminates and leaves the
  chain of required features as its head, the links \<open>rs\<close> it already had (none for a
  fresh \<^verbatim>\<open>FeaturesChain\<close>) and then exactly the feature structures whose types are in
  the list, the head's type \<^verbatim>\<open>VK_STRUCTURE_TYPE_PHYSICAL_DEVICE_FEATURES_2_KHR\<close> skipped,
  in the order in which the list first names them.  These links are gone from the chain
  of all feature structures, no type or payload has changed, and the memory outside the
  two chains is untouched.  An empty list or one that only names the head's type selects
  no link.
\<close>

theorem Build_extracts_subset:
  assumes wf: "aggregator_wf fc m ms rs"
  shows "\<exists>m'. Build fc m ts = Some m' \<and>
           chain m' (Some (requiredFeaturesChain fc))
             (requiredFeaturesChain fc # rs @ selected_links (\<lambda>a. sType (m a)) ms ts) \<and>
           chain m' (Some (physicalDeviceFeatures2KHR fc))
             (physicalDeviceFeatures2KHR fc #
                filter (\<lambda>a. a \<notin> set (selected_links (\<lambda>a. sType (m a)) ms ts)) ms) \<and>
           set (selected_links (\<lambda>a. sType (m a)) ms ts) =
             {a \<in> set ms. sType (m a) \<in> set ts \<and>
                sType (m a) \<noteq> VK_STRUCTURE_TYPE_PHYSICAL_DEVICE_FEATURES_2_KHR} \<and>
           tags m' (selected_links (\<lambda>a. sType (m a)) ms ts) =
             filter (\<lambda>t. t \<in> set (tags m ms))
               (filter (\<lambda>t. t \<noteq> VK_STRUCTURE_TYPE_PHYSICAL_DEVICE_FEATURES_2_KHR)
                  (first_occurrences ts)) \<and>
           (set ts \<subseteq> {VK_STRUCTURE_TYPE_PHYSICAL_DEVICE_FEATURES_2_KHR} \<longrightarrow>
              selected_links (\<lambda>a. sType (m a)) ms ts = []) \<and>
           (\<forall>b. sType (m' b) = sType (m b) \<and> payload (m' b) = payload (m b)) \<and>
           (\<forall>b. b \<notin> set (physicalDeviceFeatures2KHR fc # ms) \<union> set (requiredFeaturesChain fc # rs)
                \<longrightarrow> m' b = m b)"
proof -
  let ?tag = "\<lambda>a. sType (m a)"
  from wf have "distinct (tags m (physicalDeviceFeatures2KHR fc # ms))"
    by (simp add: aggregator_wf_def)
  then have once: "distinct (map ?tag ms)" by (simp add: tags_def)
  then have links: "Build_links ?tag ms ts = selected_links ?tag ms ts"
    by (rule Build_links_selected)
  from Build_refines [OF wf, of ts] links
  obtain m' where b: "Build fc m ts = Some m'"
    and wf': "aggregator_wf fc m'
        (filter (\<lambda>a. a \<notin> set (selected_links ?tag ms ts)) ms) (rs @ selected_links ?tag ms ts)"
    and same: "\<forall>b. sType (m' b) = sType (m b) \<and> payload (m' b) = payload (m b)"
    and out: "\<forall>b. b \<notin> set (physicalDeviceFeatures2KHR fc # ms) \<union> set (requiredFeaturesChain fc # rs)
                \<longrightarrow> m' b = m b"
    by auto
  note req = aggregator_wf_required [OF wf']
  note all = aggregator_wf_all [OF wf']
  from same have "tags m' (selected_links ?tag ms ts) = map ?tag (selected_links ?tag ms ts)"
    by (simp add: tags_def)
  also from once have "\<dots> = filter (\<lambda>t. t \<in> ?tag ` set ms)
      (filter (\<lambda>t. t \<noteq> VK_STRUCTURE_TYPE_PHYSICAL_DEVICE_FEATURES_2_KHR) (first_occurrences ts))"
    by (rule map_tag_selected_links)
  also have "?tag ` set ms = set (tags m ms)" by (simp add: tags_def)
  finally have order: "tags m' (selected_links ?tag ms ts) =
      filter (\<lambda>t. t \<in> set (tags m ms))
        (filter (\<lambda>t. t \<noteq> VK_STRUCTURE_TYPE_PHYSICAL_DEVICE_FEATURES_2_KHR) (first_occurrences ts))" .
  have sentinel: "set ts \<subseteq> {VK_STRUCTURE_TYPE_PHYSICAL_DEVICE_FEATURES_2_KHR} \<longrightarrow>
      selected_links ?tag ms ts = []"
    by (simp add: selected_links_sentinel_only)
  from b req all order sentinel same out set_selected_links [of ?tag ms ts]
  show ?thesis by (intro exI [of _ m'] conjI) assumption+
qed

lemma example_aggregator_wf: "aggregator_wf example_fc example_memory [2, 3, 4] []"
  by (simp add: aggregator_wf_def example_fc_def example_memory_def tags_def)

theorem Build_extracts_subset_witness:
  "aggregator_wf example_fc example_memory [2, 3, 4] [] \<and>
   (\<exists>m'. Build example_fc example_memory
            [VK_STRUCTURE_TYPE_PHYSICAL_DEVICE_TIMELINE_SEMAPHORE_FEATURES,
             VK_STRUCTURE_TYPE_PHYSICAL_DEVICE_FEATURES_2_KHR,
             VK_STRUCTURE_TYPE_PHYSICAL_DEVICE_ROBUSTNESS_2_FEATURES_EXT,
             VK_STRUCTURE_TYPE_PHYSICAL_DEVICE_TIMELINE_SEMAPHORE_FEATURES,
             VK_STRUCTURE_TYPE_OTHER 7] = Some m' \<and>
          chain m' (Some 10) [10, 4, 2] \<and> chain m' (Some 1) [1, 3])"
proof -
  let ?ts = "[VK_STRUCTURE_TYPE_PHYSICAL_DEVICE_TIMELINE_SEMAPHORE_FEATURES,
             VK_STRUCTURE_TYPE_PHYSICAL_DEVICE_FEATURES_2_KHR,
             VK_STRUCTURE_TYPE_PHYSICAL_DEVICE_ROBUSTNESS_2_FEATURES_EXT,
             VK_STRUCTURE_TYPE_PHYSICAL_DEVICE_TIMELINE_SEMAPHORE_FEATURES,
             VK_STRUCTURE_TYPE_OTHER 7]"
  have sel: "selected_links (\<lambda>a. sType (example_memory a)) [2, 3, 4] ?ts = [4, 2]"
    by (simp add: selected_links_def example_memory_def)
  from Build_extracts_subset [OF example_aggregator_wf, of ?ts]
  obtain m' where "Build example_fc example_memory ?ts = Some m'"
    and "chain m' (Some (requiredFeaturesChain example_fc))
             (requiredFeaturesChain example_fc # [] @
                selected_links (\<lambda>a. sType (example_memory a)) [2, 3, 4] ?ts)"
    and "chain m' (Some (physicalDeviceFeatures2KHR example_fc))
             (physicalDeviceFeatures2KHR example_fc #
                filter (\<lambda>a. a \<notin> set (selected_links (\<lambda>a. sType (example_memory a)) [2, 3, 4] ?ts))
                  [2, 3, 4])"
    by blast
  then have "Build example_fc example_memory ?ts = Some m' \<and>
          chain m' (Some 10) [10, 4, 2] \<and> chain m' (Some 1) [1, 3]"
    unfolding sel by (simp add: example_fc_def)
  with example_aggregator_wf show ?thesis by blast
qed


section \<open>Merging requested features\<close>

lemma VK_TRUE_neq_FALSE [simp]: "VK_TRUE \<noteq> VK_FALSE" "VK_FALSE \<noteq> VK_TRUE"
  by (simp_all add: VK_TRUE_def VK_FALSE_def)

lemma set_member_header [simp]:
  "sType (set_member m a i v b) = sType (m b)"
  "pNext (set_member m a i v b) = pNext (m b)"
  by (simp_all add: set_member_def)

lemma set_member_payload:
  "payload (set_member m a i v b) j = (if b = a \<and> j = i then v else payload (m b) j)"
  by (simp add: set_member_def)

lemma chain_same_links:
  "(\<And>x. pNext (m' x) = pNext (m x)) \<Longrightarrow> chain m p as \<Longrightarrow> chain m' p as"
  by (rule chain_cong) auto

lemma find_same_types:
  "(\<And>x. sType (m' x) = sType (m x)) \<Longrightarrow>
   find (\<lambda>x. sType (m' x) = t) as = find (\<lambda>x. sType (m x) = t) as"
  by simp

lemma ApplyFeatures_member_found:
  assumes req: "chain m (Some (requiredFeaturesChain fc)) rs"
    and f: "find (\<lambda>x. sType (m x) = sType (m q)) rs = Some out"
  shows "ApplyFeatures_member fc q index m =
     Some (Inr (set_member m out index
       (if payload (m out) index = VK_TRUE \<or> payload (m q) index = VK_TRUE
        then VK_TRUE else VK_FALSE)))"
  using vpGetStructure_chain [OF req, of "sType (m q)"] f
  by (simp add: ApplyFeatures_member_def)

lemma ApplyFeatures_members_merge:
  assumes req: "chain m (Some (requiredFeaturesChain fc)) rs"
    and f: "find (\<lambda>x. sType (m x) = sType (m q)) rs = Some out"
    and q: "q \<noteq> out"
    and d: "distinct indices"
  shows "\<exists>m'. ApplyFeatures_members fc q indices m = Some (Inr m') \<and>
           (\<forall>a. sType (m' a) = sType (m a) \<and> pNext (m' a) = pNext (m a)) \<and>
           (\<forall>a i. payload (m' a) i =
              (if a = out \<and> i \<in> set indices
               then (if payload (m a) i = VK_TRUE \<or> payload (m q) i = VK_TRUE
                     then VK_TRUE else VK_FALSE)
               else payload (m a) i))"
  using req f d
proof (induction indices arbitrary: m)
  case Nil
  then show ?case by simp
next
  case (Cons index indices)
  define v where "v = (if payload (m out) index = VK_TRUE \<or> payload (m q) index = VK_TRUE
        then VK_TRUE else VK_FALSE)"
  define m1 where "m1 = set_member m out index v"
  from ApplyFeatures_member_found [OF Cons.prems(1) Cons.prems(2)]
  have step: "ApplyFeatures_member fc q index m = Some (Inr m1)"
    by (simp add: m1_def v_def)
  have hdr: "\<And>x. sType (m1 x) = sType (m x)" "\<And>x. pNext (m1 x) = pNext (m x)"
    by (simp_all add: m1_def)
  from hdr(2) Cons.prems(1) have req1: "chain m1 (Some (requiredFeaturesChain fc)) rs"
    by (rule chain_same_links)
  from Cons.prems(2) have f1: "find (\<lambda>x. sType (m1 x) = sType (m1 q)) rs = Some out"
    by (simp add: hdr)
  from Cons.prems(3) have d1: "distinct indices" and fresh: "index \<notin> set indices" by simp_all
  from Cons.IH [OF req1 f1 d1]
  obtain m' where run: "ApplyFeatures_members fc q indices m1 = Some (Inr m')"
    and hdr': "\<forall>a. sType (m' a) = sType (m1 a) \<and> pNext (m' a) = pNext (m1 a)"
    and pay': "\<forall>a i. payload (m' a) i =
              (if a = out \<and> i \<in> set indices
               then (if payload (m1 a) i = VK_TRUE \<or> payload (m1 q) i = VK_TRUE
                     then VK_TRUE else VK_FALSE)
               else payload (m1 a) i)"
    by blast
  have p1: "\<And>a i. payload (m1 a) i = (if a = out \<and> i = index then v else payload (m a) i)"
    by (simp add: m1_def set_member_payload)
  from step run have "ApplyFeatures_members fc q (index # indices) m = Some (Inr m')"
    by simp
  moreover from hdr hdr' have "\<forall>a. sType (m' a) = sType (m a) \<and> pNext (m' a) = pNext (m a)"
    by simp
  moreover have "\<forall>a i. payload (m' a) i =
              (if a = out \<and> i \<in> set (index # indices)
               then (if payload (m a) i = VK_TRUE \<or> payload (m q) i = VK_TRUE
                     then VK_TRUE else VK_FALSE)
               else payload (m a) i)"
    using pay' p1 q fresh by (auto simp: v_def)
  ultimately show ?case by blast
qed

lemma structureSize_insert_simps [simp]:
  "requiredFeaturesChain (structureSize_insert fc t) = requiredFeaturesChain fc"
  "physicalDeviceFeatures2KHR (structureSize_insert fc t) = physicalDeviceFeatures2KHR fc"
  "structureSize_at (structureSize_insert fc t) u = structureSize_at fc u"
  by (auto simp: structureSize_insert_def structureSize_at_def split: option.splits)

lemma structureSize_insert_table:
  "structureSize (structureSize_insert fc t) u =
     (if u = t \<and> structureSize fc t = None then Some 0 else structureSize fc u)"
  by (auto simp: structureSize_insert_def structureSize_at_def split: option.splits)

lemma find_in_tags:
  "t \<in> set (tags m as) \<Longrightarrow> \<exists>a. find (\<lambda>x. sType (m x) = t) as = Some a"
  by (induction as) (auto simp: tags_def)

lemma find_unique_tag:
  "distinct (tags m as) \<Longrightarrow> find (\<lambda>x. sType (m x) = t) as = Some out \<Longrightarrow>
   (a \<in> set as \<and> sType (m a) = t) = (a = out)"
proof (induction as)
  case Nil
  then show ?case by simp
next
  case (Cons x as)
  show ?case
  proof (cases "sType (m x) = t")
    case True
    with Cons.prems have x: "x = out" and none: "t \<notin> (\<lambda>a. sType (m a)) ` set as"
      by (auto simp: tags_def)
    from none have "a \<in> set as \<Longrightarrow> sType (m a) \<noteq> t" by blast
    with x True show ?thesis by auto
  next
    case False
    with Cons show ?thesis by (auto simp: tags_def)
  qed
qed

lemma ApplyFeatures_members_struct:
  assumes req: "chain m (Some (requiredFeaturesChain fc)) rs"
    and once: "distinct (tags m rs)"
    and q: "q \<notin> set rs"
    and present: "0 < n \<longrightarrow> sType (m q) \<in> set (tags m rs)"
  shows "\<exists>m'. ApplyFeatures_members fc q [0 ..< n] m = Some (Inr m') \<and>
           (\<forall>a. sType (m' a) = sType (m a) \<and> pNext (m' a) = pNext (m a)) \<and>
           (\<forall>a i. payload (m' a) i =
              (if a \<in> set rs \<and> sType (m a) = sType (m q) \<and> i < n
               then (if payload (m a) i = VK_TRUE \<or> payload (m q) i = VK_TRUE
                     then VK_TRUE else VK_FALSE)
               else payload (m a) i))"
proof (cases "n = 0")
  case True
  then show ?thesis by simp
next
  case False
  with present have "sType (m q) \<in> set (tags m rs)" by simp
  then obtain out where f: "find (\<lambda>x. sType (m x) = sType (m q)) rs = Some out"
    by (auto dest: find_in_tags)
  from find_unique_tag [OF once f]
  have uniq: "\<And>a. (a \<in> set rs \<and> sType (m a) = sType (m q)) = (a = out)" .
  from uniq [of out] q have neq: "q \<noteq> out" by auto
  from ApplyFeatures_members_merge [OF req f neq, of "[0 ..< n]"]
  obtain m' where run: "ApplyFeatures_members fc q [0 ..< n] m = Some (Inr m')"
    and hdr: "\<forall>a. sType (m' a) = sType (m a) \<and> pNext (m' a) = pNext (m a)"
    and pay: "\<forall>a i. payload (m' a) i =
              (if a = out \<and> i \<in> set [0 ..< n]
               then (if payload (m a) i = VK_TRUE \<or> payload (m q) i = VK_TRUE
                     then VK_TRUE else VK_FALSE)
               else payload (m a) i)"
    by auto
  from pay uniq have "\<forall>a i. payload (m' a) i =
              (if a \<in> set rs \<and> sType (m a) = sType (m q) \<and> i < n
               then (if payload (m a) i = VK_TRUE \<or> payload (m q) i = VK_TRUE
                     then VK_TRUE else VK_FALSE)
               else payload (m a) i)"
    by auto
  with run hdr show ?thesis by blast
qed

lemma ApplyFeatures_loop_merges:
  assumes req: "chain m (Some (requiredFeaturesChain fc)) rs"
    and once: "distinct (tags m rs)"
    and inp: "chain m q0 qs"
    and disj: "set rs \<inter> set qs = {}"
    and present: "\<forall>q\<in>set qs. 0 < structureSize_at fc (sType (m q)) \<longrightarrow>
                    sType (m q) \<in> set (tags m rs)"
  shows "\<exists>fc' m'. ApplyFeatures_loop fc m q0 = Some (Inr (fc', m')) \<and>
           (\<forall>a. sType (m' a) = sType (m a) \<and> pNext (m' a) = pNext (m a)) \<and>
           (\<forall>a i. payload (m' a) i = merged_payload fc m rs qs a i) \<and>
           requiredFeaturesChain fc' = requiredFeaturesChain fc \<and>
           physicalDeviceFeatures2KHR fc' = physicalDeviceFeatures2KHR fc \<and>
           (\<forall>t. structureSize fc' t =
              (if t \<in> set (tags m qs) \<and> structureSize fc t = None then Some 0
               else structureSize fc t))"
  using req once inp disj present
proof (induction qs arbitrary: fc m q0)
  case Nil
  then show ?case
    by (subst ApplyFeatures_loop.simps)
       (simp add: merged_payload_def merge_target_def tags_def)
next
  case (Cons q qs)
  define t where "t = sType (m q)"
  define n where "n = structureSize_at fc t"
  define fc1 where "fc1 = structureSize_insert fc t"
  from Cons.prems have q0: "q0 = Some q" and rest: "chain m (pNext (m q)) qs"
    and q_out: "q \<notin> set rs" and disj': "set rs \<inter> set qs = {}"
    and here: "0 < n \<longrightarrow> sType (m q) \<in> set (tags m rs)"
    by (auto simp: n_def t_def)
  from Cons.prems(1) have req1: "chain m (Some (requiredFeaturesChain fc1)) rs"
    by (simp add: fc1_def)
  from ApplyFeatures_members_struct [OF req1 Cons.prems(2) q_out here]
  obtain m1 where run1: "ApplyFeatures_members fc1 q [0 ..< n] m = Some (Inr m1)"
    and hdr1: "\<forall>a. sType (m1 a) = sType (m a) \<and> pNext (m1 a) = pNext (m a)"
    and pay1: "\<forall>a i. payload (m1 a) i =
              (if a \<in> set rs \<and> sType (m a) = sType (m q) \<and> i < n
               then (if payload (m a) i = VK_TRUE \<or> payload (m q) i = VK_TRUE
                     then VK_TRUE else VK_FALSE)
               else payload (m a) i)"
    by blast
  from hdr1 have tg: "\<And>as. tags m1 as = tags m as" by (simp add: tags_def)
  from hdr1 have links1: "\<And>x. pNext (m1 x) = pNext (m x)" by simp
  from links1 req1 have r1: "chain m1 (Some (requiredFeaturesChain fc1)) rs"
    by (rule chain_same_links)
  from Cons.prems(2) have o1: "distinct (tags m1 rs)" by (simp add: tg)
  from links1 rest have "chain m1 (pNext (m q)) qs"
    by (rule chain_same_links)
  with links1 have i1: "chain m1 (pNext (m1 q)) qs" by simp
  from Cons.prems(5) hdr1 have p1: "\<forall>q\<in>set qs. 0 < structureSize_at fc1 (sType (m1 q)) \<longrightarrow>
                    sType (m1 q) \<in> set (tags m1 rs)"
    by (simp add: tg fc1_def)
  from Cons.IH [OF r1 o1 i1 disj' p1]
  obtain fc' m' where run: "ApplyFeatures_loop fc1 m1 (pNext (m1 q)) = Some (Inr (fc', m'))"
    and hdr: "\<forall>a. sType (m' a) = sType (m1 a) \<and> pNext (m' a) = pNext (m1 a)"
    and pay: "\<forall>a i. payload (m' a) i = merged_payload fc1 m1 rs qs a i"
    and r': "requiredFeaturesChain fc' = requiredFeaturesChain fc1"
    and a': "physicalDeviceFeatures2KHR fc' = physicalDeviceFeatures2KHR fc1"
    and tab: "\<forall>u. structureSize fc' u =
              (if u \<in> set (tags m1 qs) \<and> structureSize fc1 u = None then Some 0
               else structureSize fc1 u)"
    by blast
  from q0 run1 run have res: "ApplyFeatures_loop fc m q0 = Some (Inr (fc', m'))"
    by (subst ApplyFeatures_loop.simps) (simp add: fc1_def n_def t_def)
  from hdr hdr1 have hdr2: "\<forall>a. sType (m' a) = sType (m a) \<and> pNext (m' a) = pNext (m a)"
    by simp
  from disj' pay1 have inp_same: "\<And>x i. x \<in> set qs \<Longrightarrow> payload (m1 x) i = payload (m x) i"
    by auto
  have rt: "\<And>u i. requested_true m1 qs u i = requested_true m qs u i"
    using hdr1 inp_same by (auto simp: requested_true_def)
  have rt_cons: "\<And>u i. requested_true m (q # qs) u i =
      ((sType (m q) = u \<and> payload (m q) i = VK_TRUE) \<or> requested_true m qs u i)"
    by (auto simp: requested_true_def)
  have tgt: "\<And>a i. merge_target fc1 m1 rs qs a i =
      (a \<in> set rs \<and> sType (m a) \<in> set (tags m qs) \<and> i < structureSize_at fc (sType (m a)))"
    using hdr1 by (simp add: merge_target_def tg fc1_def)
  have tgt_cons: "\<And>a i. merge_target fc m rs (q # qs) a i =
      (a \<in> set rs \<and> (sType (m a) = sType (m q) \<or> sType (m a) \<in> set (tags m qs)) \<and>
       i < structureSize_at fc (sType (m a)))"
    by (auto simp: merge_target_def tags_def)
  have rt_tag: "\<And>u i. requested_true m qs u i \<Longrightarrow> u \<in> set (tags m qs)"
    by (auto simp: requested_true_def tags_def)
  have pay2: "\<forall>a i. payload (m' a) i = merged_payload fc m rs (q # qs) a i"
  proof (intro allI)
    fix a i
    define H where "H = (a \<in> set rs \<and> sType (m a) = sType (m q) \<and> i < n)"
    define T1 where "T1 = (a \<in> set rs \<and> sType (m a) \<in> set (tags m qs) \<and>
      i < structureSize_at fc (sType (m a)))"
    define RT where "RT = requested_true m qs (sType (m a)) i"
    define A where "A = (payload (m a) i = VK_TRUE)"
    define Q where "Q = (payload (m q) i = VK_TRUE)"
    from pay1 have v1: "payload (m1 a) i =
        (if H then (if A \<or> Q then VK_TRUE else VK_FALSE) else payload (m a) i)"
      by (simp add: H_def A_def Q_def)
    from pay hdr1 have v': "payload (m' a) i =
        (if T1 then (if payload (m1 a) i = VK_TRUE \<or> RT then VK_TRUE else VK_FALSE)
         else payload (m1 a) i)"
      by (simp add: merged_payload_def tgt rt T1_def RT_def)
    have goal: "merged_payload fc m rs (q # qs) a i =
        (if H \<or> T1
         then (if A \<or> (sType (m q) = sType (m a) \<and> Q) \<or> RT then VK_TRUE else VK_FALSE)
         else payload (m a) i)"
      unfolding merged_payload_def tgt_cons rt_cons H_def T1_def RT_def A_def Q_def n_def t_def
      by (rule if_cong) auto
    have no_rt: "\<not> T1 \<Longrightarrow> H \<Longrightarrow> \<not> RT"
      using rt_tag [of "sType (m a)" i] by (auto simp: T1_def H_def RT_def n_def t_def)
    have same_tag: "H \<Longrightarrow> sType (m q) = sType (m a)" by (simp add: H_def)
    have other_tag: "\<not> H \<Longrightarrow> T1 \<Longrightarrow> sType (m q) \<noteq> sType (m a)"
      by (auto simp: H_def T1_def n_def t_def)
    show "payload (m' a) i = merged_payload fc m rs (q # qs) a i"
    proof (cases H)
      case True
      show ?thesis
      proof (cases T1)
        case True
        with \<open>H\<close> same_tag show ?thesis unfolding goal v' v1 by (simp add: A_def)
      next
        case False
        with \<open>H\<close> same_tag no_rt show ?thesis unfolding goal v' v1 by simp
      qed
    next
      case False
      show ?thesis
      proof (cases T1)
        case True
        with \<open>\<not> H\<close> other_tag show ?thesis unfolding goal v' v1 by (simp add: A_def)
      next
        case False
        with \<open>\<not> H\<close> show ?thesis unfolding goal v' v1 by simp
      qed
    qed
  qed
  have tags_cons: "set (tags m (q # qs)) = insert (sType (m q)) (set (tags m qs))"
    by (simp add: tags_def)
  have tab2: "\<forall>u. structureSize fc' u =
              (if u \<in> set (tags m (q # qs)) \<and> structureSize fc u = None then Some 0
               else structureSize fc u)"
  proof
    fix u
    from tab have "structureSize fc' u =
              (if u \<in> set (tags m qs) \<and> structureSize fc1 u = None then Some 0
               else structureSize fc1 u)"
      by (simp only: tg)
    then show "structureSize fc' u =
              (if u \<in> set (tags m (q # qs)) \<and> structureSize fc u = None then Some 0
               else structureSize fc u)"
      unfolding tags_cons fc1_def t_def structureSize_insert_table
      by (cases "u = sType (m q)") auto
  qed
  from res hdr2 pay2 r' a' tab2 show ?case by (simp add: fc1_def)
qed

section \<open>The robustness opt-outs\<close>

lemma first_of_type_same_types:
  "(\<And>x. sType (m' x) = sType (m x)) \<Longrightarrow> first_of_type m' rs t = first_of_type m rs t"
  by (simp add: first_of_type_def)

lemma vpGetStructure_first_of_type:
  "chain m p rs \<Longrightarrow> vpGetStructure m p t = Some (first_of_type m rs t)"
  by (simp add: first_of_type_def vpGetStructure_chain)

lemma conditional_write:
  assumes "m' = (case p of Some a \<Rightarrow> if c then set_member m a i VK_FALSE else m | None \<Rightarrow> m)"
  shows "(\<forall>x. sType (m' x) = sType (m x) \<and> pNext (m' x) = pNext (m x)) \<and>
         (\<forall>b j. payload (m' b) j =
            (if c \<and> p = Some b \<and> j = i then VK_FALSE else payload (m b) j))"
  using assms by (cases p) (auto simp: set_member_payload)

lemma ApplyRobustness_overrides:
  assumes req: "chain m (Some (requiredFeaturesChain fc)) rs"
  shows "\<exists>m'. ApplyRobustness fc m info = Some m' \<and>
           (\<forall>a. sType (m' a) = sType (m a) \<and> pNext (m' a) = pNext (m a)) \<and>
           (\<forall>a i. payload (m' a) i =
              (if robustness_override info m rs a i then VK_FALSE else payload (m a) i))"
proof -
  let ?R = "Some (requiredFeaturesChain fc)"
  let ?B = "VP_DEVICE_CREATE_DISABLE_ROBUST_BUFFER_ACCESS_BIT \<in> flags info"
  let ?I = "VP_DEVICE_CREATE_DISABLE_ROBUST_IMAGE_ACCESS_BIT \<in> flags info"
  define p1 where "p1 = first_of_type m rs VK_STRUCTURE_TYPE_PHYSICAL_DEVICE_FEATURES_2_KHR"
  define p2 where "p2 = first_of_type m rs VK_STRUCTURE_TYPE_PHYSICAL_DEVICE_ROBUSTNESS_2_FEATURES_EXT"
  define p3 where "p3 = first_of_type m rs VK_STRUCTURE_TYPE_PHYSICAL_DEVICE_IMAGE_ROBUSTNESS_FEATURES_EXT"
  define p4 where "p4 = first_of_type m rs VK_STRUCTURE_TYPE_PHYSICAL_DEVICE_VULKAN_1_3_FEATURES"
  define m1 where "m1 = (case p1 of Some a \<Rightarrow> if ?B then set_member m a robustBufferAccess VK_FALSE else m
                          | None \<Rightarrow> m)"
  define m2a where "m2a = (case p2 of Some a \<Rightarrow> if ?B then set_member m1 a robustBufferAccess2 VK_FALSE else m1
                          | None \<Rightarrow> m1)"
  define m2 where "m2 = (case p2 of Some a \<Rightarrow> if ?I then set_member m2a a robustImageAccess2 VK_FALSE else m2a
                          | None \<Rightarrow> m2a)"
  define m3 where "m3 = (case p3 of Some a \<Rightarrow> if ?I then set_member m2 a robustImageAccess VK_FALSE else m2
                          | None \<Rightarrow> m2)"
  define m4 where "m4 = (case p4 of Some a \<Rightarrow> if ?I then set_member m3 a robustImageAccess_13 VK_FALSE else m3
                          | None \<Rightarrow> m3)"
  note w1 = conditional_write [OF m1_def]
  note w2a = conditional_write [OF m2a_def]
  note w2 = conditional_write [OF m2_def]
  note w3 = conditional_write [OF m3_def]
  note w4 = conditional_write [OF m4_def]
  from w1 have h1: "\<And>x. sType (m1 x) = sType (m x)" "\<And>x. pNext (m1 x) = pNext (m x)" by simp_all
  from w2a w2 h1 have h2: "\<And>x. sType (m2 x) = sType (m x)" "\<And>x. pNext (m2 x) = pNext (m x)"
    by simp_all
  from w3 h2 have h3: "\<And>x. sType (m3 x) = sType (m x)" "\<And>x. pNext (m3 x) = pNext (m x)"
    by simp_all
  from w4 h3 have h4: "\<And>x. sType (m4 x) = sType (m x)" "\<And>x. pNext (m4 x) = pNext (m x)"
    by simp_all
  from h1(2) req have c1: "chain m1 ?R rs" by (rule chain_same_links)
  from h2(2) req have c2: "chain m2 ?R rs" by (rule chain_same_links)
  from h3(2) req have c3: "chain m3 ?R rs" by (rule chain_same_links)
  have g1: "vpGetStructure m ?R VK_STRUCTURE_TYPE_PHYSICAL_DEVICE_FEATURES_2_KHR = Some p1"
    unfolding p1_def using req by (rule vpGetStructure_first_of_type)
  have g2: "vpGetStructure m1 ?R VK_STRUCTURE_TYPE_PHYSICAL_DEVICE_ROBUSTNESS_2_FEATURES_EXT = Some p2"
    using vpGetStructure_first_of_type [OF c1] first_of_type_same_types [of m1 m, OF h1(1)]
    by (simp add: p2_def)
  have g3: "vpGetStructure m2 ?R VK_STRUCTURE_TYPE_PHYSICAL_DEVICE_IMAGE_ROBUSTNESS_FEATURES_EXT = Some p3"
    using vpGetStructure_first_of_type [OF c2] first_of_type_same_types [of m2 m, OF h2(1)]
    by (simp add: p3_def)
  have g4: "vpGetStructure m3 ?R VK_STRUCTURE_TYPE_PHYSICAL_DEVICE_VULKAN_1_3_FEATURES = Some p4"
    using vpGetStructure_first_of_type [OF c3] first_of_type_same_types [of m3 m, OF h3(1)]
    by (simp add: p4_def)
  have m2_eq: "m2 = (case p2 of
                 Some a \<Rightarrow>
                   let m' = (if ?B then set_member m1 a robustBufferAccess2 VK_FALSE else m1)
                   in if ?I then set_member m' a robustImageAccess2 VK_FALSE else m'
               | None \<Rightarrow> m1)"
    by (cases p2) (simp_all add: m2_def m2a_def)
  have run: "ApplyRobustness fc m info = Some m4"
    unfolding ApplyRobustness_def g1 option.case Let_def m1_def [symmetric]
      g2 m2_eq [unfolded Let_def, symmetric] g3 m3_def [symmetric] g4 m4_def [symmetric]
    by (rule refl)
  have pay: "\<forall>a i. payload (m4 a) i =
              (if robustness_override info m rs a i then VK_FALSE else payload (m a) i)"
  proof (intro allI)
    fix a i
    from w1 have v1: "payload (m1 a) i =
        (if ?B \<and> p1 = Some a \<and> i = robustBufferAccess then VK_FALSE else payload (m a) i)"
      by simp
    from w2a have v2a: "payload (m2a a) i =
        (if ?B \<and> p2 = Some a \<and> i = robustBufferAccess2 then VK_FALSE else payload (m1 a) i)"
      by simp
    from w2 have v2: "payload (m2 a) i =
        (if ?I \<and> p2 = Some a \<and> i = robustImageAccess2 then VK_FALSE else payload (m2a a) i)"
      by simp
    from w3 have v3: "payload (m3 a) i =
        (if ?I \<and> p3 = Some a \<and> i = robustImageAccess then VK_FALSE else payload (m2 a) i)"
      by simp
    from w4 have v4: "payload (m4 a) i =
        (if ?I \<and> p4 = Some a \<and> i = robustImageAccess_13 then VK_FALSE else payload (m3 a) i)"
      by simp
    show "payload (m4 a) i =
              (if robustness_override info m rs a i then VK_FALSE else payload (m a) i)"
      unfolding v4 v3 v2 v2a v1 robustness_override_def
        p1_def [symmetric] p2_def [symmetric] p3_def [symmetric] p4_def [symmetric]
      by auto
  qed
  from run h4 pay show ?thesis by blast
qed

section \<open>The merge followed by the opt-outs\<close>

lemma robustness_override_same_types:
  "(\<And>x. sType (m' x) = sType (m x)) \<Longrightarrow>
   robustness_override info m' rs a i = robustness_override info m rs a i"
  by (simp add: robustness_override_def first_of_type_def)

lemma first_of_type_in_set:
  "first_of_type m rs t = Some a \<Longrightarrow> a \<in> set rs"
  by (auto simp: first_of_type_def dest: find_Some_split)

lemma robustness_override_in_chain:
  "robustness_override info m rs a i \<Longrightarrow> a \<in> set rs"
  by (auto simp: robustness_override_def dest: first_of_type_in_set)

lemma ApplyFeatures_result:
  assumes req: "chain m (Some (requiredFeaturesChain fc)) rs"
    and once: "distinct (tags m rs)"
    and inp: "chain m (dci_pNext (pCreateInfo info)) qs"
    and disj: "set rs \<inter> set qs = {}"
    and present: "\<forall>q\<in>set qs. 0 < structureSize_at fc (sType (m q)) \<longrightarrow>
                    sType (m q) \<in> set (tags m rs)"
  shows "\<exists>fc' m'. ApplyFeatures fc m info = Some (Inr (fc', m')) \<and>
           (\<forall>a. sType (m' a) = sType (m a) \<and> pNext (m' a) = pNext (m a)) \<and>
           (\<forall>a i. payload (m' a) i =
              (if robustness_override info m rs a i then VK_FALSE
               else merged_payload fc m rs qs a i)) \<and>
           requiredFeaturesChain fc' = requiredFeaturesChain fc \<and>
           physicalDeviceFeatures2KHR fc' = physicalDeviceFeatures2KHR fc \<and>
           (\<forall>t. structureSize fc' t =
              (if t \<in> set (tags m qs) \<and> structureSize fc t = None then Some 0
               else structureSize fc t))"
proof -
  from ApplyFeatures_loop_merges [OF req once inp disj present]
  obtain fc' m1 where loop: "ApplyFeatures_loop fc m (dci_pNext (pCreateInfo info)) = Some (Inr (fc', m1))"
    and hdr1: "\<forall>a. sType (m1 a) = sType (m a) \<and> pNext (m1 a) = pNext (m a)"
    and pay1: "\<forall>a i. payload (m1 a) i = merged_payload fc m rs qs a i"
    and r': "requiredFeaturesChain fc' = requiredFeaturesChain fc"
    and a': "physicalDeviceFeatures2KHR fc' = physicalDeviceFeatures2KHR fc"
    and tab: "\<forall>t. structureSize fc' t =
              (if t \<in> set (tags m qs) \<and> structureSize fc t = None then Some 0
               else structureSize fc t)"
    by blast
  from hdr1 have links: "\<And>x. pNext (m1 x) = pNext (m x)" and types: "\<And>x. sType (m1 x) = sType (m x)"
    by simp_all
  from links req have "chain m1 (Some (requiredFeaturesChain fc)) rs" by (rule chain_same_links)
  with r' have req1: "chain m1 (Some (requiredFeaturesChain fc')) rs" by simp
  from ApplyRobustness_overrides [OF req1, of info]
  obtain m' where rob: "ApplyRobustness fc' m1 info = Some m'"
    and hdr': "\<forall>a. sType (m' a) = sType (m1 a) \<and> pNext (m' a) = pNext (m1 a)"
    and pay': "\<forall>a i. payload (m' a) i =
              (if robustness_override info m1 rs a i then VK_FALSE else payload (m1 a) i)"
    by blast
  from loop rob have run: "ApplyFeatures fc m info = Some (Inr (fc', m'))"
    by (simp add: ApplyFeatures_def)
  from hdr1 hdr' have hdr: "\<forall>a. sType (m' a) = sType (m a) \<and> pNext (m' a) = pNext (m a)"
    by simp
  from pay' pay1 have pay: "\<forall>a i. payload (m' a) i =
              (if robustness_override info m rs a i then VK_FALSE
               else merged_payload fc m rs qs a i)"
    by (simp add: robustness_override_same_types [of m1 m, OF types])
  from run hdr pay r' a' tab show ?thesis by blast
qed

lemma requested_true_tag:
  "requested_true m qs t i \<Longrightarrow> t \<in> set (tags m qs)"
  by (auto simp: requested_true_def tags_def)

lemma memory_eqI:
  assumes "\<And>a. sType (m' a) = sType (m a)" "\<And>a. pNext (m' a) = pNext (m a)"
    and "\<And>a i. payload (m' a) i = payload (m a) i"
  shows "m' = (m :: memory)"
proof
  fix a
  have "payload (m' a) = payload (m a)" using assms(3) by (intro ext)
  with assms(1,2) show "m' a = m a" by (intro VkBaseOutStructure.equality) simp_all
qed

lemma ApplyFeatures_registered:
  assumes req: "chain m (Some (requiredFeaturesChain fc)) rs"
    and once: "distinct (tags m rs)"
    and inp: "chain m (dci_pNext (pCreateInfo info)) qs"
    and disj: "set rs \<inter> set qs = {}"
    and registered: "\<forall>q\<in>set qs. structureSize fc (sType (m q)) \<noteq> None"
    and present: "\<forall>q\<in>set qs. 0 < structureSize_at fc (sType (m q)) \<longrightarrow>
                    sType (m q) \<in> set (tags m rs)"
  shows "\<exists>m'. ApplyFeatures fc m info = Some (Inr (fc, m')) \<and>
           (\<forall>a. sType (m' a) = sType (m a) \<and> pNext (m' a) = pNext (m a)) \<and>
           (\<forall>a i. payload (m' a) i =
              (if robustness_override info m rs a i then VK_FALSE
               else merged_payload fc m rs qs a i))"
proof -
  from ApplyFeatures_result [OF req once inp disj present]
  obtain fc' m' where run: "ApplyFeatures fc m info = Some (Inr (fc', m'))"
    and hdr: "\<forall>a. sType (m' a) = sType (m a) \<and> pNext (m' a) = pNext (m a)"
    and pay: "\<forall>a i. payload (m' a) i =
              (if robustness_override info m rs a i then VK_FALSE
               else merged_payload fc m rs qs a i)"
    and r': "requiredFeaturesChain fc' = requiredFeaturesChain fc"
    and a': "physicalDeviceFeatures2KHR fc' = physicalDeviceFeatures2KHR fc"
    and tab: "\<forall>t. structureSize fc' t =
              (if t \<in> set (tags m qs) \<and> structureSize fc t = None then Some 0
               else structureSize fc t)"
    by blast
  have "structureSize fc' t = structureSize fc t" for t
    using tab registered by (auto simp: tags_def)
  then have "structureSize fc' = structureSize fc" by (intro ext)
  with r' a' have "fc' = fc" by (intro FeaturesChain.equality) simp_all
  with run hdr pay show ?thesis by blast
qed

lemma merged_payload_again:
  assumes hdr: "\<And>a. sType (m' a) = sType (m a)"
    and disj: "set rs \<inter> set qs = {}"
    and pay: "\<And>a i. payload (m' a) i =
              (if robustness_override info m rs a i then VK_FALSE
               else merged_payload fc m rs qs a i)"
  shows "(if robustness_override info m' rs a i then VK_FALSE
          else merged_payload fc m' rs qs a i) = payload (m' a) i"
proof -
  have inp_same: "payload (m' x) j = payload (m x) j" if "x \<in> set qs" for x j
  proof -
    from that disj have "x \<notin> set rs" by auto
    then have "\<not> robustness_override info m rs x j" "\<not> merge_target fc m rs qs x j"
      by (auto dest: robustness_override_in_chain simp: merge_target_def)
    with pay [of x j] show ?thesis by (simp add: merged_payload_def)
  qed
  have rt: "requested_true m' qs t j = requested_true m qs t j" for t j
    using hdr inp_same by (auto simp: requested_true_def)
  have tg: "tags m' qs = tags m qs" using hdr by (simp add: tags_def)
  have tgt: "merge_target fc m' rs qs a i = merge_target fc m rs qs a i"
    using hdr by (simp add: merge_target_def tg)
  have ro: "robustness_override info m' rs a i = robustness_override info m rs a i"
    using hdr by (rule robustness_override_same_types)
  show ?thesis
  proof (cases "robustness_override info m rs a i")
    case True
    with pay [of a i] ro show ?thesis by simp
  next
    case no: False
    show ?thesis
    proof (cases "merge_target fc m rs qs a i")
      case True
      with no pay [of a i] ro tgt rt [of "sType (m a)" i] hdr [of a] show ?thesis
        by (auto simp: merged_payload_def)
    next
      case False
      with no pay [of a i] ro tgt show ?thesis by (simp add: merged_payload_def)
    qed
  qed
qed

lemma merged_payload_set:
  assumes types: "\<And>a. sType (m2 a) = sType (m a)"
    and pays: "\<And>a. payload (m2 a) = payload (m a)"
    and same: "set qs2 = set qs"
  shows "merged_payload fc m2 rs qs2 a i = merged_payload fc m rs qs a i"
proof -
  from types same have "set (tags m2 qs2) = set (tags m qs)" by (simp add: tags_def)
  moreover from types pays same
  have "requested_true m2 qs2 t j = requested_true m qs t j" for t j
    by (simp add: requested_true_def)
  ultimately show ?thesis
    using types pays by (simp add: merged_payload_def merge_target_def)
qed


lemma example_request_facts:
  "chain example_request (Some (requiredFeaturesChain example_fc)) [10, 2]"
  "distinct (tags example_request [10, 2])"
  "chain example_request (dci_pNext (pCreateInfo example_info)) [20, 21]"
  "chain example_request (dci_pNext (pCreateInfo example_info_unregistered)) [30, 31]"
  by (simp_all add: example_request_def example_fc_def example_info_def
        example_info_unregistered_def tags_def)

lemma example_request_registered:
  "\<forall>q\<in>set [20, 21]. structureSize example_fc (sType (example_request q)) \<noteq> None"
  by (simp add: example_request_def example_fc_def)

lemma example_request_present:
  "\<forall>q\<in>set [20, 21]. 0 < structureSize_at example_fc (sType (example_request q)) \<longrightarrow>
     sType (example_request q) \<in> set (tags example_request [10, 2])"
  by (simp add: example_request_def example_fc_def tags_def)

lemma example_request_present_unregistered:
  "\<forall>q\<in>set [30, 31]. 0 < structureSize_at example_fc (sType (example_request q)) \<longrightarrow>
     sType (example_request q) \<in> set (tags example_request [10, 2])"
  by (simp add: example_request_def example_fc_def tags_def structureSize_at_def)

text \<open>
  Claim C3, as the code has it.  Let the chain of required features be well formed with
  every type at most once, the requested chain be well formed and share no link with
  it, every requested type have a registered size, and the chain of required features
  hold a structure of every requested type whose size is not zero.  Then
  \<open>ApplyFeatures\<close> terminates, leaves the size table, every type and every link
  unchanged, and gives member \<open>i\<close> of structure \<open>a\<close> the value
  \<^item> \<^verbatim>\<open>VK_FALSE\<close> if \<open>ApplyRobustness\<close> overrides it (the creation flags opt out and the
    member is one of the five robustness members);
  \<^item> otherwise, if \<open>a\<close> is in the chain of required features, its type is requested
    and \<open>i\<close> is below the registered size: \<^verbatim>\<open>VK_TRUE\<close> exactly when the member or
    the same member of a requested structure of that type was \<^verbatim>\<open>VK_TRUE\<close>, and
    \<^verbatim>\<open>VK_FALSE\<close> if not;
  \<^item> otherwise the value it had.
  A second \<open>ApplyFeatures\<close> with the same request changes nothing, and a request that
  links the same structures in another order gives the same members.
\<close>

theorem ApplyFeatures_merges_requested:
  assumes req: "chain m (Some (requiredFeaturesChain fc)) rs"
    and once: "distinct (tags m rs)"
    and inp: "chain m (dci_pNext (pCreateInfo info)) qs"
    and disj: "set rs \<inter> set qs = {}"
    and registered: "\<forall>q\<in>set qs. structureSize fc (sType (m q)) \<noteq> None"
    and present: "\<forall>q\<in>set qs. 0 < structureSize_at fc (sType (m q)) \<longrightarrow>
                    sType (m q) \<in> set (tags m rs)"
  shows "\<exists>m'. ApplyFeatures fc m info = Some (Inr (fc, m')) \<and>
           (\<forall>a. sType (m' a) = sType (m a) \<and> pNext (m' a) = pNext (m a)) \<and>
           (\<forall>a i. payload (m' a) i =
              (if robustness_override info m rs a i then VK_FALSE
               else merged_payload fc m rs qs a i)) \<and>
           ApplyFeatures fc m' info = Some (Inr (fc, m')) \<and>
           (\<forall>m2 info2 qs2.
              (\<forall>a. sType (m2 a) = sType (m a) \<and> payload (m2 a) = payload (m a)) \<and>
              chain m2 (Some (requiredFeaturesChain fc)) rs \<and>
              chain m2 (dci_pNext (pCreateInfo info2)) qs2 \<and>
              set qs2 = set qs \<and> flags info2 = flags info \<longrightarrow>
              (\<exists>m2'. ApplyFeatures fc m2 info2 = Some (Inr (fc, m2')) \<and>
                     (\<forall>a. payload (m2' a) = payload (m' a))))"
proof -
  from ApplyFeatures_registered [OF req once inp disj registered present]
  obtain m' where run: "ApplyFeatures fc m info = Some (Inr (fc, m'))"
    and hdr: "\<forall>a. sType (m' a) = sType (m a) \<and> pNext (m' a) = pNext (m a)"
    and pay: "\<forall>a i. payload (m' a) i =
              (if robustness_override info m rs a i then VK_FALSE
               else merged_payload fc m rs qs a i)"
    by blast
  from hdr have types: "\<And>a. sType (m' a) = sType (m a)" and links: "\<And>a. pNext (m' a) = pNext (m a)"
    by simp_all
  have again: "ApplyFeatures fc m' info = Some (Inr (fc, m'))"
  proof -
    from types have tg: "\<And>as. tags m' as = tags m as" by (simp add: tags_def)
    from links req have req': "chain m' (Some (requiredFeaturesChain fc)) rs"
      by (rule chain_same_links)
    from links inp have inp': "chain m' (dci_pNext (pCreateInfo info)) qs"
      by (rule chain_same_links)
    from once have once': "distinct (tags m' rs)" by (simp add: tg)
    from registered have registered': "\<forall>q\<in>set qs. structureSize fc (sType (m' q)) \<noteq> None"
      by (simp add: types)
    from present have present': "\<forall>q\<in>set qs. 0 < structureSize_at fc (sType (m' q)) \<longrightarrow>
                    sType (m' q) \<in> set (tags m' rs)"
      by (simp add: types tg)
    from ApplyFeatures_registered [OF req' once' inp' disj registered' present']
    obtain m'' where run': "ApplyFeatures fc m' info = Some (Inr (fc, m''))"
      and hdr': "\<forall>a. sType (m'' a) = sType (m' a) \<and> pNext (m'' a) = pNext (m' a)"
      and pay': "\<forall>a i. payload (m'' a) i =
              (if robustness_override info m' rs a i then VK_FALSE
               else merged_payload fc m' rs qs a i)"
      by blast
    have "payload (m'' a) i = payload (m' a) i" for a i
      using pay' merged_payload_again [of m' m rs qs info fc a i, OF types disj] pay
      by simp
    with hdr' have "m'' = m'" by (intro memory_eqI) simp_all
    with run' show ?thesis by simp
  qed
  have order: "\<exists>m2'. ApplyFeatures fc m2 info2 = Some (Inr (fc, m2')) \<and>
                     (\<forall>a. payload (m2' a) = payload (m' a))"
    if same: "\<forall>a. sType (m2 a) = sType (m a) \<and> payload (m2 a) = payload (m a)"
      and req2: "chain m2 (Some (requiredFeaturesChain fc)) rs"
      and inp2: "chain m2 (dci_pNext (pCreateInfo info2)) qs2"
      and qs2: "set qs2 = set qs" and fl: "flags info2 = flags info"
    for m2 info2 qs2
  proof -
    from same have types2: "\<And>a. sType (m2 a) = sType (m a)"
      and pays2: "\<And>a. payload (m2 a) = payload (m a)" by simp_all
    from types2 have tg: "\<And>as. tags m2 as = tags m as" by (simp add: tags_def)
    from once have once2: "distinct (tags m2 rs)" by (simp add: tg)
    from disj qs2 have disj2: "set rs \<inter> set qs2 = {}" by simp
    from registered qs2 have registered2: "\<forall>q\<in>set qs2. structureSize fc (sType (m2 q)) \<noteq> None"
      by (simp add: types2)
    from present qs2 have present2: "\<forall>q\<in>set qs2. 0 < structureSize_at fc (sType (m2 q)) \<longrightarrow>
                    sType (m2 q) \<in> set (tags m2 rs)"
      by (simp add: types2 tg)
    from ApplyFeatures_registered [OF req2 once2 inp2 disj2 registered2 present2]
    obtain m2' where run2: "ApplyFeatures fc m2 info2 = Some (Inr (fc, m2'))"
      and pay2: "\<forall>a i. payload (m2' a) i =
              (if robustness_override info2 m2 rs a i then VK_FALSE
               else merged_payload fc m2 rs qs2 a i)"
      by blast
    have ro: "robustness_override info2 m2 rs a i = robustness_override info m rs a i" for a i
      using fl types2 by (simp add: robustness_override_def first_of_type_def)
    have "payload (m2' a) i = payload (m' a) i" for a i
      using pay2 pay ro merged_payload_set [of m2 m qs2 qs fc rs a i, OF types2 pays2 qs2]
      by simp
    then have "\<forall>a. payload (m2' a) = payload (m' a)" by (intro allI ext)
    with run2 show ?thesis by blast
  qed
  from run hdr pay again order show ?thesis by blast
qed

theorem ApplyFeatures_merges_requested_witness:
  "\<exists>m'. ApplyFeatures example_fc example_request example_info = Some (Inr (example_fc, m')) \<and>
         payload (m' 2) 2 = VK_TRUE \<and> payload (m' 10) 5 = VK_TRUE \<and>
         payload (m' 10) 1 = VK_FALSE \<and> payload (m' 10) robustBufferAccess = VK_FALSE \<and>
         ApplyFeatures example_fc m' example_info = Some (Inr (example_fc, m'))"
proof -
  have disj: "set [10, 2] \<inter> set [20, 21] = ({} :: nat set)" by simp
  from ApplyFeatures_merges_requested [OF example_request_facts(1,2,3) disj
      example_request_registered example_request_present]
  obtain m' where run: "ApplyFeatures example_fc example_request example_info = Some (Inr (example_fc, m'))"
    and pay: "\<forall>a i. payload (m' a) i =
              (if robustness_override example_info example_request [10, 2] a i then VK_FALSE
               else merged_payload example_fc example_request [10, 2] [20, 21] a i)"
    and again: "ApplyFeatures example_fc m' example_info = Some (Inr (example_fc, m'))"
    by blast
  have "payload (m' 2) 2 = VK_TRUE" "payload (m' 10) 5 = VK_TRUE"
    "payload (m' 10) 1 = VK_FALSE" "payload (m' 10) robustBufferAccess = VK_FALSE"
    unfolding pay [rule_format]
    by (simp_all add: robustness_override_def first_of_type_def merged_payload_def
          merge_target_def requested_true_def tags_def structureSize_at_def
          example_request_def example_fc_def example_info_def
          robustBufferAccess_def robustBufferAccess2_def robustImageAccess2_def
          robustImageAccess_def robustImageAccess_13_def)
  with run again show ?thesis by blast
qed

text \<open>
  The claim as stated fails where \<open>ApplyRobustness\<close>, which \<open>ApplyFeatures\<close> calls
  last, overrides the merge: the requested base features have \<open>robustBufferAccess\<close>
  set, both types have registered sizes, and with the buffer-access opt-out in the
  creation flags the member is not \<^verbatim>\<open>VK_TRUE\<close> after \<open>ApplyFeatures\<close>.
\<close>

theorem ApplyFeatures_or_counterexample:
  "structureSize example_fc (sType (example_request 20)) \<noteq> None \<and>
   structureSize example_fc (sType (example_request 21)) \<noteq> None \<and>
   sType (example_request 21) = sType (example_request 10) \<and>
   payload (example_request 21) robustBufferAccess = VK_TRUE \<and>
   (\<exists>m'. ApplyFeatures example_fc example_request example_info = Some (Inr (example_fc, m')) \<and>
         payload (m' 10) robustBufferAccess \<noteq> VK_TRUE)"
proof -
  have disj: "set [10, 2] \<inter> set [20, 21] = ({} :: nat set)" by simp
  from ApplyFeatures_registered [OF example_request_facts(1,2,3) disj
      example_request_registered example_request_present]
  obtain m' where run: "ApplyFeatures example_fc example_request example_info = Some (Inr (example_fc, m'))"
    and pay: "\<forall>a i. payload (m' a) i =
              (if robustness_override example_info example_request [10, 2] a i then VK_FALSE
               else merged_payload example_fc example_request [10, 2] [20, 21] a i)"
    by blast
  have "payload (m' 10) robustBufferAccess \<noteq> VK_TRUE"
    unfolding pay [rule_format]
    by (simp add: robustness_override_def first_of_type_def
          example_request_def example_info_def robustBufferAccess_def)
  moreover have "structureSize example_fc (sType (example_request 20)) \<noteq> None"
    "structureSize example_fc (sType (example_request 21)) \<noteq> None"
    "sType (example_request 21) = sType (example_request 10)"
    "payload (example_request 21) robustBufferAccess = VK_TRUE"
    by (simp_all add: example_request_def example_fc_def robustBufferAccess_def)
  ultimately show ?thesis using run by blast
qed

text \<open>
  Claim C4, as the code has it.  A requested structure whose type has no entry in the
  size table is skipped: \<open>ApplyFeatures\<close> terminates without a fault whatever such
  structures the request holds (only types of non-zero size need a structure in the
  chain of required features), the table gets the type with size 0, and every member
  has the value that the request without these structures gives.
\<close>

theorem ApplyFeatures_skips_unregistered:
  assumes req: "chain m (Some (requiredFeaturesChain fc)) rs"
    and once: "distinct (tags m rs)"
    and inp: "chain m (dci_pNext (pCreateInfo info)) qs"
    and disj: "set rs \<inter> set qs = {}"
    and present: "\<forall>q\<in>set qs. 0 < structureSize_at fc (sType (m q)) \<longrightarrow>
                    sType (m q) \<in> set (tags m rs)"
  shows "\<exists>fc' m'. ApplyFeatures fc m info = Some (Inr (fc', m')) \<and>
           (\<forall>t. structureSize fc' t =
              (if t \<in> set (tags m qs) \<and> structureSize fc t = None then Some 0
               else structureSize fc t)) \<and>
           (\<forall>a i. payload (m' a) i =
              (if robustness_override info m rs a i then VK_FALSE
               else merged_payload fc m rs
                      (filter (\<lambda>q. structureSize fc (sType (m q)) \<noteq> None) qs) a i)) \<and>
           (\<forall>a. sType (m' a) = sType (m a) \<and> pNext (m' a) = pNext (m a))"
proof -
  let ?reg = "filter (\<lambda>q. structureSize fc (sType (m q)) \<noteq> None) qs"
  from ApplyFeatures_result [OF req once inp disj present]
  obtain fc' m' where run: "ApplyFeatures fc m info = Some (Inr (fc', m'))"
    and hdr: "\<forall>a. sType (m' a) = sType (m a) \<and> pNext (m' a) = pNext (m a)"
    and pay: "\<forall>a i. payload (m' a) i =
              (if robustness_override info m rs a i then VK_FALSE
               else merged_payload fc m rs qs a i)"
    and tab: "\<forall>t. structureSize fc' t =
              (if t \<in> set (tags m qs) \<and> structureSize fc t = None then Some 0
               else structureSize fc t)"
    by blast
  have "merged_payload fc m rs qs a i = merged_payload fc m rs ?reg a i" for a i
  proof (cases "structureSize fc (sType (m a))")
    case None
    then show ?thesis
      by (simp add: merged_payload_def merge_target_def structureSize_at_def)
  next
    case (Some n)
    then have "(sType (m a) \<in> set (tags m qs)) = (sType (m a) \<in> set (tags m ?reg))"
      by (auto simp: tags_def)
    moreover from Some
    have "requested_true m qs (sType (m a)) i = requested_true m ?reg (sType (m a)) i"
      by (auto simp: requested_true_def)
    ultimately show ?thesis by (simp add: merged_payload_def merge_target_def)
  qed
  with pay have "\<forall>a i. payload (m' a) i =
              (if robustness_override info m rs a i then VK_FALSE
               else merged_payload fc m rs ?reg a i)"
    by simp
  with run tab hdr show ?thesis by blast
qed

theorem ApplyFeatures_skips_unregistered_witness:
  "\<exists>fc' m'. ApplyFeatures example_fc example_request example_info_unregistered =
              Some (Inr (fc', m')) \<and>
            structureSize fc' (VK_STRUCTURE_TYPE_OTHER 7) = Some 0 \<and>
            payload (m' 2) 1 = VK_TRUE \<and> payload (m' 2) 0 = VK_FALSE \<and>
            payload (m' 10) 0 = VK_FALSE"
proof -
  have disj: "set [10, 2] \<inter> set [30, 31] = ({} :: nat set)" by simp
  have reg: "filter (\<lambda>q. structureSize example_fc (sType (example_request q)) \<noteq> None) [30, 31] = [31]"
    by (simp add: example_request_def example_fc_def)
  from ApplyFeatures_skips_unregistered [OF example_request_facts(1,2,4) disj
      example_request_present_unregistered]
  obtain fc' m' where run: "ApplyFeatures example_fc example_request example_info_unregistered =
        Some (Inr (fc', m'))"
    and tab: "\<forall>t. structureSize fc' t =
              (if t \<in> set (tags example_request [30, 31]) \<and> structureSize example_fc t = None
               then Some 0 else structureSize example_fc t)"
    and pay: "\<forall>a i. payload (m' a) i =
              (if robustness_override example_info_unregistered example_request [10, 2] a i
               then VK_FALSE
               else merged_payload example_fc example_request [10, 2] [31] a i)"
    unfolding reg by blast
  have "structureSize fc' (VK_STRUCTURE_TYPE_OTHER 7) = Some 0"
    unfolding tab [rule_format]
    by (simp add: tags_def example_request_def example_fc_def)
  moreover have "payload (m' 2) 1 = VK_TRUE" "payload (m' 2) 0 = VK_FALSE"
    "payload (m' 10) 0 = VK_FALSE"
    unfolding pay [rule_format]
    by (simp_all add: robustness_override_def merged_payload_def
          merge_target_def requested_true_def tags_def structureSize_at_def
          example_request_def example_fc_def example_info_unregistered_def)
  ultimately show ?thesis using run by blast
qed

text \<open>
  The claim as stated fails: the first structure of the request \<open>30 \<rightarrow> 31\<close> has a
  type that the size table does not hold, and \<open>ApplyFeatures\<close> returns without a
  fault, with the type registered at size 0 and the structure after it merged.
\<close>

theorem ApplyFeatures_unregistered_counterexample:
  "structureSize example_fc (sType (example_request 30)) = None \<and>
   (\<exists>fc' m'. ApplyFeatures example_fc example_request example_info_unregistered =
               Some (Inr (fc', m')) \<and>
             structureSize fc' (sType (example_request 30)) = Some 0 \<and>
             payload (m' 2) 1 = VK_TRUE)"
proof -
  have disj: "set [10, 2] \<inter> set [30, 31] = ({} :: nat set)" by simp
  from ApplyFeatures_result [OF example_request_facts(1,2,4) disj
      example_request_present_unregistered]
  obtain fc' m' where run: "ApplyFeatures example_fc example_request example_info_unregistered =
        Some (Inr (fc', m'))"
    and tab: "\<forall>t. structureSize fc' t =
              (if t \<in> set (tags example_request [30, 31]) \<and> structureSize example_fc t = None
               then Some 0 else structureSize example_fc t)"
    and pay: "\<forall>a i. payload (m' a) i =
              (if robustness_override example_info_unregistered example_request [10, 2] a i
               then VK_FALSE
               else merged_payload example_fc example_request [10, 2] [30, 31] a i)"
    by blast
  have "structureSize fc' (sType (example_request 30)) = Some 0"
    unfolding tab [rule_format]
    by (simp add: tags_def example_request_def example_fc_def)
  moreover have "payload (m' 2) 1 = VK_TRUE"
    unfolding pay [rule_format]
    by (simp add: robustness_override_def merged_payload_def
          merge_target_def requested_true_def tags_def structureSize_at_def
          example_request_def example_fc_def example_info_unregistered_def)
  moreover have "structureSize example_fc (sType (example_request 30)) = None"
    by (simp add: example_request_def example_fc_def)
  ultimately show ?thesis using run by blast
qed


section \<open>Device creation: the opt-outs survive the merge pass\<close>

lemma merge_pass_result:
  assumes req: "chain m (Some (requiredFeaturesChain fc)) rs"
    and once: "distinct (tags m rs)"
    and inp: "chain m (dci_pNext (pCreateInfo info)) qs"
    and disj: "set rs \<inter> set qs = {}"
    and present: "\<forall>q\<in>set qs. 0 < structureSize_at fc (sType (m q)) \<longrightarrow>
                    sType (m q) \<in> set (tags m rs)"
  shows "\<exists>fc' m'. merge_pass fc m info = Some (Inr (fc', m')) \<and>
           requiredFeaturesChain fc' = requiredFeaturesChain fc \<and>
           (\<forall>a. sType (m' a) = sType (m a) \<and> pNext (m' a) = pNext (m a)) \<and>
           (\<forall>a i. payload (m' a) i =
              (if VP_DEVICE_CREATE_DISABLE_ROBUST_BUFFER_ACCESS_BIT \<in> flags info \<and>
                  a = requiredFeaturesChain fc \<and> i = robustBufferAccess \<or>
                  robustness_override info m rs a i
               then VK_FALSE
               else merged_payload fc m rs qs a i))"
proof -
  from ApplyFeatures_result [OF req once inp disj present]
  obtain fc' m1 where run: "ApplyFeatures fc m info = Some (Inr (fc', m1))"
    and hdr: "\<forall>a. sType (m1 a) = sType (m a) \<and> pNext (m1 a) = pNext (m a)"
    and pay: "\<forall>a i. payload (m1 a) i =
              (if robustness_override info m rs a i then VK_FALSE
               else merged_payload fc m rs qs a i)"
    and r': "requiredFeaturesChain fc' = requiredFeaturesChain fc"
    by blast
  define m' where "m' = (if VP_DEVICE_CREATE_DISABLE_ROBUST_BUFFER_ACCESS_BIT \<in> flags info
            then set_member m1 (requiredFeaturesChain fc') robustBufferAccess VK_FALSE
            else m1)"
  from run have res: "merge_pass fc m info = Some (Inr (fc', m'))"
    by (simp add: merge_pass_def m'_def)
  from hdr have hdr': "\<forall>a. sType (m' a) = sType (m a) \<and> pNext (m' a) = pNext (m a)"
    by (simp add: m'_def)
  have "\<forall>a i. payload (m' a) i =
              (if VP_DEVICE_CREATE_DISABLE_ROBUST_BUFFER_ACCESS_BIT \<in> flags info \<and>
                  a = requiredFeaturesChain fc \<and> i = robustBufferAccess \<or>
                  robustness_override info m rs a i
               then VK_FALSE
               else merged_payload fc m rs qs a i)"
    using pay r' by (auto simp: m'_def set_member_payload)
  with res r' hdr' show ?thesis by blast
qed

lemma robustness_override_cases:
  "VP_DEVICE_CREATE_DISABLE_ROBUST_BUFFER_ACCESS_BIT \<in> flags info \<Longrightarrow>
   first_of_type m rs VK_STRUCTURE_TYPE_PHYSICAL_DEVICE_ROBUSTNESS_2_FEATURES_EXT = Some a \<Longrightarrow>
   robustness_override info m rs a robustBufferAccess2"
  "VP_DEVICE_CREATE_DISABLE_ROBUST_IMAGE_ACCESS_BIT \<in> flags info \<Longrightarrow>
   first_of_type m rs VK_STRUCTURE_TYPE_PHYSICAL_DEVICE_ROBUSTNESS_2_FEATURES_EXT = Some a \<Longrightarrow>
   robustness_override info m rs a robustImageAccess2"
  "VP_DEVICE_CREATE_DISABLE_ROBUST_IMAGE_ACCESS_BIT \<in> flags info \<Longrightarrow>
   first_of_type m rs VK_STRUCTURE_TYPE_PHYSICAL_DEVICE_IMAGE_ROBUSTNESS_FEATURES_EXT = Some a \<Longrightarrow>
   robustness_override info m rs a robustImageAccess"
  "VP_DEVICE_CREATE_DISABLE_ROBUST_IMAGE_ACCESS_BIT \<in> flags info \<Longrightarrow>
   first_of_type m rs VK_STRUCTURE_TYPE_PHYSICAL_DEVICE_VULKAN_1_3_FEATURES = Some a \<Longrightarrow>
   robustness_override info m rs a robustImageAccess_13"
  by (simp_all add: robustness_override_def)

lemma merge_pass_opt_outs:
  assumes req: "chain m (Some (requiredFeaturesChain fc)) rs"
    and once: "distinct (tags m rs)"
    and inp: "chain m (dci_pNext (pCreateInfo info)) qs"
    and disj: "set rs \<inter> set qs = {}"
    and present: "\<forall>q\<in>set qs. 0 < structureSize_at fc (sType (m q)) \<longrightarrow>
                    sType (m q) \<in> set (tags m rs)"
  shows "\<exists>fc' m'. merge_pass fc m info = Some (Inr (fc', m')) \<and>
           requiredFeaturesChain fc' = requiredFeaturesChain fc \<and>
           chain m' (Some (requiredFeaturesChain fc)) rs \<and>
           (VP_DEVICE_CREATE_DISABLE_ROBUST_BUFFER_ACCESS_BIT \<in> flags info \<longrightarrow>
              payload (m' (requiredFeaturesChain fc)) robustBufferAccess = VK_FALSE \<and>
              (\<forall>a. vpGetStructure m' (Some (requiredFeaturesChain fc))
                      VK_STRUCTURE_TYPE_PHYSICAL_DEVICE_ROBUSTNESS_2_FEATURES_EXT = Some (Some a) \<longrightarrow>
                   payload (m' a) robustBufferAccess2 = VK_FALSE)) \<and>
           (VP_DEVICE_CREATE_DISABLE_ROBUST_IMAGE_ACCESS_BIT \<in> flags info \<longrightarrow>
              (\<forall>a. vpGetStructure m' (Some (requiredFeaturesChain fc))
                      VK_STRUCTURE_TYPE_PHYSICAL_DEVICE_ROBUSTNESS_2_FEATURES_EXT = Some (Some a) \<longrightarrow>
                   payload (m' a) robustImageAccess2 = VK_FALSE) \<and>
              (\<forall>a. vpGetStructure m' (Some (requiredFeaturesChain fc))
                      VK_STRUCTURE_TYPE_PHYSICAL_DEVICE_IMAGE_ROBUSTNESS_FEATURES_EXT = Some (Some a) \<longrightarrow>
                   payload (m' a) robustImageAccess = VK_FALSE) \<and>
              (\<forall>a. vpGetStructure m' (Some (requiredFeaturesChain fc))
                      VK_STRUCTURE_TYPE_PHYSICAL_DEVICE_VULKAN_1_3_FEATURES = Some (Some a) \<longrightarrow>
                   payload (m' a) robustImageAccess_13 = VK_FALSE))"
proof -
  let ?R = "requiredFeaturesChain fc"
  from merge_pass_result [OF req once inp disj present]
  obtain fc' m' where run: "merge_pass fc m info = Some (Inr (fc', m'))"
    and r': "requiredFeaturesChain fc' = ?R"
    and hdr: "\<forall>a. sType (m' a) = sType (m a) \<and> pNext (m' a) = pNext (m a)"
    and pay: "\<forall>a i. payload (m' a) i =
              (if VP_DEVICE_CREATE_DISABLE_ROBUST_BUFFER_ACCESS_BIT \<in> flags info \<and>
                  a = ?R \<and> i = robustBufferAccess \<or>
                  robustness_override info m rs a i
               then VK_FALSE
               else merged_payload fc m rs qs a i)"
    by blast
  from hdr have links: "\<And>x. pNext (m' x) = pNext (m x)" and types: "\<And>x. sType (m' x) = sType (m x)"
    by simp_all
  from links req have req': "chain m' (Some ?R) rs" by (rule chain_same_links)
  have get: "vpGetStructure m' (Some ?R) t = Some (first_of_type m rs t)" for t
    using vpGetStructure_first_of_type [OF req', of t]
      first_of_type_same_types [of m' m rs t, OF types]
    by simp
  have forced: "robustness_override info m rs a i \<Longrightarrow> payload (m' a) i = VK_FALSE" for a i
    using pay by simp
  have base: "VP_DEVICE_CREATE_DISABLE_ROBUST_BUFFER_ACCESS_BIT \<in> flags info \<Longrightarrow>
      payload (m' ?R) robustBufferAccess = VK_FALSE"
    using pay by simp
  from run r' req' base show ?thesis
    by (auto simp: get intro!: forced robustness_override_cases)
qed

lemma set_add_structure_types:
  "set (add_structure_types us ts) = set us \<union> set ts"
  by (induction us arbitrary: ts) auto

lemma GatherStructureTypes_chain:
  "chain m p as \<Longrightarrow>
   GatherStructureTypes m ts p = Some (add_structure_types (tags m as) ts)"
proof (induction as arbitrary: p ts)
  case Nil
  then show ?case by (subst GatherStructureTypes.simps) (simp add: tags_def)
next
  case (Cons a as)
  from Cons.prems have p: "p = Some a" and rest: "chain m (pNext (m a)) as" by simp_all
  show ?case
    by (subst GatherStructureTypes.simps) (simp add: p Cons.IH [OF rest] tags_def)
qed

lemma fill_chain_headers:
  "chain m p as \<Longrightarrow>
   \<exists>m'. fill_chain filler m p = Some m' \<and>
     (\<forall>a. sType (m' a) = sType (m a) \<and> pNext (m' a) = pNext (m a))"
proof (induction as arbitrary: m p)
  case Nil
  then show ?case by (subst fill_chain.simps) simp
next
  case (Cons a as)
  from Cons.prems have p: "p = Some a" and rest: "chain m (pNext (m a)) as" by simp_all
  define m1 where "m1 = m(a := (m a)\<lparr>payload := filler (sType (m a)) (payload (m a))\<rparr>)"
  have links: "\<And>x. pNext (m1 x) = pNext (m x)" and types: "\<And>x. sType (m1 x) = sType (m x)"
    by (simp_all add: m1_def)
  from links rest have "chain m1 (pNext (m a)) as" by (rule chain_same_links)
  from Cons.IH [OF this] obtain m' where run: "fill_chain filler m1 (pNext (m a)) = Some m'"
    and hdr: "\<forall>x. sType (m' x) = sType (m1 x) \<and> pNext (m' x) = pNext (m1 x)"
    by blast
  have "fill_chain filler m p = Some m'"
    by (subst fill_chain.simps) (simp add: p run [unfolded m1_def])
  with hdr links types show ?case by simp
qed

lemma fill_variants_headers:
  "chain m (Some R) rs \<Longrightarrow>
   \<exists>m'. fill_variants R variants m = Some m' \<and>
     (\<forall>a. sType (m' a) = sType (m a) \<and> pNext (m' a) = pNext (m a))"
proof (induction variants arbitrary: m)
  case Nil
  then show ?case by simp
next
  case (Cons variant variants)
  show ?case
  proof (cases "pfnFiller (feature variant)")
    case None
    with Cons.IH [OF Cons.prems] show ?thesis by simp
  next
    case (Some filler)
    from fill_chain_headers [OF Cons.prems, of filler]
    obtain m1 where run: "fill_chain filler m (Some R) = Some m1"
      and hdr: "\<forall>a. sType (m1 a) = sType (m a) \<and> pNext (m1 a) = pNext (m a)"
      by blast
    from hdr have links: "\<And>x. pNext (m1 x) = pNext (m x)" by simp
    from links Cons.prems have "chain m1 (Some R) rs" by (rule chain_same_links)
    from Cons.IH [OF this] obtain m' where run': "fill_variants R variants m1 = Some m'"
      and hdr': "\<forall>a. sType (m' a) = sType (m1 a) \<and> pNext (m' a) = pNext (m1 a)"
      by blast
    from run run' Some have "fill_variants R (variant # variants) m = Some m'" by simp
    with hdr hdr' show ?thesis by simp
  qed
qed

lemma fill_capabilities_headers:
  "chain m (Some R) rs \<Longrightarrow>
   \<exists>m'. fill_capabilities R caps m = Some m' \<and>
     (\<forall>a. sType (m' a) = sType (m a) \<and> pNext (m' a) = pNext (m a))"
proof (induction caps arbitrary: m)
  case Nil
  then show ?case by simp
next
  case (Cons pCapsDesc caps)
  from fill_variants_headers [OF Cons.prems, of "pVariants pCapsDesc"]
  obtain m1 where run: "fill_variants R (pVariants pCapsDesc) m = Some m1"
    and hdr: "\<forall>a. sType (m1 a) = sType (m a) \<and> pNext (m1 a) = pNext (m a)"
    by blast
  from hdr have links: "\<And>x. pNext (m1 x) = pNext (m x)" by simp
  from links Cons.prems have "chain m1 (Some R) rs" by (rule chain_same_links)
  from Cons.IH [OF this] obtain m' where run': "fill_capabilities R caps m1 = Some m'"
    and hdr': "\<forall>a. sType (m' a) = sType (m1 a) \<and> pNext (m' a) = pNext (m1 a)"
    by blast
  from run run' have "fill_capabilities R (pCapsDesc # caps) m = Some m'" by simp
  with hdr hdr' show ?case by simp
qed

lemma fill_blocks_headers:
  "chain m (Some R) rs \<Longrightarrow>
   \<forall>b\<in>set blocks. vpGetProfileDesc ps (profileName (profiles b)) \<noteq> None \<Longrightarrow>
   \<exists>m'. fill_blocks ps R blocks m = Some (Some m') \<and>
     (\<forall>a. sType (m' a) = sType (m a) \<and> pNext (m' a) = pNext (m a))"
proof (induction blocks arbitrary: m)
  case Nil
  then show ?case by simp
next
  case (Cons block blocks)
  from Cons.prems(2) obtain pProfileDesc
    where desc: "vpGetProfileDesc ps (profileName (profiles block)) = Some pProfileDesc"
    by auto
  from fill_capabilities_headers [OF Cons.prems(1), of "pRequiredCapabilities pProfileDesc"]
  obtain m1 where run: "fill_capabilities R (pRequiredCapabilities pProfileDesc) m = Some m1"
    and hdr: "\<forall>a. sType (m1 a) = sType (m a) \<and> pNext (m1 a) = pNext (m a)"
    by blast
  from hdr have links: "\<And>x. pNext (m1 x) = pNext (m x)" by simp
  from links Cons.prems(1) have c1: "chain m1 (Some R) rs" by (rule chain_same_links)
  from Cons.prems(2)
  have "\<forall>b\<in>set blocks. vpGetProfileDesc ps (profileName (profiles b)) \<noteq> None" by simp
  from Cons.IH [OF c1 this] obtain m' where run': "fill_blocks ps R blocks m1 = Some (Some m')"
    and hdr': "\<forall>a. sType (m' a) = sType (m1 a) \<and> pNext (m' a) = pNext (m1 a)"
    by blast
  from desc run run' have "fill_blocks ps R (block # blocks) m = Some (Some m')" by simp
  with hdr hdr' show ?case by simp
qed

lemma create_blocks_known:
  "\<forall>b\<in>set blocks. vpGetProfileDesc ps (profileName (profiles b)) \<noteq> None \<Longrightarrow>
   \<exists>st'. create_blocks ps blocks st = Some st'"
proof (induction blocks arbitrary: st)
  case Nil
  then show ?case by simp
next
  case (Cons block blocks)
  from Cons.prems obtain pProfileDesc
    where desc: "vpGetProfileDesc ps (profileName (profiles block)) = Some pProfileDesc"
    by auto
  from Cons.prems
  have "\<forall>b\<in>set blocks. vpGetProfileDesc ps (profileName (profiles b)) \<noteq> None" by simp
  from Cons.IH [OF this, of "create_capabilities block (pRequiredCapabilities pProfileDesc) st"]
  show ?case by (simp add: desc)
qed

lemma create_blocks_unknown:
  "\<exists>b\<in>set blocks. vpGetProfileDesc ps (profileName (profiles b)) = None \<Longrightarrow>
   create_blocks ps blocks st = None"
proof (induction blocks arbitrary: st)
  case Nil
  then show ?case by simp
next
  case (Cons block blocks)
  show ?case
  proof (cases "vpGetProfileDesc ps (profileName (profiles block))")
    case None
    then show ?thesis by simp
  next
    case (Some pProfileDesc)
    with Cons.prems
    have "\<exists>b\<in>set blocks. vpGetProfileDesc ps (profileName (profiles b)) = None" by auto
    from Cons.IH [OF this, of "create_capabilities block (pRequiredCapabilities pProfileDesc) st"]
    show ?thesis by (simp add: Some)
  qed
qed

lemma distinct_first_occurrences: "distinct (first_occurrences ts)"
  by (induction ts) auto

lemma unique_first_of_type:
  assumes once: "distinct (tags m rs)" and a: "a \<in> set rs"
  shows "first_of_type m rs (sType (m a)) = Some a"
proof -
  from a have "sType (m a) \<in> set (tags m rs)" by (simp add: tags_def)
  from find_in_tags [OF this]
  obtain out where out: "find (\<lambda>x. sType (m x) = sType (m a)) rs = Some out" by blast
  from find_unique_tag [OF once out, of a] a have "a = out" by simp
  with out show ?thesis by (simp add: first_of_type_def)
qed

lemma vpCreateDevice_merge_state:
  assumes wf: "aggregator_wf fc m ms []"
    and head: "sType (m (requiredFeaturesChain fc)) = VK_STRUCTURE_TYPE_PHYSICAL_DEVICE_FEATURES_2_KHR"
    and inp: "chain m (dci_pNext (pCreateInfo info)) qs"
    and disj: "set qs \<inter> (set (physicalDeviceFeatures2KHR fc # ms) \<union> {requiredFeaturesChain fc}) = {}"
    and sized: "\<forall>q\<in>set qs. 0 < structureSize_at fc (sType (m q)) \<longrightarrow>
                  sType (m q) \<in> set (tags m (physicalDeviceFeatures2KHR fc # ms))"
    and known: "\<forall>b\<in>set (GatherBlocks ps (pEnabledFullProfiles info) (pEnabledProfileBlocks info)).
                  vpGetProfileDesc ps (profileName (profiles b)) \<noteq> None"
  shows "\<exists>structureTypes extensions m3 rs.
           vpCreateDevice ps fc m (Some physicalDevice) (Some info) (Some pDevice) =
             (case merge_pass fc m3 info of
                None \<Rightarrow> None
              | Some (Inl e) \<Rightarrow> Some (Inl e)
              | Some (Inr (chain', m4)) \<Rightarrow>
                  Some (Inr (Inr
                    (Some \<lparr>dci_pNext = Some (requiredFeaturesChain chain'),
                           pQueueCreateInfos = pQueueCreateInfos (pCreateInfo info),
                           ppEnabledExtensionNames = extensions,
                           pEnabledFeatures = None\<rparr>,
                     chain', m4)))) \<and>
           rs = requiredFeaturesChain fc # selected_links (\<lambda>a. sType (m a)) ms structureTypes \<and>
           set structureTypes = set (tags m qs) \<union> profile_structure_types ps info \<and>
           (\<forall>a. sType (m3 a) = sType (m a)) \<and>
           chain m3 (Some (requiredFeaturesChain fc)) rs \<and>
           distinct (tags m3 rs) \<and>
           chain m3 (dci_pNext (pCreateInfo info)) qs \<and>
           set rs \<inter> set qs = {} \<and>
           (\<forall>q\<in>set qs. 0 < structureSize_at fc (sType (m3 q)) \<longrightarrow>
                    sType (m3 q) \<in> set (tags m3 rs))"
proof -
  let ?M = "physicalDeviceFeatures2KHR fc" and ?R = "requiredFeaturesChain fc"
  let ?tag = "\<lambda>a. sType (m a)"
  let ?blocks = "GatherBlocks ps (pEnabledFullProfiles info) (pEnabledProfileBlocks info)"
  from create_blocks_known [OF known, of "([], ppEnabledExtensionNames (pCreateInfo info))"]
  obtain ts0 extensions
    where cb: "create_blocks ps ?blocks ([], ppEnabledExtensionNames (pCreateInfo info)) =
                 Some (ts0, extensions)"
    by auto
  define ts where "ts = add_structure_types (tags m qs) ts0"
  from GatherStructureTypes_chain [OF inp, of ts0]
  have gather: "GatherStructureTypes m ts0 (dci_pNext (pCreateInfo info)) = Some ts"
    by (simp add: ts_def)
  have req_ts: "set (tags m qs) \<subseteq> set ts" by (simp add: ts_def set_add_structure_types)
  have all_ts: "set ts = set (tags m qs) \<union> profile_structure_types ps info"
    by (simp add: ts_def set_add_structure_types profile_structure_types_def cb)
  from wf have "distinct (tags m (?M # ms))" by (simp add: aggregator_wf_def)
  then have dist_ms: "distinct (map ?tag ms)" and M_notin: "?tag ?M \<notin> ?tag ` set ms"
    by (simp_all add: tags_def)
  define sel where "sel = selected_links ?tag ms ts"
  have links_sel: "Build_links ?tag ms ts = sel"
    unfolding sel_def using dist_ms by (rule Build_links_selected)
  from Build_refines [OF wf, of ts]
  obtain m1 where build: "Build fc m ts = Some m1"
    and wf1: "aggregator_wf fc m1 (filter (\<lambda>a. a \<notin> set sel) ms) sel"
    and same1: "\<forall>b. sType (m1 b) = sType (m b) \<and> payload (m1 b) = payload (m b)"
    and out1: "\<forall>b. b \<notin> set (?M # ms) \<union> set [?R] \<longrightarrow> m1 b = m b"
    unfolding links_sel by auto
  from wf1 have c1: "chain m1 (Some ?R) (?R # sel)" by (rule aggregator_wf_required)
  define m2 where "m2 = (case pEnabledFeatures (pCreateInfo info) of
                 Some enabled \<Rightarrow>
                   m1(?R := (m1 ?R)
                     \<lparr>payload := (\<lambda>i. if i < VkPhysicalDeviceFeatures_members then enabled i
                                      else payload (m1 ?R) i)\<rparr>)
               | None \<Rightarrow> m1)"
  have links2: "\<And>x. pNext (m2 x) = pNext (m1 x)" and types2: "\<And>x. sType (m2 x) = sType (m1 x)"
    by (simp_all add: m2_def split: option.splits)
  from links2 c1 have c2: "chain m2 (Some ?R) (?R # sel)" by (rule chain_same_links)
  from fill_blocks_headers [OF c2 known]
  obtain m3 where fill: "fill_blocks ps ?R ?blocks m2 = Some (Some m3)"
    and hdr3: "\<forall>a. sType (m3 a) = sType (m2 a) \<and> pNext (m3 a) = pNext (m2 a)"
    by blast
  from hdr3 have links3: "\<And>x. pNext (m3 x) = pNext (m2 x)" by simp
  from hdr3 types2 same1 have types3: "\<And>x. sType (m3 x) = sType (m x)" by simp
  from links3 c2 have c3: "chain m3 (Some ?R) (?R # sel)" by (rule chain_same_links)
  have sel_set: "set sel = {a \<in> set ms. ?tag a \<in> set ts \<and>
      ?tag a \<noteq> VK_STRUCTURE_TYPE_PHYSICAL_DEVICE_FEATURES_2_KHR}"
    unfolding sel_def by (rule set_selected_links)
  have tag_sel: "map ?tag sel = filter (\<lambda>t. t \<in> ?tag ` set ms)
      (filter (\<lambda>t. t \<noteq> VK_STRUCTURE_TYPE_PHYSICAL_DEVICE_FEATURES_2_KHR) (first_occurrences ts))"
    unfolding sel_def using dist_ms by (rule map_tag_selected_links)
  have "distinct (map ?tag sel)" unfolding tag_sel by (simp add: distinct_first_occurrences)
  moreover have "VK_STRUCTURE_TYPE_PHYSICAL_DEVICE_FEATURES_2_KHR \<notin> set (map ?tag sel)"
    unfolding tag_sel by simp
  ultimately have "distinct (tags m (?R # sel))" by (simp add: tags_def head)
  then have once3: "distinct (tags m3 (?R # sel))" by (simp add: tags_def types3)
  have "pNext (m3 x) = pNext (m x)" if "x \<in> set qs" for x
  proof -
    from that disj have "x \<notin> set (?M # ms) \<union> set [?R]" by auto
    with out1 have "m1 x = m x" by blast
    with links3 links2 show ?thesis by simp
  qed
  then have inp3: "chain m3 (dci_pNext (pCreateInfo info)) qs" using inp by (rule chain_cong)
  from disj sel_set have disj3: "set (?R # sel) \<inter> set qs = {}" by auto
  have present3: "\<forall>q\<in>set qs. 0 < structureSize_at fc (sType (m3 q)) \<longrightarrow>
                    sType (m3 q) \<in> set (tags m3 (?R # sel))"
  proof (intro ballI impI)
    fix q assume q: "q \<in> set qs" and pos: "0 < structureSize_at fc (sType (m3 q))"
    from q pos sized have inM: "?tag q \<in> set (tags m (?M # ms))" by (simp add: types3)
    show "sType (m3 q) \<in> set (tags m3 (?R # sel))"
    proof (cases "?tag q = VK_STRUCTURE_TYPE_PHYSICAL_DEVICE_FEATURES_2_KHR")
      case True
      then show ?thesis by (simp add: tags_def types3 head)
    next
      case False
      with inM aggregator_wf_head [OF wf] obtain a where a: "a \<in> set ms" "?tag a = ?tag q"
        by (auto simp: tags_def)
      from q have "?tag q \<in> set (tags m qs)" by (simp add: tags_def)
      with req_ts have "?tag q \<in> set ts" by blast
      with a False have "a \<in> set sel" by (simp add: sel_set)
      with a(2) show ?thesis by (auto simp: tags_def types3 intro: rev_image_eqI)
    qed
  qed
  have run: "vpCreateDevice ps fc m (Some physicalDevice) (Some info) (Some pDevice) =
             (case merge_pass fc m3 info of
                None \<Rightarrow> None
              | Some (Inl e) \<Rightarrow> Some (Inl e)
              | Some (Inr (chain', m4)) \<Rightarrow>
                  Some (Inr (Inr
                    (Some \<lparr>dci_pNext = Some (requiredFeaturesChain chain'),
                           pQueueCreateInfos = pQueueCreateInfos (pCreateInfo info),
                           ppEnabledExtensionNames = extensions,
                           pEnabledFeatures = None\<rparr>,
                     chain', m4))))"
    by (simp add: vpCreateDevice_def Let_def cb gather build fill [unfolded m2_def])
  from run all_ts types3 c3 once3 inp3 disj3 present3 show ?thesis
    unfolding sel_def by blast
qed

text \<open>
  Claim C5.  Let \<open>vpCreateDevice\<close> run with non-null arguments on a freshly
  constructed aggregator (the chain of all feature structures well formed with every
  type once, the chain of required features holding only its head), a well-formed
  requested chain outside the aggregator, every requested type of non-zero size being
  the type of a feature structure, and every enabled block naming a profile of the
  table.  Then it terminates without a fault and reaches \<^verbatim>\<open>vkCreateDevice\<close> with a
  create info whose \<open>pNext\<close> is the chain of required features; that chain holds the
  feature structures whose type is requested or belongs to an enabled profile; and
  whatever the caller's base features, the fillers of the profiles and the requested
  structures hold,
  \<^item> with the buffer-access opt-out in the flags, \<open>robustBufferAccess\<close> of the head
    and \<open>robustBufferAccess2\<close> of the robustness-2 structure of the chain are
    \<^verbatim>\<open>VK_FALSE\<close>;
  \<^item> with the image-access opt-out in the flags, \<open>robustImageAccess2\<close> of the
    robustness-2 structure, \<open>robustImageAccess\<close> of the image-robustness structure
    and \<open>robustImageAccess\<close> of the Vulkan 1.3 structure of the chain are
    \<^verbatim>\<open>VK_FALSE\<close>.
\<close>

theorem vpCreateDevice_opt_outs_override:
  assumes wf: "aggregator_wf fc m ms []"
    and head: "sType (m (requiredFeaturesChain fc)) = VK_STRUCTURE_TYPE_PHYSICAL_DEVICE_FEATURES_2_KHR"
    and inp: "chain m (dci_pNext (pCreateInfo info)) qs"
    and disj: "set qs \<inter> (set (physicalDeviceFeatures2KHR fc # ms) \<union> {requiredFeaturesChain fc}) = {}"
    and sized: "\<forall>q\<in>set qs. 0 < structureSize_at fc (sType (m q)) \<longrightarrow>
                  sType (m q) \<in> set (tags m (physicalDeviceFeatures2KHR fc # ms))"
    and known: "\<forall>b\<in>set (GatherBlocks ps (pEnabledFullProfiles info) (pEnabledProfileBlocks info)).
                  vpGetProfileDesc ps (profileName (profiles b)) \<noteq> None"
  shows "\<exists>ci fc' m' rs.
           vpCreateDevice ps fc m (Some physicalDevice) (Some info) (Some pDevice) =
             Some (Inr (Inr (Some ci, fc', m'))) \<and>
           dci_pNext ci = Some (requiredFeaturesChain fc) \<and>
           chain m' (Some (requiredFeaturesChain fc)) (requiredFeaturesChain fc # rs) \<and>
           set rs = {a \<in> set ms.
                       sType (m a) \<in> set (tags m qs) \<union> profile_structure_types ps info \<and>
                       sType (m a) \<noteq> VK_STRUCTURE_TYPE_PHYSICAL_DEVICE_FEATURES_2_KHR} \<and>
           (\<forall>a. sType (m' a) = sType (m a)) \<and>
           (VP_DEVICE_CREATE_DISABLE_ROBUST_BUFFER_ACCESS_BIT \<in> flags info \<longrightarrow>
              payload (m' (requiredFeaturesChain fc)) robustBufferAccess = VK_FALSE \<and>
              (\<forall>a\<in>set rs.
                 sType (m a) = VK_STRUCTURE_TYPE_PHYSICAL_DEVICE_ROBUSTNESS_2_FEATURES_EXT \<longrightarrow>
                 payload (m' a) robustBufferAccess2 = VK_FALSE)) \<and>
           (VP_DEVICE_CREATE_DISABLE_ROBUST_IMAGE_ACCESS_BIT \<in> flags info \<longrightarrow>
              (\<forall>a\<in>set rs.
                 (sType (m a) = VK_STRUCTURE_TYPE_PHYSICAL_DEVICE_ROBUSTNESS_2_FEATURES_EXT \<longrightarrow>
                    payload (m' a) robustImageAccess2 = VK_FALSE) \<and>
                 (sType (m a) = VK_STRUCTURE_TYPE_PHYSICAL_DEVICE_IMAGE_ROBUSTNESS_FEATURES_EXT \<longrightarrow>
                    payload (m' a) robustImageAccess = VK_FALSE) \<and>
                 (sType (m a) = VK_STRUCTURE_TYPE_PHYSICAL_DEVICE_VULKAN_1_3_FEATURES \<longrightarrow>
                    payload (m' a) robustImageAccess_13 = VK_FALSE)))"
proof -
  let ?R = "requiredFeaturesChain fc"
  from vpCreateDevice_merge_state [OF wf head inp disj sized known, of physicalDevice pDevice]
  obtain ts extensions m3 rs0
    where run: "vpCreateDevice ps fc m (Some physicalDevice) (Some info) (Some pDevice) =
             (case merge_pass fc m3 info of
                None \<Rightarrow> None
              | Some (Inl e) \<Rightarrow> Some (Inl e)
              | Some (Inr (chain', m4)) \<Rightarrow>
                  Some (Inr (Inr
                    (Some \<lparr>dci_pNext = Some (requiredFeaturesChain chain'),
                           pQueueCreateInfos = pQueueCreateInfos (pCreateInfo info),
                           ppEnabledExtensionNames = extensions,
                           pEnabledFeatures = None\<rparr>,
                     chain', m4))))"
      and rs0: "rs0 = ?R # selected_links (\<lambda>a. sType (m a)) ms ts"
      and all_ts: "set ts = set (tags m qs) \<union> profile_structure_types ps info"
      and types3: "\<forall>a. sType (m3 a) = sType (m a)"
      and c3: "chain m3 (Some ?R) rs0"
      and once3: "distinct (tags m3 rs0)"
      and inp3: "chain m3 (dci_pNext (pCreateInfo info)) qs"
      and disj3: "set rs0 \<inter> set qs = {}"
      and present3: "\<forall>q\<in>set qs. 0 < structureSize_at fc (sType (m3 q)) \<longrightarrow>
                    sType (m3 q) \<in> set (tags m3 rs0)"
    by blast
  define rs where "rs = selected_links (\<lambda>a. sType (m a)) ms ts"
  from merge_pass_result [OF c3 once3 inp3 disj3 present3]
  obtain fc' m' where merge: "merge_pass fc m3 info = Some (Inr (fc', m'))"
    and r': "requiredFeaturesChain fc' = ?R"
    and hdr: "\<forall>a. sType (m' a) = sType (m3 a) \<and> pNext (m' a) = pNext (m3 a)"
    and pay: "\<forall>a i. payload (m' a) i =
              (if VP_DEVICE_CREATE_DISABLE_ROBUST_BUFFER_ACCESS_BIT \<in> flags info \<and>
                  a = ?R \<and> i = robustBufferAccess \<or>
                  robustness_override info m3 rs0 a i
               then VK_FALSE
               else merged_payload fc m3 rs0 qs a i)"
    by blast
  define ci where "ci = \<lparr>dci_pNext = Some ?R,
                           pQueueCreateInfos = pQueueCreateInfos (pCreateInfo info),
                           ppEnabledExtensionNames = extensions,
                           pEnabledFeatures = None\<rparr>"
  from run merge r'
  have res: "vpCreateDevice ps fc m (Some physicalDevice) (Some info) (Some pDevice) =
             Some (Inr (Inr (Some ci, fc', m')))"
    by (simp add: ci_def)
  have next_ci: "dci_pNext ci = Some ?R" by (simp add: ci_def)
  from hdr have links: "\<And>x. pNext (m' x) = pNext (m3 x)" by simp
  from links c3 have c': "chain m' (Some ?R) (?R # rs)"
    unfolding rs0 rs_def by (rule chain_same_links)
  from hdr types3 have types: "\<forall>a. sType (m' a) = sType (m a)" by simp
  have set_rs: "set rs = {a \<in> set ms.
                       sType (m a) \<in> set (tags m qs) \<union> profile_structure_types ps info \<and>
                       sType (m a) \<noteq> VK_STRUCTURE_TYPE_PHYSICAL_DEVICE_FEATURES_2_KHR}"
    unfolding rs_def set_selected_links all_ts ..
  have forced: "payload (m' a) i = VK_FALSE" if "robustness_override info m3 rs0 a i" for a i
    using pay that by simp
  have first: "first_of_type m3 rs0 (sType (m a)) = Some a" if "a \<in> set rs" for a
  proof -
    from that have "a \<in> set rs0" by (simp add: rs0 rs_def)
    from unique_first_of_type [OF once3 this] types3 show ?thesis by simp
  qed
  have base: "VP_DEVICE_CREATE_DISABLE_ROBUST_BUFFER_ACCESS_BIT \<in> flags info \<Longrightarrow>
      payload (m' ?R) robustBufferAccess = VK_FALSE"
    using pay by simp
  have buffer2: "payload (m' a) robustBufferAccess2 = VK_FALSE"
    if "VP_DEVICE_CREATE_DISABLE_ROBUST_BUFFER_ACCESS_BIT \<in> flags info" "a \<in> set rs"
      "sType (m a) = VK_STRUCTURE_TYPE_PHYSICAL_DEVICE_ROBUSTNESS_2_FEATURES_EXT" for a
    using that first [of a] by (intro forced robustness_override_cases) simp_all
  have image2: "payload (m' a) robustImageAccess2 = VK_FALSE"
    if "VP_DEVICE_CREATE_DISABLE_ROBUST_IMAGE_ACCESS_BIT \<in> flags info" "a \<in> set rs"
      "sType (m a) = VK_STRUCTURE_TYPE_PHYSICAL_DEVICE_ROBUSTNESS_2_FEATURES_EXT" for a
    using that first [of a] by (intro forced robustness_override_cases) simp_all
  have image: "payload (m' a) robustImageAccess = VK_FALSE"
    if "VP_DEVICE_CREATE_DISABLE_ROBUST_IMAGE_ACCESS_BIT \<in> flags info" "a \<in> set rs"
      "sType (m a) = VK_STRUCTURE_TYPE_PHYSICAL_DEVICE_IMAGE_ROBUSTNESS_FEATURES_EXT" for a
    using that first [of a] by (intro forced robustness_override_cases) simp_all
  have image13: "payload (m' a) robustImageAccess_13 = VK_FALSE"
    if "VP_DEVICE_CREATE_DISABLE_ROBUST_IMAGE_ACCESS_BIT \<in> flags info" "a \<in> set rs"
      "sType (m a) = VK_STRUCTURE_TYPE_PHYSICAL_DEVICE_VULKAN_1_3_FEATURES" for a
    using that first [of a] by (intro forced robustness_override_cases) simp_all
  from res next_ci c' set_rs types base buffer2 image2 image image13
  show ?thesis by blast
qed

lemma example_create_facts:
  "aggregator_wf example_fc example_create_memory [2, 3, 4] []"
  "sType (example_create_memory (requiredFeaturesChain example_fc)) =
     VK_STRUCTURE_TYPE_PHYSICAL_DEVICE_FEATURES_2_KHR"
  "chain example_create_memory (dci_pNext (pCreateInfo example_create_info)) [20, 21]"
  "set [20, 21] \<inter> (set (physicalDeviceFeatures2KHR example_fc # [2, 3, 4]) \<union>
     {requiredFeaturesChain example_fc}) = {}"
  by (simp_all add: aggregator_wf_def example_fc_def example_create_memory_def
        example_memory_def example_create_info_def tags_def)

lemma example_create_sized:
  "\<forall>q\<in>set [20, 21]. 0 < structureSize_at example_fc (sType (example_create_memory q)) \<longrightarrow>
     sType (example_create_memory q) \<in>
       set (tags example_create_memory (physicalDeviceFeatures2KHR example_fc # [2, 3, 4]))"
  by (simp add: example_fc_def example_create_memory_def example_memory_def tags_def)

lemma example_create_blocks:
  "GatherBlocks example_create_profiles (pEnabledFullProfiles example_create_info)
     (pEnabledProfileBlocks example_create_info) =
   [\<lparr>profiles = \<lparr>profileName = ''VP_EXAMPLE_robust'', specVersion = 1\<rparr>, apiVersion = 0,
     blockName = ''''\<rparr>]"
  by (simp add: GatherBlocks_def GatherProfiles_def vpGetProfileDesc_def
        example_create_profiles_def example_create_info_def)

lemma example_create_known:
  "\<forall>b\<in>set (GatherBlocks example_create_profiles (pEnabledFullProfiles example_create_info)
             (pEnabledProfileBlocks example_create_info)).
     vpGetProfileDesc example_create_profiles (profileName (profiles b)) \<noteq> None"
  unfolding example_create_blocks
  by (simp add: vpGetProfileDesc_def example_create_profiles_def)

lemma example_create_types:
  "profile_structure_types example_create_profiles example_create_info =
   {VK_STRUCTURE_TYPE_PHYSICAL_DEVICE_ROBUSTNESS_2_FEATURES_EXT,
    VK_STRUCTURE_TYPE_PHYSICAL_DEVICE_IMAGE_ROBUSTNESS_FEATURES_EXT}"
  unfolding profile_structure_types_def example_create_blocks
  by (simp add: vpGetProfileDesc_def example_create_profiles_def example_create_info_def
        GetExtensions_def)

theorem vpCreateDevice_opt_outs_override_witness:
  "\<exists>ci fc' m'.
     vpCreateDevice example_create_profiles example_fc example_create_memory (Some 0)
       (Some example_create_info) (Some 0) = Some (Inr (Inr (Some ci, fc', m'))) \<and>
     dci_pNext ci = Some 10 \<and>
     payload (m' 10) robustBufferAccess = VK_FALSE \<and>
     payload (m' 2) robustBufferAccess2 = VK_FALSE \<and>
     payload (m' 2) robustImageAccess2 = VK_FALSE \<and>
     payload (m' 3) robustImageAccess = VK_FALSE"
proof -
  from vpCreateDevice_opt_outs_override [OF example_create_facts example_create_sized
      example_create_known, of 0 0]
  obtain ci fc' m' rs
    where run: "vpCreateDevice example_create_profiles example_fc example_create_memory (Some 0)
       (Some example_create_info) (Some 0) = Some (Inr (Inr (Some ci, fc', m')))"
      and next_ci: "dci_pNext ci = Some (requiredFeaturesChain example_fc)"
      and set_rs: "set rs = {a \<in> set [2, 3, 4].
           sType (example_create_memory a) \<in> set (tags example_create_memory [20, 21]) \<union>
             profile_structure_types example_create_profiles example_create_info \<and>
           sType (example_create_memory a) \<noteq> VK_STRUCTURE_TYPE_PHYSICAL_DEVICE_FEATURES_2_KHR}"
      and buffer: "VP_DEVICE_CREATE_DISABLE_ROBUST_BUFFER_ACCESS_BIT \<in> flags example_create_info \<longrightarrow>
              payload (m' (requiredFeaturesChain example_fc)) robustBufferAccess = VK_FALSE \<and>
              (\<forall>a\<in>set rs.
                 sType (example_create_memory a) =
                   VK_STRUCTURE_TYPE_PHYSICAL_DEVICE_ROBUSTNESS_2_FEATURES_EXT \<longrightarrow>
                 payload (m' a) robustBufferAccess2 = VK_FALSE)"
      and image: "VP_DEVICE_CREATE_DISABLE_ROBUST_IMAGE_ACCESS_BIT \<in> flags example_create_info \<longrightarrow>
              (\<forall>a\<in>set rs.
                 (sType (example_create_memory a) =
                    VK_STRUCTURE_TYPE_PHYSICAL_DEVICE_ROBUSTNESS_2_FEATURES_EXT \<longrightarrow>
                    payload (m' a) robustImageAccess2 = VK_FALSE) \<and>
                 (sType (example_create_memory a) =
                    VK_STRUCTURE_TYPE_PHYSICAL_DEVICE_IMAGE_ROBUSTNESS_FEATURES_EXT \<longrightarrow>
                    payload (m' a) robustImageAccess = VK_FALSE) \<and>
                 (sType (example_create_memory a) =
                    VK_STRUCTURE_TYPE_PHYSICAL_DEVICE_VULKAN_1_3_FEATURES \<longrightarrow>
                    payload (m' a) robustImageAccess_13 = VK_FALSE))"
    by blast
  have in_rs: "2 \<in> set rs" "3 \<in> set rs"
    unfolding set_rs example_create_types
    by (simp_all add: example_create_memory_def example_memory_def)
  have flags: "VP_DEVICE_CREATE_DISABLE_ROBUST_BUFFER_ACCESS_BIT \<in> flags example_create_info"
    "VP_DEVICE_CREATE_DISABLE_ROBUST_IMAGE_ACCESS_BIT \<in> flags example_create_info"
    by (simp_all add: example_create_info_def)
  have types: "sType (example_create_memory 2) =
                 VK_STRUCTURE_TYPE_PHYSICAL_DEVICE_ROBUSTNESS_2_FEATURES_EXT"
    "sType (example_create_memory 3) =
                 VK_STRUCTURE_TYPE_PHYSICAL_DEVICE_IMAGE_ROBUSTNESS_FEATURES_EXT"
    by (simp_all add: example_create_memory_def example_memory_def)
  have head: "requiredFeaturesChain example_fc = 10" by (simp add: example_fc_def)
  from buffer flags in_rs types head
  have b: "payload (m' 10) robustBufferAccess = VK_FALSE"
    "payload (m' 2) robustBufferAccess2 = VK_FALSE" by auto
  from image flags in_rs types
  have i: "payload (m' 2) robustImageAccess2 = VK_FALSE"
    "payload (m' 3) robustImageAccess = VK_FALSE" by auto
  from run next_ci head b i show ?thesis by auto
qed


section \<open>Creation of the capabilities object\<close>

lemma ValidateVulkanFunctions_missing:
  "GetInstanceProcAddr this = None \<or> GetDeviceProcAddr this = None \<or>
   EnumerateInstanceExtensionProperties this = None \<or>
   EnumerateDeviceExtensionProperties this = None \<or>
   GetPhysicalDeviceFeatures2 this = None \<or> GetPhysicalDeviceProperties2 this = None \<or>
   GetPhysicalDeviceFormatProperties2 this = None \<or>
   GetPhysicalDeviceQueueFamilyProperties2 this = None \<or>
   CreateInstance this = None \<or> CreateDevice this = None \<Longrightarrow>
   ValidateVulkanFunctions this \<in> {VK_ERROR_INITIALIZATION_FAILED, VK_ERROR_EXTENSION_NOT_PRESENT}"
  by (auto simp: ValidateVulkanFunctions_def)

lemma ValidateVulkanFunctions_required:
  "GetInstanceProcAddr this = None \<or> GetDeviceProcAddr this = None \<or>
   EnumerateInstanceExtensionProperties this = None \<or>
   EnumerateDeviceExtensionProperties this = None \<Longrightarrow>
   ValidateVulkanFunctions this = VK_ERROR_INITIALIZATION_FAILED"
  by (auto simp: ValidateVulkanFunctions_def)

text \<open>
  Claim C10.  \<open>vpCreateCapabilities\<close> takes a new object from the free store, and
  whatever the handle of the caller held and whatever the initialisation returns, the
  handle holds the address of the new object at exit and the store holds the object as
  \<open>init\<close> left it.  The returned code is the one of \<open>ValidateVulkanFunctions\<close> on
  that object: if one of the entry points is missing it is a failure code, and it is
  \<^verbatim>\<open>VK_ERROR_INITIALIZATION_FAILED\<close> if one of the first four required entry points is
  missing; the handle is overwritten all the same.
\<close>

theorem vpCreateCapabilities_overwrites_handle:
  "\<exists>this.
     snd (init vk VpCapabilities_T_new info) = this \<and>
     vpCreateCapabilities vk info store pCapabilities =
       (ValidateVulkanFunctions this, Some (next_object store),
        store\<lparr>objects := (objects store)(next_object store \<mapsto> this),
              next_object := Suc (next_object store)\<rparr>) \<and>
     (GetInstanceProcAddr this = None \<or> GetDeviceProcAddr this = None \<or>
      EnumerateInstanceExtensionProperties this = None \<or>
      EnumerateDeviceExtensionProperties this = None \<or>
      GetPhysicalDeviceFeatures2 this = None \<or> GetPhysicalDeviceProperties2 this = None \<or>
      GetPhysicalDeviceFormatProperties2 this = None \<or>
      GetPhysicalDeviceQueueFamilyProperties2 this = None \<or>
      CreateInstance this = None \<or> CreateDevice this = None \<longrightarrow>
        fst (vpCreateCapabilities vk info store pCapabilities) \<in>
          {VK_ERROR_INITIALIZATION_FAILED, VK_ERROR_EXTENSION_NOT_PRESENT} \<and>
        fst (snd (vpCreateCapabilities vk info store pCapabilities)) = Some (next_object store)) \<and>
     (GetInstanceProcAddr this = None \<or> GetDeviceProcAddr this = None \<or>
      EnumerateInstanceExtensionProperties this = None \<or>
      EnumerateDeviceExtensionProperties this = None \<longrightarrow>
        fst (vpCreateCapabilities vk info store pCapabilities) = VK_ERROR_INITIALIZATION_FAILED \<and>
        fst (snd (vpCreateCapabilities vk info store pCapabilities)) = Some (next_object store))"
proof -
  define this where "this = snd (init vk VpCapabilities_T_new info)"
  have run: "vpCreateCapabilities vk info store pCapabilities =
       (ValidateVulkanFunctions this, Some (next_object store),
        store\<lparr>objects := (objects store)(next_object store \<mapsto> this),
              next_object := Suc (next_object store)\<rparr>)"
    by (simp add: vpCreateCapabilities_def this_def init_def ImportVulkanFunctions_def Let_def)
  show ?thesis
    using ValidateVulkanFunctions_missing [of this] ValidateVulkanFunctions_required [of this]
    unfolding run
    by (intro exI [of _ this]) (simp add: this_def)
qed

theorem vpCreateCapabilities_overwrites_handle_witness:
  "vpCreateCapabilities example_loader example_capabilities_info example_store (Some 7) =
     (VK_ERROR_INITIALIZATION_FAILED, Some 0,
      \<lparr>objects = [0 \<mapsto> VpCapabilities_T_new], next_object = 1\<rparr>)"
proof -
  from vpCreateCapabilities_overwrites_handle
    [of example_loader example_capabilities_info example_store "Some 7"]
  obtain this where this: "snd (init example_loader VpCapabilities_T_new example_capabilities_info) = this"
    and run: "vpCreateCapabilities example_loader example_capabilities_info example_store (Some 7) =
       (ValidateVulkanFunctions this, Some (next_object example_store),
        example_store\<lparr>objects := (objects example_store)(next_object example_store \<mapsto> this),
              next_object := Suc (next_object example_store)\<rparr>)"
    and failed: "GetInstanceProcAddr this = None \<or> GetDeviceProcAddr this = None \<or>
      EnumerateInstanceExtensionProperties this = None \<or>
      EnumerateDeviceExtensionProperties this = None \<longrightarrow>
        fst (vpCreateCapabilities example_loader example_capabilities_info example_store (Some 7)) =
          VK_ERROR_INITIALIZATION_FAILED \<and>
        fst (snd (vpCreateCapabilities example_loader example_capabilities_info example_store
          (Some 7))) = Some (next_object example_store)"
    by (elim exE conjE) (rule that)
  from this have new: "this = VpCapabilities_T_new"
    by (simp add: init_def ImportVulkanFunctions_def example_capabilities_info_def)
  then have "GetInstanceProcAddr this = None" by (simp add: VpCapabilities_T_new_def)
  with failed
  have "fst (vpCreateCapabilities example_loader example_capabilities_info example_store (Some 7)) =
          VK_ERROR_INITIALIZATION_FAILED" by blast
  with run new show ?thesis by (simp add: example_store_def)
qed


section \<open>The support queries\<close>

subsection \<open>Device level\<close>

lemma CheckExtension_enumerated: "CheckExtension exts name = enumerated exts name"
  by (induction exts) (auto simp: enumerated_def)

lemma compare_links_all:
  "compare_links query comparator links s =
   (s \<and> (\<forall>p\<in>set links. comparator (fst p) (query (fst p) (snd p))))"
  by (induction links arbitrary: s) auto

lemma compare_chain_all:
  "compare_chain query comparator head chainer =
   (\<forall>t\<in>set (head # chainer). comparator t (query t (\<lambda>_. 0)))"
  by (simp add: compare_chain_def compare_links_all query_chain_def)

lemma device_variant_extensions_all:
  "device_variant_extensions exts es s =
   (s \<and> (\<forall>e\<in>set es. enumerated exts (extensionName e)))"
  by (induction es arbitrary: s) (auto simp: CheckExtension_enumerated)

lemma device_variant_formats_all:
  "device_variant_formats query v fs s =
   (s \<and> (\<forall>f\<in>set fs. compare_chain (query (format f)) (fmt_pfnComparator f)
            VK_STRUCTURE_TYPE_FORMAT_PROPERTIES_2_KHR (pfnFormat (chainers v))))"
  by (induction fs arbitrary: s) auto

lemma device_variant_iff:
  "device_variant features2 properties2 formatProperties2 exts v =
   device_variant_supported features2 properties2 formatProperties2 exts v"
  unfolding device_variant_def device_variant_supported_def Let_def
    device_variant_formats_all device_variant_extensions_all compare_chain_all
  by auto

lemma device_variants_result:
  "device_variants features2 properties2 formatProperties2 exts block vs (sb, s, u) =
   (case find (device_variant_supported features2 properties2 formatProperties2 exts) vs of
      None \<Rightarrow> (sb, s, u @ map (\<lambda>v. block\<lparr>blockName := v_blockName v\<rparr>) vs)
    | Some v \<Rightarrow>
        (True, s @ [block\<lparr>blockName := v_blockName v\<rparr>],
         u @ map (\<lambda>v. block\<lparr>blockName := v_blockName v\<rparr>)
               (takeWhile (\<lambda>v. \<not> device_variant_supported features2 properties2
                                    formatProperties2 exts v) vs)))"
  by (induction vs arbitrary: u) (simp_all add: device_variant_iff split: option.splits)

lemma find_None_iff_none: "(find P xs = None) = (\<not> (\<exists>x\<in>set xs. P x))"
  by (induction xs) auto

lemma find_Some_holds: "find P xs = Some x \<Longrightarrow> x \<in> set xs \<and> P x"
  by (induction xs) (auto split: if_splits)

lemma device_variants_supported:
  "fst (device_variants features2 properties2 formatProperties2 exts block vs (sb, s, u)) =
   (sb \<or> (\<exists>v\<in>set vs. device_variant_supported features2 properties2 formatProperties2 exts v))"
proof (cases "find (device_variant_supported features2 properties2 formatProperties2 exts) vs")
  case None
  then have "\<not> (\<exists>v\<in>set vs. device_variant_supported features2 properties2 formatProperties2 exts v)"
    by (simp add: find_None_iff_none)
  with None show ?thesis unfolding device_variants_result by simp
next
  case (Some v)
  from find_Some_holds [OF Some]
  have "\<exists>v\<in>set vs. device_variant_supported features2 properties2 formatProperties2 exts v"
    by blast
  with Some show ?thesis unfolding device_variants_result by simp
qed

lemma device_capabilities_supported:
  "fst (device_capabilities features2 properties2 formatProperties2 exts block caps (sp, s, u)) =
   (sp \<and> (\<forall>c\<in>set caps. \<exists>v\<in>set (pVariants c).
             device_variant_supported features2 properties2 formatProperties2 exts v))"
proof (induction caps arbitrary: sp s u)
  case Nil
  then show ?case by simp
next
  case (Cons c caps)
  obtain sb s' u' where dv: "device_variants features2 properties2 formatProperties2 exts block
      (pVariants c) (False, s, u) = (sb, s', u')"
    by (cases "device_variants features2 properties2 formatProperties2 exts block
      (pVariants c) (False, s, u)") auto
  from device_variants_supported [of features2 properties2 formatProperties2 exts block
      "pVariants c" False s u] dv
  have sb: "sb = (\<exists>v\<in>set (pVariants c).
             device_variant_supported features2 properties2 formatProperties2 exts v)"
    by simp
  show ?case by (simp add: dv Cons.IH) (auto simp: sb)
qed

lemma device_profiles_supported:
  "\<forall>g\<in>set gs. vpGetProfileDesc ps (profileName g) \<noteq> None \<Longrightarrow>
   \<exists>s' u'. device_profiles ps features2 properties2 formatProperties2 exts gs (ok, s, u) =
     Some (ok \<and> (\<forall>g\<in>set gs. \<forall>d. vpGetProfileDesc ps (profileName g) = Some d \<longrightarrow>
               device_gates properties2 d g \<and>
               (\<forall>c\<in>set (pRequiredCapabilities d). \<exists>v\<in>set (pVariants c).
                  device_variant_supported features2 properties2 formatProperties2 exts v)),
           s', u')"
proof (induction gs arbitrary: ok s u)
  case Nil
  then show ?case by simp
next
  case (Cons g gs)
  from Cons.prems obtain d where d: "vpGetProfileDesc ps (profileName g) = Some d" by auto
  from Cons.prems have rest: "\<forall>g\<in>set gs. vpGetProfileDesc ps (profileName g) \<noteq> None" by simp
  define block where "block = \<lparr>profiles = g, apiVersion = minApiVersion d, blockName = ''''\<rparr>"
  define sp1 where "sp1 = device_gates properties2 d g"
  obtain sp s1 u1 where dc: "device_capabilities features2 properties2 formatProperties2 exts block
      (pRequiredCapabilities d) (sp1, s, u) = (sp, s1, u1)"
    by (cases "device_capabilities features2 properties2 formatProperties2 exts block
      (pRequiredCapabilities d) (sp1, s, u)") auto
  from device_capabilities_supported [of features2 properties2 formatProperties2 exts block
      "pRequiredCapabilities d" sp1 s u] dc
  have sp: "sp = (sp1 \<and> (\<forall>c\<in>set (pRequiredCapabilities d). \<exists>v\<in>set (pVariants c).
             device_variant_supported features2 properties2 formatProperties2 exts v))"
    by simp
  have gates: "(if \<not> vpCheckVersion
                 (properties2 VK_STRUCTURE_TYPE_PHYSICAL_DEVICE_PROPERTIES_2_KHR (\<lambda>_. 0)
                    properties_apiVersion) (minApiVersion d)
               then False else \<not> specVersion (props d) < specVersion g) = sp1"
    by (auto simp: sp1_def device_gates_def)
  from Cons.IH [OF rest, of "ok \<and> sp" s1 u1]
  obtain s' u' where run: "device_profiles ps features2 properties2 formatProperties2 exts gs
      (ok \<and> sp, s1, u1) =
     Some ((ok \<and> sp) \<and> (\<forall>g\<in>set gs. \<forall>d. vpGetProfileDesc ps (profileName g) = Some d \<longrightarrow>
               device_gates properties2 d g \<and>
               (\<forall>c\<in>set (pRequiredCapabilities d). \<exists>v\<in>set (pVariants c).
                  device_variant_supported features2 properties2 formatProperties2 exts v)),
           s', u')"
    by blast
  have step: "device_profiles ps features2 properties2 formatProperties2 exts (g # gs) (ok, s, u) =
      device_profiles ps features2 properties2 formatProperties2 exts gs (ok \<and> sp, s1, u1)"
    using dc by (simp add: d Let_def gates block_def [symmetric])
  show ?case unfolding step run by (rule exI [of _ s'], rule exI [of _ u']) (auto simp: d sp sp1_def)
qed

lemma vpGetPhysicalDeviceProfileVariantsSupport_supported:
  assumes count1: "vkEnumerateDeviceExtensionProperties vp None = (VK_SUCCESS, count1, w1)"
    and count2: "vkEnumerateDeviceExtensionProperties vp (if count1 > 0 then Some count1 else None) =
                   (VK_SUCCESS, count2, written)"
    and exts: "exts = (if count2 > 0 then resized count2 (resized count1 written)
                       else resized count1 written)"
    and entry: "pfnGetPhysicalDeviceFeatures2 vp = Some features2"
      "pfnGetPhysicalDeviceProperties2 vp = Some properties2"
      "pfnGetPhysicalDeviceFormatProperties2 vp = Some formatProperties2"
      "pfnGetPhysicalDeviceQueueFamilyProperties2 vp = Some queueFamilyProperties2"
    and known: "\<forall>g\<in>set (GatherProfiles ps pProfile None).
                  vpGetProfileDesc ps (profileName g) \<noteq> None"
  shows "case vpGetPhysicalDeviceProfileVariantsSupport ps vp pProfile supported_in pPropertyCount
                pProperties of
           Inl e \<Rightarrow> pProperties \<noteq> None
         | Inr (result, supported, n, array) \<Rightarrow>
             result = VK_SUCCESS \<and>
             supported =
               (if \<forall>g\<in>set (GatherProfiles ps pProfile None).
                     \<forall>d. vpGetProfileDesc ps (profileName g) = Some d \<longrightarrow>
                       device_gates properties2 d g \<and>
                       device_capabilities_supported features2 properties2 formatProperties2 exts d
                then VK_TRUE else VK_FALSE)"
proof -
  have "pProfile \<in> set (GatherProfiles ps pProfile None)" by (simp add: GatherProfiles_def)
  with known obtain pProfileDesc where desc: "vpGetProfileDesc ps (profileName pProfile) = Some pProfileDesc"
    by auto
  from device_profiles_supported [OF known, of features2 properties2 formatProperties2 exts True "[]" "[]"]
  obtain s' u' where run: "device_profiles ps features2 properties2 formatProperties2 exts
        (GatherProfiles ps pProfile None) (True, [], []) =
     Some (True \<and> (\<forall>g\<in>set (GatherProfiles ps pProfile None).
               \<forall>d. vpGetProfileDesc ps (profileName g) = Some d \<longrightarrow>
               device_gates properties2 d g \<and>
               (\<forall>c\<in>set (pRequiredCapabilities d). \<exists>v\<in>set (pVariants c).
                  device_variant_supported features2 properties2 formatProperties2 exts v)),
           s', u')"
    by blast
  show ?thesis
    unfolding vpGetPhysicalDeviceProfileVariantsSupport_def device_capabilities_supported_def
    by (simp add: count1 count2 exts [symmetric] entry desc run Let_def
          split: option.splits sum.splits)
qed

subsection \<open>Instance level\<close>

lemma instance_variant_extensions_result:
  "instance_variant_extensions exts block v es (sv, u) =
   ((if \<forall>e\<in>set es. enumerated exts (extensionName e) then sv else VK_FALSE),
    u @ map (\<lambda>e. block\<lparr>blockName := v_blockName v\<rparr>)
          (filter (\<lambda>e. \<not> enumerated exts (extensionName e)) es))"
  by (induction es arbitrary: sv u) (auto simp: CheckExtension_enumerated)

lemma instance_variants_result:
  "instance_variants exts block vs (sc, s, u) =
   ((if \<exists>v\<in>set vs. instance_variant_supported exts v then VK_TRUE else sc),
    s @ map (\<lambda>v. block\<lparr>blockName := v_blockName v\<rparr>)
          (filter (instance_variant_supported exts) vs),
    u @ concat (map (\<lambda>v. map (\<lambda>e. block\<lparr>blockName := v_blockName v\<rparr>)
                            (filter (\<lambda>e. \<not> enumerated exts (extensionName e))
                               (pInstanceExtensions v))) vs))"
proof (induction vs arbitrary: sc s u)
  case Nil
  then show ?case by simp
next
  case (Cons v vs)
  show ?case
    by (simp add: instance_variant_extensions_result Cons.IH
          instance_variant_supported_def [symmetric])
qed

lemma instance_capabilities_result:
  "\<exists>xs ys. instance_capabilities exts block caps st =
     st\<lparr>pSupported :=
          (if \<forall>c\<in>set caps. \<exists>v\<in>set (pVariants c). instance_variant_supported exts v
           then pSupported st else VK_FALSE),
        supportedBlocks := supportedBlocks st @ xs,
        unsupportedBlocks := unsupportedBlocks st @ ys\<rparr>"
proof (induction caps arbitrary: st)
  case Nil
  show ?case by (intro exI [of _ "[]"]) simp
next
  case (Cons c caps)
  define xs where "xs = map (\<lambda>v. block\<lparr>blockName := v_blockName v\<rparr>)
          (filter (instance_variant_supported exts) (pVariants c))"
  define ys where "ys = concat (map (\<lambda>v. map (\<lambda>e. block\<lparr>blockName := v_blockName v\<rparr>)
                            (filter (\<lambda>e. \<not> enumerated exts (extensionName e))
                               (pInstanceExtensions v))) (pVariants c))"
  have iv: "instance_variants exts block (pVariants c)
             (VK_FALSE, supportedBlocks st, unsupportedBlocks st) =
     ((if \<exists>v\<in>set (pVariants c). instance_variant_supported exts v then VK_TRUE else VK_FALSE),
      supportedBlocks st @ xs, unsupportedBlocks st @ ys)"
    by (simp add: instance_variants_result xs_def ys_def)
  show ?case
  proof (cases "\<exists>v\<in>set (pVariants c). instance_variant_supported exts v")
    case False
    show ?thesis
      by (rule exI [of _ xs], rule exI [of _ ys]) (use False in \<open>simp add: iv\<close>)
  next
    case True
    define st1 where "st1 = st\<lparr>supportedBlocks := supportedBlocks st @ xs,
                                unsupportedBlocks := unsupportedBlocks st @ ys\<rparr>"
    from Cons.IH [of st1] obtain xs' ys'
      where rest: "instance_capabilities exts block caps st1 =
        st1\<lparr>pSupported :=
          (if \<forall>c\<in>set caps. \<exists>v\<in>set (pVariants c). instance_variant_supported exts v
           then pSupported st1 else VK_FALSE),
        supportedBlocks := supportedBlocks st1 @ xs',
        unsupportedBlocks := unsupportedBlocks st1 @ ys'\<rparr>"
      by blast
    have step: "instance_capabilities exts block (c # caps) st =
        instance_capabilities exts block caps st1"
      using True by (simp add: iv st1_def)
    show ?thesis
      unfolding step rest
      by (rule exI [of _ "xs @ xs'"], rule exI [of _ "ys @ ys'"])
         (use True in \<open>auto simp: st1_def\<close>)
  qed
qed

lemma vpGetInstanceProfileSupportSingleProfile_result:
  assumes desc: "vpGetProfileDesc ps (profileName g) = Some d"
  shows "\<exists>xs ys. vpGetInstanceProfileSupportSingleProfile ps api_version exts g st =
     (VK_SUCCESS,
      st\<lparr>pSupported :=
           (if instance_gates api_version d g \<and>
               (\<forall>c\<in>set (pRequiredCapabilities d). \<exists>v\<in>set (pVariants c).
                  instance_variant_supported exts v)
            then pSupported st else VK_FALSE),
         supportedBlocks := supportedBlocks st @ xs,
         unsupportedBlocks := unsupportedBlocks st @
           (if specVersion (props d) < specVersion g
            then [\<lparr>profiles = g, apiVersion = api_version, blockName = ''''\<rparr>] else []) @
           (if api_version \<noteq> 0 \<and> \<not> vpCheckVersion api_version (minApiVersion d)
            then [\<lparr>profiles = g, apiVersion = api_version, blockName = ''''\<rparr>] else []) @ ys\<rparr>)"
proof -
  define block where "block = \<lparr>profiles = g, apiVersion = api_version, blockName = ''''\<rparr>"
  define st1 where "st1 = (if specVersion (props d) < specVersion g
                     then st\<lparr>pSupported := VK_FALSE,
                             unsupportedBlocks := unsupportedBlocks st @ [block]\<rparr>
                     else st)"
  define st2 where "st2 = (if api_version \<noteq> 0 \<and> \<not> vpCheckVersion api_version (minApiVersion d)
                     then st1\<lparr>pSupported := VK_FALSE,
                              unsupportedBlocks := unsupportedBlocks st1 @ [block]\<rparr>
                     else st1)"
  have run: "vpGetInstanceProfileSupportSingleProfile ps api_version exts g st =
      (VK_SUCCESS, instance_capabilities exts block (pRequiredCapabilities d) st2)"
    by (simp add: vpGetInstanceProfileSupportSingleProfile_def desc Let_def
          block_def st1_def st2_def)
  from instance_capabilities_result [of exts block "pRequiredCapabilities d" st2]
  obtain xs ys where caps: "instance_capabilities exts block (pRequiredCapabilities d) st2 =
     st2\<lparr>pSupported :=
          (if \<forall>c\<in>set (pRequiredCapabilities d). \<exists>v\<in>set (pVariants c).
                instance_variant_supported exts v
           then pSupported st2 else VK_FALSE),
        supportedBlocks := supportedBlocks st2 @ xs,
        unsupportedBlocks := unsupportedBlocks st2 @ ys\<rparr>"
    by blast
  show ?thesis
    unfolding run caps
    by (rule exI [of _ xs], rule exI [of _ ys])
       (auto simp: st2_def st1_def instance_gates_def block_def not_less)
qed

lemma instance_required_profiles_result:
  "\<forall>r\<in>set rs. vpGetProfileDesc ps (profileName r) \<noteq> None \<Longrightarrow>
   \<exists>xs ys. instance_required_profiles ps exts rs st =
     (VK_SUCCESS,
      st\<lparr>pSupported :=
           (if \<forall>r\<in>set rs. \<forall>d. vpGetProfileDesc ps (profileName r) = Some d \<longrightarrow>
                 instance_gates 0 d r \<and> instance_capabilities_supported exts d
            then pSupported st else VK_FALSE),
         supportedBlocks := supportedBlocks st @ xs,
         unsupportedBlocks := unsupportedBlocks st @ ys\<rparr>)"
proof (induction rs arbitrary: st)
  case Nil
  show ?case by (rule exI [of _ "[]"], rule exI [of _ "[]"]) simp
next
  case (Cons r rs)
  from Cons.prems obtain d where d: "vpGetProfileDesc ps (profileName r) = Some d" by auto
  from Cons.prems have rest: "\<forall>r\<in>set rs. vpGetProfileDesc ps (profileName r) \<noteq> None" by simp
  from vpGetInstanceProfileSupportSingleProfile_result [OF d, of 0 exts st]
  obtain xs ys0 where single: "vpGetInstanceProfileSupportSingleProfile ps 0 exts r st =
     (VK_SUCCESS,
      st\<lparr>pSupported :=
           (if instance_gates 0 d r \<and> instance_capabilities_supported exts d
            then pSupported st else VK_FALSE),
         supportedBlocks := supportedBlocks st @ xs,
         unsupportedBlocks := unsupportedBlocks st @
           (if specVersion (props d) < specVersion r
            then [\<lparr>profiles = r, apiVersion = 0, blockName = ''''\<rparr>] else []) @ ys0\<rparr>)"
    unfolding instance_capabilities_supported_def by auto
  define ys where "ys = (if specVersion (props d) < specVersion r
            then [\<lparr>profiles = r, apiVersion = 0, blockName = ''''\<rparr>] else []) @ ys0"
  define st1 where "st1 = st\<lparr>pSupported :=
           (if instance_gates 0 d r \<and> instance_capabilities_supported exts d
            then pSupported st else VK_FALSE),
         supportedBlocks := supportedBlocks st @ xs,
         unsupportedBlocks := unsupportedBlocks st @ ys\<rparr>"
  from single have single': "vpGetInstanceProfileSupportSingleProfile ps 0 exts r st =
     (VK_SUCCESS, st1)"
    by (simp add: st1_def ys_def)
  from Cons.IH [OF rest, of st1] obtain xs' ys'
    where run: "instance_required_profiles ps exts rs st1 =
     (VK_SUCCESS,
      st1\<lparr>pSupported :=
           (if \<forall>r\<in>set rs. \<forall>d. vpGetProfileDesc ps (profileName r) = Some d \<longrightarrow>
                 instance_gates 0 d r \<and> instance_capabilities_supported exts d
            then pSupported st1 else VK_FALSE),
         supportedBlocks := supportedBlocks st1 @ xs',
         unsupportedBlocks := unsupportedBlocks st1 @ ys'\<rparr>)"
    by blast
  have step: "instance_required_profiles ps exts (r # rs) st =
      instance_required_profiles ps exts rs st1"
    by (simp add: single')
  show ?case
    unfolding step run
    by (rule exI [of _ "xs @ xs'"], rule exI [of _ "ys @ ys'"]) (auto simp: st1_def d)
qed

lemma vpGetInstanceProfileVariantsSupport_supported:
  assumes version: "(case pfnEnumerateInstanceVersion vp of
                       None \<Rightarrow> (VK_SUCCESS, VK_API_VERSION_1_0)
                     | Some rv \<Rightarrow> rv) = (VK_SUCCESS, api_version)"
    and count1: "vkEnumerateInstanceExtensionProperties vp None = (VK_SUCCESS, count1, w1)"
    and count2: "vkEnumerateInstanceExtensionProperties vp (if count1 > 0 then Some count1 else None) =
                   (VK_SUCCESS, count2, written)"
    and exts: "exts = resized count1 written"
    and desc: "vpGetProfileDesc ps (profileName pProfile) = Some d"
    and known: "\<forall>r\<in>set (pRequiredProfiles d). vpGetProfileDesc ps (profileName r) \<noteq> None"
  shows "case vpGetInstanceProfileVariantsSupport ps vp pProfile supported_in pPropertyCount
                pProperties of
           Inl e \<Rightarrow> pProperties \<noteq> None
         | Inr (result, supported, n, array) \<Rightarrow>
             (result = VK_SUCCESS \<or> result = VK_INCOMPLETE \<and> pProperties \<noteq> None) \<and>
             supported =
               (if (VK_API_VERSION_1_1 \<le> api_version \<or>
                    enumerated exts VK_KHR_GET_PHYSICAL_DEVICE_PROPERTIES_2_EXTENSION_NAME) \<and>
                   instance_gates api_version d pProfile \<and>
                   instance_capabilities_supported exts d \<and>
                   (\<forall>r\<in>set (pRequiredProfiles d).
                      \<forall>d'. vpGetProfileDesc ps (profileName r) = Some d' \<longrightarrow>
                        instance_gates 0 d' r \<and> instance_capabilities_supported exts d')
                then VK_TRUE else VK_FALSE)"
proof -
  define supported where "supported =
           (if api_version < VK_API_VERSION_1_1 \<and>
               \<not> CheckExtension exts VK_KHR_GET_PHYSICAL_DEVICE_PROPERTIES_2_EXTENSION_NAME
            then VK_FALSE else VK_TRUE)"
  define st0 where "st0 = \<lparr>pSupported = supported, supportedBlocks = [], unsupportedBlocks = []\<rparr>"
  from vpGetInstanceProfileSupportSingleProfile_result [OF desc, of api_version exts st0]
  obtain xs ys where single: "vpGetInstanceProfileSupportSingleProfile ps api_version exts pProfile st0 =
     (VK_SUCCESS,
      st0\<lparr>pSupported :=
           (if instance_gates api_version d pProfile \<and> instance_capabilities_supported exts d
            then pSupported st0 else VK_FALSE),
         supportedBlocks := supportedBlocks st0 @ xs,
         unsupportedBlocks := unsupportedBlocks st0 @ ys\<rparr>)"
    unfolding instance_capabilities_supported_def by blast
  define st1 where "st1 = st0\<lparr>pSupported :=
           (if instance_gates api_version d pProfile \<and> instance_capabilities_supported exts d
            then pSupported st0 else VK_FALSE),
         supportedBlocks := supportedBlocks st0 @ xs,
         unsupportedBlocks := unsupportedBlocks st0 @ ys\<rparr>"
  from instance_required_profiles_result [OF known, of exts st1]
  obtain xs' ys' where required: "instance_required_profiles ps exts (pRequiredProfiles d) st1 =
     (VK_SUCCESS,
      st1\<lparr>pSupported :=
           (if \<forall>r\<in>set (pRequiredProfiles d).
                 \<forall>d'. vpGetProfileDesc ps (profileName r) = Some d' \<longrightarrow>
                 instance_gates 0 d' r \<and> instance_capabilities_supported exts d'
            then pSupported st1 else VK_FALSE),
         supportedBlocks := supportedBlocks st1 @ xs',
         unsupportedBlocks := unsupportedBlocks st1 @ ys'\<rparr>)"
    by blast
  have guard: "(supported = VK_TRUE) =
      (VK_API_VERSION_1_1 \<le> api_version \<or>
       enumerated exts VK_KHR_GET_PHYSICAL_DEVICE_PROPERTIES_2_EXTENSION_NAME)"
    by (auto simp: supported_def CheckExtension_enumerated not_less)
  have two: "supported = VK_TRUE \<or> supported = VK_FALSE" by (simp add: supported_def)
  show ?thesis
    unfolding vpGetInstanceProfileVariantsSupport_def
    using guard two
    by (simp add: version count1 count2 exts [symmetric] desc Let_def
          supported_def [symmetric] st0_def [symmetric] single st1_def [symmetric] required
          split: option.splits sum.splits)
       (auto simp: st1_def st0_def)
qed


subsection \<open>What the queries report\<close>

lemma example_profile_desc:
  "vpGetProfileDesc example_profiles (profileName example_profile) = Some (hd example_profiles)"
  by (simp add: vpGetProfileDesc_def example_profiles_def example_profile_def)

lemma example_gathered:
  "GatherProfiles example_profiles example_profile None = [example_profile]"
  by (simp add: GatherProfiles_def vpGetProfileDesc_def example_profiles_def example_profile_def)

lemma example_required: "pRequiredProfiles (hd example_profiles) = []"
  by (simp add: example_profiles_def)

lemma example_instance_calls:
  "(case pfnEnumerateInstanceVersion (example_instance names) of
      None \<Rightarrow> (VK_SUCCESS, VK_API_VERSION_1_0)
    | Some rv \<Rightarrow> rv) = (VK_SUCCESS, VK_API_VERSION_1_0)"
  "vkEnumerateInstanceExtensionProperties (example_instance names) None =
     (VK_SUCCESS, length names, [])"
  "vkEnumerateInstanceExtensionProperties (example_instance names)
     (if length names > 0 then Some (length names) else None) =
     (VK_SUCCESS, length names,
      if length names > 0
      then map (\<lambda>name. \<lparr>extensionName = name, ext_specVersion = 1\<rparr>) names else [])"
  by (simp_all add: example_instance_def enumerate_extensions_def)

lemma example_instance_extensions:
  "resized (length names)
     (if length names > 0
      then map (\<lambda>name. \<lparr>extensionName = name, ext_specVersion = 1\<rparr>) names else []) =
   map (\<lambda>name. \<lparr>extensionName = name, ext_specVersion = 1\<rparr>) names"
  by (simp add: resized_def)

lemma example_device_calls:
  "vkEnumerateDeviceExtensionProperties example_device None = (VK_SUCCESS, 1, [])"
  "vkEnumerateDeviceExtensionProperties example_device (if (1::nat) > 0 then Some 1 else None) =
     (VK_SUCCESS, 1, [\<lparr>extensionName = ''VK_KHR_push_descriptor'', ext_specVersion = 2\<rparr>])"
  by (simp_all add: example_device_def enumerate_extensions_def)

lemma example_device_extensions:
  "(if (1::nat) > 0
    then resized 1 (resized 1 [\<lparr>extensionName = ''VK_KHR_push_descriptor'', ext_specVersion = 2\<rparr>])
    else resized 1 [\<lparr>extensionName = ''VK_KHR_push_descriptor'', ext_specVersion = 2\<rparr>]) =
   [\<lparr>extensionName = ''VK_KHR_push_descriptor'', ext_specVersion = 2\<rparr>]"
  by (simp add: resized_def)

lemma example_versions:
  "VK_API_VERSION_1_0 < VK_API_VERSION_1_1"
  "VK_API_VERSION_1_0 \<noteq> 0"
  "vpCheckVersion VK_API_VERSION_1_0 VK_API_VERSION_1_0"
  "vpCheckVersion VK_API_VERSION_1_1 VK_API_VERSION_1_0"
  "\<not> vpCheckVersion VK_API_VERSION_1_0 VK_API_VERSION_1_1"
  by (simp_all add: VK_API_VERSION_1_0_def VK_API_VERSION_1_1_def VK_MAKE_API_VERSION_def
        vpCheckVersion_def VK_API_VERSION_MAJOR_def VK_API_VERSION_MINOR_def Let_def)

lemma example_instance_answers:
  "instance_query_answers (example_instance names) VK_API_VERSION_1_0
     (map (\<lambda>name. \<lparr>extensionName = name, ext_specVersion = 1\<rparr>) names)"
  unfolding instance_query_answers_def
  using example_instance_calls [of names] example_instance_extensions [of names]
  by (intro exI [of _ "length names"]) auto

lemma example_device_answers:
  "device_query_answers example_device
     [\<lparr>extensionName = ''VK_KHR_push_descriptor'', ext_specVersion = 2\<rparr>]
     (\<lambda>t p. if t = VK_STRUCTURE_TYPE_PHYSICAL_DEVICE_TIMELINE_SEMAPHORE_FEATURES
             then p(timelineSemaphore := VK_TRUE) else p)
     (\<lambda>t p. if t = VK_STRUCTURE_TYPE_PHYSICAL_DEVICE_PROPERTIES_2_KHR
             then p(properties_apiVersion := VK_API_VERSION_1_1) else p)
     (\<lambda>f t p. p)"
  unfolding device_query_answers_def
  using example_device_calls example_device_extensions
  by (intro exI [of _ 1]) (auto simp: example_device_def)

text \<open>
  Claim C1, as the code has it.  In the device query a variant is supported exactly
  when each of its device extensions is enumerated and each comparator accepts each
  structure of its chains, a capability set exactly when one of its variants is, and
  when the foreign calls answer and the gathered profiles are in the table the query
  returns \<^verbatim>\<open>VK_SUCCESS\<close> with \<open>pSupported\<close> true exactly when every gathered profile
  passes the version gates and has all its required capability sets supported.  In the
  instance query a variant is supported exactly when each of its instance extensions
  is enumerated (no comparator is called), a capability set exactly when one of its
  variants is, and \<open>pSupported\<close> is true exactly when the profile and the profiles it
  requires pass the version gates and have all their required capability sets
  supported and, in addition, the instance version is at least 1.1 or
  \<^verbatim>\<open>VK_KHR_get_physical_device_properties2\<close> is enumerated.
\<close>

theorem support_queries_report:
  "device_variant query_features query_properties query_formats dexts v =
     device_variant_supported query_features query_properties query_formats dexts v \<and>
   fst (device_variants query_features query_properties query_formats dexts block vs (False, s, u)) =
     (\<exists>v\<in>set vs. device_variant_supported query_features query_properties query_formats dexts v) \<and>
   (device_query_answers dvp dexts query_features query_properties query_formats \<and>
    (\<forall>g\<in>set (GatherProfiles ps pProfile None). vpGetProfileDesc ps (profileName g) \<noteq> None) \<longrightarrow>
    (case vpGetPhysicalDeviceProfileVariantsSupport ps dvp pProfile supported_in pPropertyCount
            pProperties of
       Inl e \<Rightarrow> pProperties \<noteq> None
     | Inr (result, supported, n, array) \<Rightarrow>
         result = VK_SUCCESS \<and>
         supported =
           (if \<forall>g\<in>set (GatherProfiles ps pProfile None).
                 \<forall>d. vpGetProfileDesc ps (profileName g) = Some d \<longrightarrow>
                   device_gates query_properties d g \<and>
                   device_capabilities_supported query_features query_properties query_formats dexts d
            then VK_TRUE else VK_FALSE))) \<and>
   (fst (instance_variant_extensions iexts block v (pInstanceExtensions v) (VK_TRUE, u)) = VK_TRUE) =
     instance_variant_supported iexts v \<and>
   (fst (instance_variants iexts block vs (VK_FALSE, s, u)) = VK_TRUE) =
     (\<exists>v\<in>set vs. instance_variant_supported iexts v) \<and>
   (instance_query_answers ivp api_version iexts \<and>
    vpGetProfileDesc ps (profileName pProfile) = Some d \<and>
    (\<forall>r\<in>set (pRequiredProfiles d). vpGetProfileDesc ps (profileName r) \<noteq> None) \<longrightarrow>
    (case vpGetInstanceProfileVariantsSupport ps ivp pProfile supported_in pPropertyCount
            pProperties of
       Inl e \<Rightarrow> pProperties \<noteq> None
     | Inr (result, supported, n, array) \<Rightarrow>
         (result = VK_SUCCESS \<or> result = VK_INCOMPLETE \<and> pProperties \<noteq> None) \<and>
         supported =
           (if (VK_API_VERSION_1_1 \<le> api_version \<or>
                enumerated iexts VK_KHR_GET_PHYSICAL_DEVICE_PROPERTIES_2_EXTENSION_NAME) \<and>
               instance_gates api_version d pProfile \<and>
               instance_capabilities_supported iexts d \<and>
               (\<forall>r\<in>set (pRequiredProfiles d).
                  \<forall>d'. vpGetProfileDesc ps (profileName r) = Some d' \<longrightarrow>
                    instance_gates 0 d' r \<and> instance_capabilities_supported iexts d')
            then VK_TRUE else VK_FALSE)))"
proof -
  have device: "case vpGetPhysicalDeviceProfileVariantsSupport ps dvp pProfile supported_in
            pPropertyCount pProperties of
       Inl e \<Rightarrow> pProperties \<noteq> None
     | Inr (result, supported, n, array) \<Rightarrow>
         result = VK_SUCCESS \<and>
         supported =
           (if \<forall>g\<in>set (GatherProfiles ps pProfile None).
                 \<forall>d. vpGetProfileDesc ps (profileName g) = Some d \<longrightarrow>
                   device_gates query_properties d g \<and>
                   device_capabilities_supported query_features query_properties query_formats dexts d
            then VK_TRUE else VK_FALSE)"
    if answers: "device_query_answers dvp dexts query_features query_properties query_formats"
      and known: "\<forall>g\<in>set (GatherProfiles ps pProfile None).
                    vpGetProfileDesc ps (profileName g) \<noteq> None"
  proof -
    from answers obtain count1 w1 count2 written q
      where "vkEnumerateDeviceExtensionProperties dvp None = (VK_SUCCESS, count1, w1)"
        "vkEnumerateDeviceExtensionProperties dvp (if count1 > 0 then Some count1 else None) =
          (VK_SUCCESS, count2, written)"
        "dexts = (if count2 > 0 then resized count2 (resized count1 written)
                else resized count1 written)"
        "pfnGetPhysicalDeviceFeatures2 dvp = Some query_features"
        "pfnGetPhysicalDeviceProperties2 dvp = Some query_properties"
        "pfnGetPhysicalDeviceFormatProperties2 dvp = Some query_formats"
        "pfnGetPhysicalDeviceQueueFamilyProperties2 dvp = Some q"
      unfolding device_query_answers_def by auto
    from this known show ?thesis
      by (rule vpGetPhysicalDeviceProfileVariantsSupport_supported)
  qed
  have inst: "case vpGetInstanceProfileVariantsSupport ps ivp pProfile supported_in pPropertyCount
            pProperties of
       Inl e \<Rightarrow> pProperties \<noteq> None
     | Inr (result, supported, n, array) \<Rightarrow>
         (result = VK_SUCCESS \<or> result = VK_INCOMPLETE \<and> pProperties \<noteq> None) \<and>
         supported =
           (if (VK_API_VERSION_1_1 \<le> api_version \<or>
                enumerated iexts VK_KHR_GET_PHYSICAL_DEVICE_PROPERTIES_2_EXTENSION_NAME) \<and>
               instance_gates api_version d pProfile \<and>
               instance_capabilities_supported iexts d \<and>
               (\<forall>r\<in>set (pRequiredProfiles d).
                  \<forall>d'. vpGetProfileDesc ps (profileName r) = Some d' \<longrightarrow>
                    instance_gates 0 d' r \<and> instance_capabilities_supported iexts d')
            then VK_TRUE else VK_FALSE)"
    if answers: "instance_query_answers ivp api_version iexts"
      and desc: "vpGetProfileDesc ps (profileName pProfile) = Some d"
      and known: "\<forall>r\<in>set (pRequiredProfiles d). vpGetProfileDesc ps (profileName r) \<noteq> None"
  proof -
    from answers obtain count1 w1 count2 written
      where "(case pfnEnumerateInstanceVersion ivp of
           None \<Rightarrow> (VK_SUCCESS, VK_API_VERSION_1_0)
         | Some rv \<Rightarrow> rv) = (VK_SUCCESS, api_version)"
        "vkEnumerateInstanceExtensionProperties ivp None = (VK_SUCCESS, count1, w1)"
        "vkEnumerateInstanceExtensionProperties ivp (if count1 > 0 then Some count1 else None) =
          (VK_SUCCESS, count2, written)"
        "iexts = resized count1 written"
      unfolding instance_query_answers_def by auto
    from this desc known show ?thesis
      by (rule vpGetInstanceProfileVariantsSupport_supported)
  qed
  have iv: "(fst (instance_variant_extensions iexts block v (pInstanceExtensions v) (VK_TRUE, u)) =
      VK_TRUE) = instance_variant_supported iexts v"
    by (simp add: instance_variant_extensions_result instance_variant_supported_def)
  have ic: "(fst (instance_variants iexts block vs (VK_FALSE, s, u)) = VK_TRUE) =
     (\<exists>v\<in>set vs. instance_variant_supported iexts v)"
    by (simp add: instance_variants_result)
  from device inst iv ic device_variant_iff [of query_features query_properties query_formats dexts v]
    device_variants_supported [of query_features query_properties query_formats dexts block vs False s u]
  show ?thesis by blast
qed

lemma example_device_supported:
  "\<forall>g\<in>set (GatherProfiles example_profiles example_profile None).
     \<forall>d. vpGetProfileDesc example_profiles (profileName g) = Some d \<longrightarrow>
       device_gates
         (\<lambda>t p. if t = VK_STRUCTURE_TYPE_PHYSICAL_DEVICE_PROPERTIES_2_KHR
                 then p(properties_apiVersion := VK_API_VERSION_1_1) else p) d g \<and>
       device_capabilities_supported
         (\<lambda>t p. if t = VK_STRUCTURE_TYPE_PHYSICAL_DEVICE_TIMELINE_SEMAPHORE_FEATURES
                 then p(timelineSemaphore := VK_TRUE) else p)
         (\<lambda>t p. if t = VK_STRUCTURE_TYPE_PHYSICAL_DEVICE_PROPERTIES_2_KHR
                 then p(properties_apiVersion := VK_API_VERSION_1_1) else p)
         (\<lambda>f t p. p)
         [\<lparr>extensionName = ''VK_KHR_push_descriptor'', ext_specVersion = 2\<rparr>] d"
proof -
  have "device_gates
         (\<lambda>t p. if t = VK_STRUCTURE_TYPE_PHYSICAL_DEVICE_PROPERTIES_2_KHR
                 then p(properties_apiVersion := VK_API_VERSION_1_1) else p)
         (hd example_profiles) example_profile \<and>
       device_capabilities_supported
         (\<lambda>t p. if t = VK_STRUCTURE_TYPE_PHYSICAL_DEVICE_TIMELINE_SEMAPHORE_FEATURES
                 then p(timelineSemaphore := VK_TRUE) else p)
         (\<lambda>t p. if t = VK_STRUCTURE_TYPE_PHYSICAL_DEVICE_PROPERTIES_2_KHR
                 then p(properties_apiVersion := VK_API_VERSION_1_1) else p)
         (\<lambda>f t p. p)
         [\<lparr>extensionName = ''VK_KHR_push_descriptor'', ext_specVersion = 2\<rparr>]
         (hd example_profiles)"
    by (simp add: device_gates_def example_versions
        device_capabilities_supported_def device_variant_supported_def enumerated_def
        example_profiles_def example_variant_def timeline_featureDesc_def example_profile_def)
  then show ?thesis by (simp add: example_gathered example_profile_desc)
qed

lemma example_instance_supported:
  "instance_gates VK_API_VERSION_1_0 (hd example_profiles) example_profile"
  "instance_capabilities_supported
     (map (\<lambda>name. \<lparr>extensionName = name, ext_specVersion = 1\<rparr>)
        (''VK_EXT_debug_utils'' # names)) (hd example_profiles)"
  by (simp_all add: instance_gates_def example_versions
        instance_capabilities_supported_def instance_variant_supported_def enumerated_def
        example_profiles_def example_variant_def example_profile_def)

theorem support_queries_report_witness:
  "(case vpGetPhysicalDeviceProfileVariantsSupport example_profiles example_device example_profile
           VK_FALSE 0 None of
      Inl e \<Rightarrow> False
    | Inr (result, supported, n, array) \<Rightarrow> result = VK_SUCCESS \<and> supported = VK_TRUE) \<and>
   (case vpGetInstanceProfileVariantsSupport example_profiles
           (example_instance [''VK_EXT_debug_utils'', ''VK_KHR_get_physical_device_properties2''])
           example_profile VK_FALSE 0 None of
      Inl e \<Rightarrow> False
    | Inr (result, supported, n, array) \<Rightarrow> result = VK_SUCCESS \<and> supported = VK_TRUE)"
proof -
  let ?names = "[''VK_EXT_debug_utils'', ''VK_KHR_get_physical_device_properties2'']"
  let ?iexts = "map (\<lambda>name. \<lparr>extensionName = name, ext_specVersion = 1\<rparr>) ?names"
  let ?f2 = "\<lambda>t p. if t = VK_STRUCTURE_TYPE_PHYSICAL_DEVICE_TIMELINE_SEMAPHORE_FEATURES
                 then p(timelineSemaphore := VK_TRUE) else p"
  let ?p2 = "\<lambda>t p. if t = VK_STRUCTURE_TYPE_PHYSICAL_DEVICE_PROPERTIES_2_KHR
                 then p(properties_apiVersion := VK_API_VERSION_1_1) else p"
  let ?fp2 = "\<lambda>(f::VkFormat) (t::VkStructureType) (p::nat \<Rightarrow> 32 word). p"
  let ?dexts = "[\<lparr>extensionName = ''VK_KHR_push_descriptor'', ext_specVersion = 2\<rparr>]"
  note report = support_queries_report [where query_features = ?f2 and query_properties = ?p2
      and query_formats = ?fp2 and dexts = ?dexts and dvp = example_device
      and ps = example_profiles and pProfile = example_profile and supported_in = VK_FALSE
      and pPropertyCount = 0 and pProperties = None and iexts = ?iexts
      and ivp = "example_instance ?names" and api_version = VK_API_VERSION_1_0
      and d = "hd example_profiles" and v = "example_variant ''fallback'' [] []"
      and vs = "[]" and block = "example_block ''''" and s = "[]" and u = "[]"]
  have known: "\<forall>g\<in>set (GatherProfiles example_profiles example_profile None).
      vpGetProfileDesc example_profiles (profileName g) \<noteq> None"
    unfolding example_gathered by (simp add: example_profile_desc)
  have gpdp2: "enumerated ?iexts VK_KHR_GET_PHYSICAL_DEVICE_PROPERTIES_2_EXTENSION_NAME"
    by (simp add: enumerated_def VK_KHR_GET_PHYSICAL_DEVICE_PROPERTIES_2_EXTENSION_NAME_def)
  from report example_device_answers known example_device_supported
  have device: "case vpGetPhysicalDeviceProfileVariantsSupport example_profiles example_device
           example_profile VK_FALSE 0 None of
      Inl e \<Rightarrow> False
    | Inr (result, supported, n, array) \<Rightarrow> result = VK_SUCCESS \<and> supported = VK_TRUE"
    by (cases "vpGetPhysicalDeviceProfileVariantsSupport example_profiles example_device
           example_profile VK_FALSE 0 None") auto
  from report example_instance_answers [of ?names] example_profile_desc example_required
    example_instance_supported(1) example_instance_supported(2) [of "[''VK_KHR_get_physical_device_properties2'']"]
    gpdp2
  have inst: "case vpGetInstanceProfileVariantsSupport example_profiles (example_instance ?names)
           example_profile VK_FALSE 0 None of
      Inl e \<Rightarrow> False
    | Inr (result, supported, n, array) \<Rightarrow> result = VK_SUCCESS \<and> supported = VK_TRUE"
    by (cases "vpGetInstanceProfileVariantsSupport example_profiles (example_instance ?names)
           example_profile VK_FALSE 0 None") auto
  from device inst show ?thesis by blast
qed

lemma example_header_table:
  "detail_profiles example_header =
     [\<lparr>props = compute_profile, minApiVersion = VK_MAKE_API_VERSION 0 1 2 0,
       pRequiredProfiles = [],
       pRequiredCapabilities = COMPUTE_capabilities example_header, pFallbacks = []\<rparr>,
      \<lparr>props = compute_debug_profile, minApiVersion = VK_API_VERSION_1_0,
       pRequiredProfiles = [],
       pRequiredCapabilities = COMPUTE_DEBUG_capabilities, pFallbacks = []\<rparr>]"
  by (simp add: detail_profiles_def example_header_def compute_profile_def
        compute_debug_profile_def)

text \<open>
  The claim as stated fails on the instance query, on the generated table with the
  minimum API version of the debug profile at 1.0: on an instance of Vulkan 1.0 that
  enumerates \<^verbatim>\<open>VK_EXT_debug_utils\<close> only, the debug profile passes both version
  gates and its capability set has a supported variant, and \<open>pSupported\<close> is false,
  because \<^verbatim>\<open>VK_KHR_get_physical_device_properties2\<close> is not enumerated.
\<close>

theorem support_gpdp2_counterexample:
  "instance_query_answers (example_instance [''VK_EXT_debug_utils'']) VK_API_VERSION_1_0
     [\<lparr>extensionName = ''VK_EXT_debug_utils'', ext_specVersion = 1\<rparr>] \<and>
   vpGetProfileDesc (detail_profiles example_header) (profileName compute_debug_profile) =
     Some (last (detail_profiles example_header)) \<and>
   pRequiredProfiles (last (detail_profiles example_header)) = [] \<and>
   instance_gates VK_API_VERSION_1_0 (last (detail_profiles example_header))
     compute_debug_profile \<and>
   instance_capabilities_supported
     [\<lparr>extensionName = ''VK_EXT_debug_utils'', ext_specVersion = 1\<rparr>]
     (last (detail_profiles example_header)) \<and>
   vpGetInstanceProfileVariantsSupport (detail_profiles example_header)
     (example_instance [''VK_EXT_debug_utils'']) compute_debug_profile VK_TRUE 0 None =
     Inr (VK_SUCCESS, VK_FALSE, 0, None)"
proof -
  have run: "vpGetInstanceProfileVariantsSupport (detail_profiles example_header)
     (example_instance [''VK_EXT_debug_utils'']) compute_debug_profile VK_TRUE 0 None =
     Inr (VK_SUCCESS, VK_FALSE, 0, None)"
    by code_simp
  have desc: "vpGetProfileDesc (detail_profiles example_header) (profileName compute_debug_profile) =
     Some (last (detail_profiles example_header))"
    unfolding example_header_table
    by (simp add: vpGetProfileDesc_def compute_profile_def compute_debug_profile_def)
  have required: "pRequiredProfiles (last (detail_profiles example_header)) = []"
    unfolding example_header_table by simp
  have gates: "instance_gates VK_API_VERSION_1_0 (last (detail_profiles example_header))
     compute_debug_profile"
    unfolding example_header_table by (simp add: instance_gates_def example_versions)
  have caps: "instance_capabilities_supported
     [\<lparr>extensionName = ''VK_EXT_debug_utils'', ext_specVersion = 1\<rparr>]
     (last (detail_profiles example_header))"
    unfolding example_header_table
    by (simp add: instance_capabilities_supported_def instance_variant_supported_def
          enumerated_def COMPUTE_DEBUG_capabilities_def debug_variants_def
          debug_instanceExtensions_def VK_EXT_DEBUG_UTILS_EXTENSION_NAME_def)
  from example_instance_answers [of "[''VK_EXT_debug_utils'']"] desc required gates caps run
  show ?thesis by simp
qed


subsection \<open>The version gates\<close>

lemma device_capabilities_lists:
  "snd (device_capabilities features2 properties2 formatProperties2 exts block caps (sp, s, u)) =
   snd (device_capabilities features2 properties2 formatProperties2 exts block caps (sp', s, u))"
proof (induction caps arbitrary: sp sp' s u)
  case Nil
  then show ?case by simp
next
  case (Cons c caps)
  obtain sb s1 u1 where dv: "device_variants features2 properties2 formatProperties2 exts block
      (pVariants c) (False, s, u) = (sb, s1, u1)"
    by (cases "device_variants features2 properties2 formatProperties2 exts block
      (pVariants c) (False, s, u)") auto
  show ?case
    using Cons.IH [of "sb \<and> sp" s1 u1 "sb \<and> sp'"] Cons.IH [of False s1 u1 False]
    by (cases sb) (simp_all add: dv)
qed

lemma device_profiles_single:
  assumes desc: "vpGetProfileDesc ps (profileName g) = Some d"
  shows "\<exists>s' u'. device_profiles ps features2 properties2 formatProperties2 exts [g] (ok, s, u) =
           Some (ok \<and> device_gates properties2 d g \<and>
                 device_capabilities_supported features2 properties2 formatProperties2 exts d,
                 s', u') \<and>
           (s', u') =
             snd (device_capabilities features2 properties2 formatProperties2 exts
                    \<lparr>profiles = g, apiVersion = minApiVersion d, blockName = ''''\<rparr>
                    (pRequiredCapabilities d) (True, s, u))"
proof -
  define block where "block = \<lparr>profiles = g, apiVersion = minApiVersion d, blockName = ''''\<rparr>"
  define sp1 where "sp1 = device_gates properties2 d g"
  obtain sp s1 u1 where dc: "device_capabilities features2 properties2 formatProperties2 exts block
      (pRequiredCapabilities d) (sp1, s, u) = (sp, s1, u1)"
    by (cases "device_capabilities features2 properties2 formatProperties2 exts block
      (pRequiredCapabilities d) (sp1, s, u)") auto
  from device_capabilities_supported [of features2 properties2 formatProperties2 exts block
      "pRequiredCapabilities d" sp1 s u] dc
  have sp: "sp = (sp1 \<and> device_capabilities_supported features2 properties2 formatProperties2 exts d)"
    by (simp add: device_capabilities_supported_def)
  from device_capabilities_lists [of features2 properties2 formatProperties2 exts block
      "pRequiredCapabilities d" sp1 s u True] dc
  have lists: "(s1, u1) = snd (device_capabilities features2 properties2 formatProperties2 exts
      block (pRequiredCapabilities d) (True, s, u))"
    by simp
  have gates: "(if \<not> vpCheckVersion
                 (properties2 VK_STRUCTURE_TYPE_PHYSICAL_DEVICE_PROPERTIES_2_KHR (\<lambda>_. 0)
                    properties_apiVersion) (minApiVersion d)
               then False else \<not> specVersion (props d) < specVersion g) = sp1"
    by (auto simp: sp1_def device_gates_def)
  have run: "device_profiles ps features2 properties2 formatProperties2 exts [g] (ok, s, u) =
      Some (ok \<and> sp, s1, u1)"
    using dc by (simp add: desc Let_def gates block_def [symmetric])
  show ?thesis
    unfolding run block_def [symmetric]
    by (rule exI [of _ s1], rule exI [of _ u1]) (use lists in \<open>auto simp: sp sp1_def\<close>)
qed

text \<open>
  Claim C2, as the code has it.  For a profile \<open>g\<close> named by the caller with
  description \<open>d\<close> in the table:
  \<^item> the instance check returns \<^verbatim>\<open>VK_SUCCESS\<close>; it appends one diagnostic block (the
    profile, the API version, an empty block name) to the unsupported blocks if the
    spec version of the table is below the one the caller declares, and one more if
    the API version it is given is not 0 and does not meet the minimum of the profile;
    \<open>pSupported\<close> keeps its value if both gates pass and every required capability
    set is supported, and is \<^verbatim>\<open>VK_FALSE\<close> otherwise;
  \<^item> the device check of one gathered profile clears the support flag if the spec
    version of the table is below the caller's or the API version of the device does
    not meet the minimum, and records no block for a gate: the block lists are those
    that the capability sets alone give.
\<close>

theorem version_gates_mark_unsupported:
  assumes desc: "vpGetProfileDesc ps (profileName g) = Some d"
  shows "(\<exists>xs ys. vpGetInstanceProfileSupportSingleProfile ps api_version iexts g st =
     (VK_SUCCESS,
      st\<lparr>pSupported :=
           (if instance_gates api_version d g \<and> instance_capabilities_supported iexts d
            then pSupported st else VK_FALSE),
         supportedBlocks := supportedBlocks st @ xs,
         unsupportedBlocks := unsupportedBlocks st @
           (if specVersion (props d) < specVersion g
            then [\<lparr>profiles = g, apiVersion = api_version, blockName = ''''\<rparr>] else []) @
           (if api_version \<noteq> 0 \<and> \<not> vpCheckVersion api_version (minApiVersion d)
            then [\<lparr>profiles = g, apiVersion = api_version, blockName = ''''\<rparr>] else []) @ ys\<rparr>)) \<and>
    (\<exists>s' u'. device_profiles ps query_features query_properties query_formats dexts [g] (ok, s, u) =
           Some (ok \<and> device_gates query_properties d g \<and>
                 device_capabilities_supported query_features query_properties query_formats dexts d,
                 s', u') \<and>
           (s', u') =
             snd (device_capabilities query_features query_properties query_formats dexts
                    \<lparr>profiles = g, apiVersion = minApiVersion d, blockName = ''''\<rparr>
                    (pRequiredCapabilities d) (True, s, u)))"
proof -
  from vpGetInstanceProfileSupportSingleProfile_result [OF desc, of api_version iexts st]
  have "\<exists>xs ys. vpGetInstanceProfileSupportSingleProfile ps api_version iexts g st =
     (VK_SUCCESS,
      st\<lparr>pSupported :=
           (if instance_gates api_version d g \<and> instance_capabilities_supported iexts d
            then pSupported st else VK_FALSE),
         supportedBlocks := supportedBlocks st @ xs,
         unsupportedBlocks := unsupportedBlocks st @
           (if specVersion (props d) < specVersion g
            then [\<lparr>profiles = g, apiVersion = api_version, blockName = ''''\<rparr>] else []) @
           (if api_version \<noteq> 0 \<and> \<not> vpCheckVersion api_version (minApiVersion d)
            then [\<lparr>profiles = g, apiVersion = api_version, blockName = ''''\<rparr>] else []) @ ys\<rparr>)"
    unfolding instance_capabilities_supported_def .
  with device_profiles_single [OF desc, of query_features query_properties query_formats dexts ok s u]
  show ?thesis by (rule conjI [rotated])
qed

lemma example_create_desc:
  "vpGetProfileDesc example_create_profiles
     (profileName \<lparr>profileName = ''VP_EXAMPLE_robust'', specVersion = 2\<rparr>) =
   Some (hd example_create_profiles)"
  "specVersion (props (hd example_create_profiles)) = 1"
  "minApiVersion (hd example_create_profiles) = VK_API_VERSION_1_1"
  by (simp_all add: vpGetProfileDesc_def example_create_profiles_def)

theorem version_gates_mark_unsupported_witness:
  "(\<exists>st'. vpGetInstanceProfileSupportSingleProfile example_create_profiles VK_API_VERSION_1_0 []
            \<lparr>profileName = ''VP_EXAMPLE_robust'', specVersion = 2\<rparr>
            \<lparr>pSupported = VK_TRUE, supportedBlocks = [], unsupportedBlocks = []\<rparr> =
          (VK_SUCCESS, st') \<and>
          pSupported st' = VK_FALSE \<and>
          take 2 (unsupportedBlocks st') =
            [\<lparr>profiles = \<lparr>profileName = ''VP_EXAMPLE_robust'', specVersion = 2\<rparr>,
              apiVersion = VK_API_VERSION_1_0, blockName = ''''\<rparr>,
             \<lparr>profiles = \<lparr>profileName = ''VP_EXAMPLE_robust'', specVersion = 2\<rparr>,
              apiVersion = VK_API_VERSION_1_0, blockName = ''''\<rparr>]) \<and>
   (\<exists>s' u'. device_profiles example_create_profiles (\<lambda>t p. p) (\<lambda>t p. p) (\<lambda>f t p. p) []
             [\<lparr>profileName = ''VP_EXAMPLE_robust'', specVersion = 2\<rparr>] (True, [], []) =
           Some (False, s', u'))"
proof -
  let ?g = "\<lparr>profileName = ''VP_EXAMPLE_robust'', specVersion = 2\<rparr>"
  let ?d = "hd example_create_profiles"
  let ?st = "\<lparr>pSupported = VK_TRUE, supportedBlocks = [], unsupportedBlocks = []\<rparr>"
  let ?id = "\<lambda>(t::VkStructureType) (p::nat \<Rightarrow> 32 word). p"
  let ?idf = "\<lambda>(f::VkFormat) (t::VkStructureType) (p::nat \<Rightarrow> 32 word). p"
  note gates = version_gates_mark_unsupported [OF example_create_desc(1),
      where api_version = VK_API_VERSION_1_0 and iexts = "[]" and st = ?st
        and query_features = ?id and query_properties = ?id and query_formats = ?idf
        and dexts = "[]" and ok = True and s = "[]" and u = "[]"]
  have spec: "specVersion (props ?d) < specVersion ?g" by (simp add: example_create_desc)
  have api: "VK_API_VERSION_1_0 \<noteq> 0 \<and>
      \<not> vpCheckVersion VK_API_VERSION_1_0 (minApiVersion ?d)"
    by (simp add: example_create_desc example_versions)
  from spec have ig: "\<not> instance_gates VK_API_VERSION_1_0 ?d ?g"
    by (simp add: instance_gates_def not_le)
  from spec have dg: "\<not> device_gates ?id ?d ?g"
    by (simp add: device_gates_def not_le)
  from gates obtain xs ys where inst:
    "vpGetInstanceProfileSupportSingleProfile example_create_profiles VK_API_VERSION_1_0 [] ?g ?st =
     (VK_SUCCESS,
      ?st\<lparr>pSupported :=
           (if instance_gates VK_API_VERSION_1_0 ?d ?g \<and> instance_capabilities_supported [] ?d
            then pSupported ?st else VK_FALSE),
         supportedBlocks := supportedBlocks ?st @ xs,
         unsupportedBlocks := unsupportedBlocks ?st @
           (if specVersion (props ?d) < specVersion ?g
            then [\<lparr>profiles = ?g, apiVersion = VK_API_VERSION_1_0, blockName = ''''\<rparr>] else []) @
           (if VK_API_VERSION_1_0 \<noteq> 0 \<and> \<not> vpCheckVersion VK_API_VERSION_1_0 (minApiVersion ?d)
            then [\<lparr>profiles = ?g, apiVersion = VK_API_VERSION_1_0, blockName = ''''\<rparr>] else []) @ ys\<rparr>)"
    by blast
  from gates obtain s' u' where dev:
    "device_profiles example_create_profiles ?id ?id ?idf [] [?g] (True, [], []) =
           Some (True \<and> device_gates ?id ?d ?g \<and>
                 device_capabilities_supported ?id ?id ?idf [] ?d, s', u')"
    by blast
  from dev dg have dev': "\<exists>s' u'. device_profiles example_create_profiles ?id ?id ?idf [] [?g]
      (True, [], []) = Some (False, s', u')"
    by simp
  from inst ig spec api
  have inst': "\<exists>st'. vpGetInstanceProfileSupportSingleProfile example_create_profiles
            VK_API_VERSION_1_0 [] ?g ?st = (VK_SUCCESS, st') \<and>
          pSupported st' = VK_FALSE \<and>
          take 2 (unsupportedBlocks st') =
            [\<lparr>profiles = ?g, apiVersion = VK_API_VERSION_1_0, blockName = ''''\<rparr>,
             \<lparr>profiles = ?g, apiVersion = VK_API_VERSION_1_0, blockName = ''''\<rparr>]"
    by simp
  from inst' dev' show ?thesis by (rule conjI)
qed

text \<open>
  The claim as stated fails: the table declares spec version 2 of the profile, which
  exceeds the version 1 that the caller declares, and with an instance that supports
  every capability set the check leaves \<open>pSupported\<close> true and records no
  unsupported block.  (The code rejects the opposite case, a caller that declares a
  spec version above the one of the table.)
\<close>

theorem spec_version_gate_counterexample:
  "vpGetProfileDesc example_profiles ''VP_EXAMPLE_compute'' = Some (hd example_profiles) \<and>
   specVersion (props (hd example_profiles)) = 2 \<and>
   vpGetInstanceProfileSupportSingleProfile example_profiles 0
     [\<lparr>extensionName = ''VK_EXT_debug_utils'', ext_specVersion = 1\<rparr>]
     \<lparr>profileName = ''VP_EXAMPLE_compute'', specVersion = 1\<rparr>
     \<lparr>pSupported = VK_TRUE, supportedBlocks = [], unsupportedBlocks = []\<rparr> =
   (VK_SUCCESS,
    \<lparr>pSupported = VK_TRUE,
     supportedBlocks =
       [\<lparr>profiles = \<lparr>profileName = ''VP_EXAMPLE_compute'', specVersion = 1\<rparr>, apiVersion = 0,
         blockName = ''baseline''\<rparr>,
        \<lparr>profiles = \<lparr>profileName = ''VP_EXAMPLE_compute'', specVersion = 1\<rparr>, apiVersion = 0,
         blockName = ''fallback''\<rparr>,
        \<lparr>profiles = \<lparr>profileName = ''VP_EXAMPLE_compute'', specVersion = 1\<rparr>, apiVersion = 0,
         blockName = ''debug''\<rparr>],
     unsupportedBlocks = []\<rparr>)"
  by (simp add: vpGetProfileDesc_def example_profiles_def example_profile_def
        vpGetInstanceProfileSupportSingleProfile_def example_variant_def Let_def)


section \<open>The two-call convention\<close>

lemma vpGetProfiles_two_call:
  "vpGetProfiles ps n None = Inr (VK_SUCCESS, length ps, None)"
  "n < length ps \<Longrightarrow> n \<le> length array \<Longrightarrow>
   vpGetProfiles ps n (Some array) =
     Inr (VK_INCOMPLETE, n, Some (take n (map props ps) @ drop n array))"
  "length ps \<le> n \<Longrightarrow> length ps \<le> length array \<Longrightarrow>
   vpGetProfiles ps n (Some array) =
     Inr (VK_SUCCESS, length ps, Some (map props ps @ drop (length ps) array))"
  by (simp_all add: vpGetProfiles_def write_entries_def Let_def)

lemma vpGetProfileExtensionProperties_two_call:
  assumes "extension_profiles ps pBlockName type (GatherProfiles ps pProfile pBlockName)
             ((if pBlockName = None then VK_SUCCESS else VK_INCOMPLETE), []) =
           Some (result, results)"
  shows "vpGetProfileExtensionProperties ps pProfile pBlockName type n None =
           Inr (result, length results, None)"
    and "n < length results \<Longrightarrow> n \<le> length array \<Longrightarrow>
         vpGetProfileExtensionProperties ps pProfile pBlockName type n (Some array) =
           Inr (VK_INCOMPLETE, n, Some (take n results @ drop n array))"
    and "length results \<le> n \<Longrightarrow> length results \<le> length array \<Longrightarrow>
         vpGetProfileExtensionProperties ps pProfile pBlockName type n (Some array) =
           Inr (result, length results, Some (results @ drop (length results) array))"
  using assms
  by (simp_all add: vpGetProfileExtensionProperties_def write_entries_def Let_def)

lemma vpGetPhysicalDeviceProfileVariantsSupport_copy:
  assumes answers: "device_query_answers vp exts features2 properties2 formatProperties2"
    and known: "\<forall>g\<in>set (GatherProfiles ps pProfile None).
                  vpGetProfileDesc ps (profileName g) \<noteq> None"
  shows "\<exists>supported blocks.
           vpGetPhysicalDeviceProfileVariantsSupport ps vp pProfile supported_in n None =
             Inr (VK_SUCCESS, supported, length blocks, None) \<and>
           (\<forall>array.
              vpGetPhysicalDeviceProfileVariantsSupport ps vp pProfile supported_in n (Some array) =
                (if length blocks \<le> length array
                 then Inr (VK_SUCCESS, supported, min n (length blocks),
                           Some (blocks @ drop (length blocks) array))
                 else Inl BufferOverflow))"
proof -
  from answers obtain count1 w1 count2 written q
    where calls: "vkEnumerateDeviceExtensionProperties vp None = (VK_SUCCESS, count1, w1)"
        "vkEnumerateDeviceExtensionProperties vp (if count1 > 0 then Some count1 else None) =
          (VK_SUCCESS, count2, written)"
      and exts: "exts = (if count2 > 0 then resized count2 (resized count1 written)
                else resized count1 written)"
      and entry: "pfnGetPhysicalDeviceFeatures2 vp = Some features2"
        "pfnGetPhysicalDeviceProperties2 vp = Some properties2"
        "pfnGetPhysicalDeviceFormatProperties2 vp = Some formatProperties2"
        "pfnGetPhysicalDeviceQueueFamilyProperties2 vp = Some q"
    unfolding device_query_answers_def by auto
  have "pProfile \<in> set (GatherProfiles ps pProfile None)" by (simp add: GatherProfiles_def)
  with known obtain pProfileDesc where desc: "vpGetProfileDesc ps (profileName pProfile) = Some pProfileDesc"
    by auto
  from device_profiles_supported [OF known, of features2 properties2 formatProperties2 exts True "[]" "[]"]
  obtain ok s' u' where run: "device_profiles ps features2 properties2 formatProperties2 exts
        (GatherProfiles ps pProfile None) (True, [], []) = Some (ok, s', u')"
    by blast
  define blocks where "blocks = (if ok then s' else u')"
  define supported where "supported = (if ok then VK_TRUE else VK_FALSE)"
  have none: "vpGetPhysicalDeviceProfileVariantsSupport ps vp pProfile supported_in n None =
             Inr (VK_SUCCESS, supported, length blocks, None)"
    unfolding vpGetPhysicalDeviceProfileVariantsSupport_def
    by (simp add: calls exts [symmetric] entry desc run Let_def blocks_def supported_def)
  have some: "vpGetPhysicalDeviceProfileVariantsSupport ps vp pProfile supported_in n (Some array) =
                (if length blocks \<le> length array
                 then Inr (VK_SUCCESS, supported, min n (length blocks),
                           Some (blocks @ drop (length blocks) array))
                 else Inl BufferOverflow)" for array
    unfolding vpGetPhysicalDeviceProfileVariantsSupport_def
    by (simp add: calls exts [symmetric] entry desc run Let_def blocks_def [symmetric]
          supported_def [symmetric] write_entries_def min_def)
  from none some show ?thesis by blast
qed

text \<open>
  Claim C9 against the code.  \<open>vpGetProfiles\<close> follows the convention: with a null
  array it stores the number of profiles; with an array and a count below that number
  it returns \<^verbatim>\<open>VK_INCOMPLETE\<close>, leaves the count and writes that many entries; with a
  count that suffices it stores the number and writes every entry.  The device support
  query, which takes a count and an array of blocks in the same way, does not: when the
  foreign calls answer and the gathered profiles are in the table, there is a list of
  blocks whose length it stores for a null array, and for an array it writes every
  block of that list whatever the count of the caller is (past the end of an array
  that holds fewer), and returns \<^verbatim>\<open>VK_SUCCESS\<close> also when the count is too small.
\<close>

theorem two_call_convention:
  "vpGetProfiles ps n None = Inr (VK_SUCCESS, length ps, None) \<and>
   (n < length ps \<and> n \<le> length array \<longrightarrow>
      vpGetProfiles ps n (Some array) =
        Inr (VK_INCOMPLETE, n, Some (take n (map props ps) @ drop n array))) \<and>
   (length ps \<le> n \<and> length ps \<le> length array \<longrightarrow>
      vpGetProfiles ps n (Some array) =
        Inr (VK_SUCCESS, length ps, Some (map props ps @ drop (length ps) array))) \<and>
   (device_query_answers vp exts query_features query_properties query_formats \<and>
    (\<forall>g\<in>set (GatherProfiles ps pProfile None). vpGetProfileDesc ps (profileName g) \<noteq> None) \<longrightarrow>
    (\<exists>supported blocks.
       vpGetPhysicalDeviceProfileVariantsSupport ps vp pProfile supported_in n None =
         Inr (VK_SUCCESS, supported, length blocks, None) \<and>
       (\<forall>block_array.
          vpGetPhysicalDeviceProfileVariantsSupport ps vp pProfile supported_in n (Some block_array) =
            (if length blocks \<le> length block_array
             then Inr (VK_SUCCESS, supported, min n (length blocks),
                       Some (blocks @ drop (length blocks) block_array))
             else Inl BufferOverflow))))"
proof -
  have "\<exists>supported blocks.
       vpGetPhysicalDeviceProfileVariantsSupport ps vp pProfile supported_in n None =
         Inr (VK_SUCCESS, supported, length blocks, None) \<and>
       (\<forall>block_array.
          vpGetPhysicalDeviceProfileVariantsSupport ps vp pProfile supported_in n (Some block_array) =
            (if length blocks \<le> length block_array
             then Inr (VK_SUCCESS, supported, min n (length blocks),
                       Some (blocks @ drop (length blocks) block_array))
             else Inl BufferOverflow))"
    if "device_query_answers vp exts query_features query_properties query_formats"
      and "\<forall>g\<in>set (GatherProfiles ps pProfile None). vpGetProfileDesc ps (profileName g) \<noteq> None"
    using that by (rule vpGetPhysicalDeviceProfileVariantsSupport_copy)
  with vpGetProfiles_two_call show ?thesis by blast
qed

theorem two_call_convention_witness:
  "vpGetProfiles example_profiles 0 (Some [\<lparr>profileName = ''x'', specVersion = 0\<rparr>]) =
     Inr (VK_INCOMPLETE, 0, Some [\<lparr>profileName = ''x'', specVersion = 0\<rparr>]) \<and>
   vpGetPhysicalDeviceProfileVariantsSupport example_profiles example_device example_profile
     VK_FALSE 0 None = Inr (VK_SUCCESS, VK_TRUE, 2, None) \<and>
   vpGetPhysicalDeviceProfileVariantsSupport example_profiles example_device example_profile
     VK_FALSE 1 (Some [example_block ''x'', example_block ''y'']) =
     Inr (VK_SUCCESS, VK_TRUE, 1, Some [example_block ''baseline'', example_block ''debug'']) \<and>
   vpGetPhysicalDeviceProfileVariantsSupport example_profiles example_device example_profile
     VK_FALSE 1 (Some [example_block ''x'']) = Inl BufferOverflow \<and>
   vpGetInstanceProfileVariantsSupport example_profiles
     (example_instance [''VK_EXT_debug_utils'', ''VK_KHR_get_physical_device_properties2''])
     example_profile VK_FALSE 1
     (Some [example_block ''x'', example_block ''y'', example_block ''z'']) =
     Inr (VK_INCOMPLETE, VK_TRUE, 1,
          Some [example_block ''baseline'', example_block ''fallback'', example_block ''debug''])"
proof -
  let ?f2 = "\<lambda>t p. if t = VK_STRUCTURE_TYPE_PHYSICAL_DEVICE_TIMELINE_SEMAPHORE_FEATURES
                 then p(timelineSemaphore := VK_TRUE) else p"
  let ?p2 = "\<lambda>t p. if t = VK_STRUCTURE_TYPE_PHYSICAL_DEVICE_PROPERTIES_2_KHR
                 then p(properties_apiVersion := VK_API_VERSION_1_1) else p"
  let ?fp2 = "\<lambda>(f::VkFormat) (t::VkStructureType) (p::nat \<Rightarrow> 32 word). p"
  let ?dexts = "[\<lparr>extensionName = ''VK_KHR_push_descriptor'', ext_specVersion = 2\<rparr>]"
  note convention = two_call_convention [where ps = example_profiles and n = 0
      and array = "[\<lparr>profileName = ''x'', specVersion = 0\<rparr>]" and vp = example_device
      and exts = ?dexts and query_features = ?f2 and query_properties = ?p2
      and query_formats = ?fp2 and pProfile = example_profile and supported_in = VK_FALSE]
  have size: "length example_profiles = 1" by (simp add: example_profiles_def)
  from convention size
  have profiles: "vpGetProfiles example_profiles 0 (Some [\<lparr>profileName = ''x'', specVersion = 0\<rparr>]) =
     Inr (VK_INCOMPLETE, 0, Some [\<lparr>profileName = ''x'', specVersion = 0\<rparr>])"
    by simp
  have count: "vpGetPhysicalDeviceProfileVariantsSupport example_profiles example_device
     example_profile VK_FALSE 0 None = Inr (VK_SUCCESS, VK_TRUE, 2, None)"
    by code_simp
  have fill: "vpGetPhysicalDeviceProfileVariantsSupport example_profiles example_device
     example_profile VK_FALSE 1 (Some [example_block ''x'', example_block ''y'']) =
     Inr (VK_SUCCESS, VK_TRUE, 1, Some [example_block ''baseline'', example_block ''debug''])"
    by code_simp
  have overflow: "vpGetPhysicalDeviceProfileVariantsSupport example_profiles example_device
     example_profile VK_FALSE 1 (Some [example_block ''x'']) = Inl BufferOverflow"
    by code_simp
  have inst: "vpGetInstanceProfileVariantsSupport example_profiles
     (example_instance [''VK_EXT_debug_utils'', ''VK_KHR_get_physical_device_properties2''])
     example_profile VK_FALSE 1
     (Some [example_block ''x'', example_block ''y'', example_block ''z'']) =
     Inr (VK_INCOMPLETE, VK_TRUE, 1,
          Some [example_block ''baseline'', example_block ''fallback'', example_block ''debug''])"
    by code_simp
  from profiles count fill overflow inst show ?thesis by blast
qed

text \<open>
  The same on the generated table.  The device query for the compute profile has one
  block; with a count of 0 and an array of one element it writes the block and returns
  \<^verbatim>\<open>VK_SUCCESS\<close>.  The instance query for the debug profile, named at a spec version
  above the one of the table on an instance without extensions, has two unsupported
  blocks; with a count of 1 it writes both.
\<close>

lemma support_queries_copy_on_detail_profiles:
  "vpGetPhysicalDeviceProfileVariantsSupport (detail_profiles example_header) example_device
     compute_profile VK_FALSE 0 (Some [example_block ''x'']) =
     Inr (VK_SUCCESS, VK_FALSE, 0,
          Some [\<lparr>profiles = compute_profile, apiVersion = VK_MAKE_API_VERSION 0 1 2 0,
                 blockName = ''baseline''\<rparr>]) \<and>
   vpGetInstanceProfileVariantsSupport (detail_profiles example_header) (example_instance [])
     \<lparr>profileName = ''VP_EXAMPLE_compute_debug'', specVersion = 2\<rparr> VK_TRUE 1
     (Some [example_block ''x'', example_block ''y'']) =
     Inr (VK_INCOMPLETE, VK_FALSE, 1,
          Some [\<lparr>profiles = \<lparr>profileName = ''VP_EXAMPLE_compute_debug'', specVersion = 2\<rparr>,
                 apiVersion = VK_API_VERSION_1_0, blockName = ''''\<rparr>,
                \<lparr>profiles = \<lparr>profileName = ''VP_EXAMPLE_compute_debug'', specVersion = 2\<rparr>,
                 apiVersion = VK_API_VERSION_1_0, blockName = ''debug''\<rparr>])"
  by code_simp


section \<open>The order of the variants and the first match\<close>






end
